theory Spec2Isabelle
  imports Complex_Main "HOL-Library.Signed_Division"
begin

section \<open>C integers\<close>

text \<open>
  The programs compute with C \<open>int\<close> (32 bits on every CUDA host), \<open>unsigned int\<close>
  (the grid and block dimensions of \<open>cuLaunchKernel\<close>) and \<open>size_t\<close> (byte counts).
  Values are mathematical integers; every arithmetic operation of the source is followed
  by the reduction to its type. C leaves signed overflow undefined; the model takes the
  two's-complement wrap-around of the machines the programs run on. Integer division
  truncates towards zero (\<open>sdiv\<close>) and traps on a zero divisor and on \<open>INT_MIN / -1\<close>.
\<close>

definition INT_MAX :: int where
  "INT_MAX = 2147483647"

definition INT_MIN :: int where
  "INT_MIN = - 2147483648"

definition int32 :: "int \<Rightarrow> int" where
  "int32 x = (x + 2147483648) mod 4294967296 - 2147483648"

definition uint32 :: "int \<Rightarrow> int" where
  "uint32 x = x mod 4294967296"

definition size_t :: "int \<Rightarrow> int" where
  "size_t x = x mod 18446744073709551616"

definition c_add :: "int \<Rightarrow> int \<Rightarrow> int" where
  "c_add x y = int32 (x + y)"

definition c_sub :: "int \<Rightarrow> int \<Rightarrow> int" where
  "c_sub x y = int32 (x - y)"

definition c_mul :: "int \<Rightarrow> int \<Rightarrow> int" where
  "c_mul x y = int32 (x * y)"

definition c_div :: "int \<Rightarrow> int \<Rightarrow> int option" where
  "c_div x y = (if y = 0 \<or> (x = INT_MIN \<and> y = - 1) then None else Some (x sdiv y))"

text \<open>\<open>sizeof(int)\<close> on these hosts.\<close>

definition sizeof_int :: int where
  "sizeof_int = 4"

section \<open>The driver and what a run leaves behind\<close>

text \<open>
  \<open>#define N 10;\<close> (the semicolon of the macro ends the declaration \<open>int n = N;\<close>
  with an empty statement).
\<close>

definition N :: int where
  "N = 10"

text \<open>
  \<open>CUresult\<close> is the driver's enumeration of return codes: \<open>CUDA_SUCCESS\<close>, and every
  other code with its number.
\<close>

datatype CUresult = CUDA_SUCCESS | CUDA_ERROR nat

datatype attribute =
    CU_DEVICE_ATTRIBUTE_COMPUTE_CAPABILITY_MAJOR
  | CU_DEVICE_ATTRIBUTE_COMPUTE_CAPABILITY_MINOR
  | CU_DEVICE_ATTRIBUTE_UNIFIED_ADDRESSING
  | CU_DEVICE_ATTRIBUTE_MAX_BLOCK_DIM_X

text \<open>
  The three vectors: \<open>VA\<close> is \<open>a\<close> and \<open>d_a\<close>, \<open>VB\<close> is \<open>b\<close> and \<open>d_b\<close>,
  \<open>VC\<close> is \<open>c\<close> and \<open>d_c\<close>.
\<close>

datatype vec = VA | VB | VC

text \<open>
  A vendor call with the arguments the programs choose: flags and ordinals, file and
  kernel names, byte counts, and for \<open>cuLaunchKernel\<close> the three grid dimensions, the
  three block dimensions, the shared memory size, the stream and the kernel argument
  \<open>n\<close>. Handles (device, context, module, function, device pointers) are left out.
\<close>

datatype vcall =
    cuInit int
  | cuDeviceGetCount
  | cuDeviceGet int
  | cuDeviceGetName int
  | cuDeviceGetAttribute attribute
  | cuDeviceTotalMem
  | cuCtxCreate int
  | cuModuleLoad string
  | cuModuleGetFunction string
  | cuCtxDestroy
  | cuMemAlloc vec int
  | cuMemAllocHost vec int
  | cuMemFree vec
  | cuMemFreeHost vec
  | cuMemcpyHtoD vec int
  | cuMemcpyDtoH vec int
  | cuLaunchKernel int int int int int int int int int
  | cuStreamSynchronize int

text \<open>
  The driver, the device and the kernel image \<open>kernel.ptx\<close> are outside the programs.
  An environment fixes what they answer: the return code of every call, the values
  written through the out-parameters, the contents of the output vector once the kernel
  has been launched (as the host gets it, by \<open>cuMemcpyDtoH\<close> or by reading the pinned
  buffer), and the indeterminate contents of the arrays before anything is stored.
\<close>

record env =
  drv_result :: "vcall \<Rightarrow> CUresult"
  drv_deviceCount :: int
  drv_deviceName :: string
  drv_attr :: "attribute \<Rightarrow> int"
  drv_totalMem :: int
  drv_output :: "int \<Rightarrow> int"
  drv_uninit :: "vec \<Rightarrow> int \<Rightarrow> int"

datatype arg = ArgInt int | ArgULL int | ArgStr string | ArgRes CUresult

text \<open>
  What a run does, in order: vendor calls, \<open>printf\<close> (\<open>Stdout\<close>) and
  \<open>fprintf(stderr, ...)\<close> (\<open>Stderr\<close>) with format and arguments, and the host's stores
  to and loads from the elements of the three vectors. Loads inside one expression are
  listed in the order of the text.
\<close>

datatype event =
    Call vcall
  | Stdout string "arg list"
  | Stderr string "arg list"
  | HostWrite vec int int
  | HostRead vec int

text \<open>
  How the process ends: \<open>exit\<close> or the return of \<open>main\<close> with a status, or the trap
  of an integer division.
\<close>

datatype halt = Exit int | Trap

text \<open>
  A piece of program is its events and, when it ends the process, how. Sequencing stops
  at the first piece that ends the process.
\<close>

type_synonym run = "event list \<times> halt option"

definition skip :: run where
  "skip = ([], None)"

definition emit :: "event \<Rightarrow> run" where
  "emit e = ([e], None)"

definition events :: "event list \<Rightarrow> run" where
  "events es = (es, None)"

definition stop :: "halt \<Rightarrow> run" where
  "stop h = ([], Some h)"

definition seq :: "run \<Rightarrow> run \<Rightarrow> run" where
  "seq p q = (case snd p of Some h \<Rightarrow> p | None \<Rightarrow> (fst p @ fst q, snd q))"

fun seqs :: "run list \<Rightarrow> run" where
  "seqs [] = skip"
| "seqs (p # ps) = seq p (seqs ps)"

section \<open>What both programs share\<close>

text \<open>
  \<open>__checkCudaErrors\<close>, and the macro \<open>checkCudaErrors\<close> around a vendor call: the call
  is made, then its code is tested. \<open>__FILE__\<close> and \<open>__LINE__\<close> are arguments; the
  line is the one the macro invocation starts on.
\<close>

definition checkCudaErrors_fn :: "CUresult \<Rightarrow> string \<Rightarrow> int \<Rightarrow> run" where
  "checkCudaErrors_fn err file line =
     (if CUDA_SUCCESS \<noteq> err then
        seq (emit (Stderr ''CUDA Driver API error = %04d from file <%s>, line %i.\<newline>''
                     [ArgRes err, ArgStr file, ArgInt line]))
            (stop (Exit (- 1)))
      else skip)"

definition checkCudaErrors :: "env \<Rightarrow> string \<Rightarrow> int \<Rightarrow> vcall \<Rightarrow> run" where
  "checkCudaErrors d file line call =
     seq (emit (Call call)) (checkCudaErrors_fn (drv_result d call) file line)"

definition module_file :: string where
  "module_file = ''kernel.ptx''"

definition kernel_name :: string where
  "kernel_name = ''Sum''"

definition finalizeCUDA :: run where
  "finalizeCUDA = emit (Call cuCtxDestroy)"

text \<open>
  \<open>runKernel\<close> is the same in both files but for the line numbers: the block size is
  queried, the grid is \<open>(n+block_size-1)/block_size\<close> in \<open>int\<close>, converted to
  \<open>unsigned int\<close> with the block size.
\<close>

definition grid_dim_x :: "int \<Rightarrow> int \<Rightarrow> int option" where
  "grid_dim_x n block_size = c_div (c_sub (c_add n block_size) 1) block_size"

definition runKernel :: "env \<Rightarrow> string \<Rightarrow> int \<Rightarrow> int \<Rightarrow> int \<Rightarrow> run" where
  "runKernel d file line_attr line_launch n =
     (let block_size = drv_attr d CU_DEVICE_ATTRIBUTE_MAX_BLOCK_DIM_X in
      seqs
       [checkCudaErrors d file line_attr
          (cuDeviceGetAttribute CU_DEVICE_ATTRIBUTE_MAX_BLOCK_DIM_X),
        (case grid_dim_x n block_size of
           None \<Rightarrow> stop Trap
         | Some g \<Rightarrow>
             checkCudaErrors d file line_launch
               (cuLaunchKernel (uint32 g) 1 1 (uint32 block_size) 1 1 0 0 n))])"

text \<open>The head of \<open>initCUDA\<close>, lines 41 to 70 of both files.\<close>

definition initCUDA_head :: "env \<Rightarrow> string \<Rightarrow> run" where
  "initCUDA_head d file =
     (let err = drv_result d (cuInit 0);
          deviceCount = (if err = CUDA_SUCCESS then drv_deviceCount d else 0);
          major = drv_attr d CU_DEVICE_ATTRIBUTE_COMPUTE_CAPABILITY_MAJOR;
          minor = drv_attr d CU_DEVICE_ATTRIBUTE_COMPUTE_CAPABILITY_MINOR;
          totalGlobalMem = drv_totalMem d in
      seqs
       [emit (Call (cuInit 0)),
        (if err = CUDA_SUCCESS then checkCudaErrors d file 46 cuDeviceGetCount else skip),
        (if deviceCount = 0 then
           seq (emit (Stderr ''Error: no devices supporting CUDA\<newline>'' []))
               (stop (Exit (- 1)))
         else skip),
        checkCudaErrors d file 54 (cuDeviceGet 0),
        emit (Call (cuDeviceGetName 100)),
        emit (Stdout ''> Using device 0: %s\<newline>'' [ArgStr (drv_deviceName d)]),
        checkCudaErrors d file 61
          (cuDeviceGetAttribute CU_DEVICE_ATTRIBUTE_COMPUTE_CAPABILITY_MAJOR),
        checkCudaErrors d file 62
          (cuDeviceGetAttribute CU_DEVICE_ATTRIBUTE_COMPUTE_CAPABILITY_MINOR),
        emit (Stdout ''> GPU Device has SM %d.%d compute capability\<newline>''
                [ArgInt major, ArgInt minor]),
        checkCudaErrors d file 65 cuDeviceTotalMem,
        emit (Stdout ''  Total amount of global memory:   %llu bytes\<newline>''
                [ArgULL totalGlobalMem]),
        emit (Stdout ''  64-bit Memory Address:           %s\<newline>''
                [ArgStr (if totalGlobalMem > 4 * 1024 * 1024 * 1024
                      then ''YES'' else ''NO'')])])"

text \<open>
  The loop \<open>for (int i = 0; i < n; ++i) { a[i] = n - i; b[i] = i * i; }\<close> of both
  \<open>main\<close> functions (on \<open>a\<close>, \<open>b\<close> in one file and on \<open>d_a\<close>, \<open>d_b\<close> in the
  other). The loop state is the events so far and the two arrays. \<open>++i\<close> cannot
  overflow below the bound \<open>n\<close>.
\<close>

function init_loop ::
  "int \<Rightarrow> int \<Rightarrow> event list \<times> (int \<Rightarrow> int) \<times> (int \<Rightarrow> int)
     \<Rightarrow> event list \<times> (int \<Rightarrow> int) \<times> (int \<Rightarrow> int)" where
  "init_loop i n (es, a, b) =
     (if i < n then
        init_loop (i + 1) n
          (es @ [HostWrite VA i (c_sub n i), HostWrite VB i (c_mul i i)],
           a(i := c_sub n i), b(i := c_mul i i))
      else (es, a, b))"
  by pat_completeness auto
termination
  by (relation "measure (\<lambda>(i, n, s). nat (n - i))") auto

definition error_line :: "int \<Rightarrow> int \<Rightarrow> int \<Rightarrow> event" where
  "error_line i expected got =
     Stdout ''* Error at array position %d: Expected %d, Got %d\<newline>''
       [ArgInt i, ArgInt expected, ArgInt got]"

section \<open>driver_api.cpp\<close>

definition da_file :: string where
  "da_file = ''driver_api.cpp''"

text \<open>The label \<open>exit:\<close> of \<open>initCUDA\<close>.\<close>

definition da_exit :: run where
  "da_exit = seq (emit (Call cuCtxDestroy)) (stop (Exit (- 1)))"

definition da_initCUDA :: "env \<Rightarrow> run" where
  "da_initCUDA d =
     seqs
      [initCUDA_head d da_file,
       emit (Call (cuCtxCreate 0)),
       (if drv_result d (cuCtxCreate 0) \<noteq> CUDA_SUCCESS then
          seq (emit (Stderr ''* Error initializing the CUDA context.\<newline>'' [])) da_exit
        else skip),
       emit (Call (cuModuleLoad module_file)),
       (if drv_result d (cuModuleLoad module_file) \<noteq> CUDA_SUCCESS then
          seq (emit (Stderr ''* Error loading the module %s\<newline>'' [ArgStr module_file]))
              da_exit
        else skip),
       emit (Call (cuModuleGetFunction kernel_name)),
       (if drv_result d (cuModuleGetFunction kernel_name) \<noteq> CUDA_SUCCESS then
          seq (emit (Stderr ''* Error getting kernel function %s\<newline>''
                       [ArgStr kernel_name]))
              da_exit
        else skip)]"

definition da_setupDeviceMemory :: "env \<Rightarrow> int \<Rightarrow> run" where
  "da_setupDeviceMemory d n =
     seqs
      [checkCudaErrors d da_file 103 (cuMemAlloc VA (size_t (sizeof_int * n))),
       checkCudaErrors d da_file 104 (cuMemAlloc VB (size_t (sizeof_int * n))),
       checkCudaErrors d da_file 105 (cuMemAlloc VC (size_t (sizeof_int * n)))]"

definition da_releaseDeviceMemory :: "env \<Rightarrow> run" where
  "da_releaseDeviceMemory d =
     seqs
      [checkCudaErrors d da_file 110 (cuMemFree VA),
       checkCudaErrors d da_file 111 (cuMemFree VB),
       checkCudaErrors d da_file 112 (cuMemFree VC)]"

definition da_runKernel :: "env \<Rightarrow> int \<Rightarrow> run" where
  "da_runKernel d n = runKernel d da_file 119 121 n"

text \<open>
  The loop of lines 157 to 161: \<open>c[i]\<close> is compared with \<open>a[i] + b[i]\<close>, and a
  difference is printed.
\<close>

function da_check_loop ::
  "int \<Rightarrow> int \<Rightarrow> (int \<Rightarrow> int) \<Rightarrow> (int \<Rightarrow> int) \<Rightarrow> (int \<Rightarrow> int) \<Rightarrow> event list
     \<Rightarrow> event list" where
  "da_check_loop i n a b c es =
     (if i < n then
        da_check_loop (i + 1) n a b c
          (es @ [HostRead VC i, HostRead VA i, HostRead VB i] @
             (if c i \<noteq> c_add (a i) (b i) then
                [HostRead VA i, HostRead VB i, HostRead VC i,
                 error_line i (c_add (a i) (b i)) (c i)]
              else []))
      else es)"
  by pat_completeness auto
termination
  by (relation "measure (\<lambda>(i, n, s). nat (n - i))") auto

definition da_main :: "env \<Rightarrow> run" where
  "da_main d =
     (let n = N;
          (w, a, b) = init_loop 0 n ([], drv_uninit d VA, drv_uninit d VB);
          c = drv_output d in
      seqs
       [events w,
        emit (Stdout ''- Initializing...\<newline>'' []),
        da_initCUDA d,
        da_setupDeviceMemory d n,
        checkCudaErrors d da_file 147 (cuMemcpyHtoD VA (size_t (sizeof_int * n))),
        checkCudaErrors d da_file 148 (cuMemcpyHtoD VB (size_t (sizeof_int * n))),
        emit (Stdout ''# Running the kernel...\<newline>'' []),
        da_runKernel d n,
        emit (Stdout ''# Kernel complete.\<newline>'' []),
        checkCudaErrors d da_file 156 (cuMemcpyDtoH VC (size_t (sizeof_int * n))),
        events (da_check_loop 0 n a b c []),
        emit (Stdout ''*** All checks complete.\<newline>'' []),
        emit (Stdout ''- Finalizing...\<newline>'' []),
        da_releaseDeviceMemory d,
        finalizeCUDA,
        stop (Exit 0)])"

section \<open>unified_memory.cpp\<close>

definition um_file :: string where
  "um_file = ''unified_memory.cpp''"

text \<open>The labels \<open>exitCtx:\<close> and \<open>exit:\<close> of \<open>initCUDA\<close>.\<close>

definition um_exit :: run where
  "um_exit = stop (Exit (- 1))"

definition um_exitCtx :: run where
  "um_exitCtx = seq (emit (Call cuCtxDestroy)) um_exit"

definition um_initCUDA :: "env \<Rightarrow> run" where
  "um_initCUDA d =
     (let hasUVM = drv_attr d CU_DEVICE_ATTRIBUTE_UNIFIED_ADDRESSING in
      seqs
       [initCUDA_head d um_file,
        checkCudaErrors d um_file 74
          (cuDeviceGetAttribute CU_DEVICE_ATTRIBUTE_UNIFIED_ADDRESSING),
        (if hasUVM \<noteq> 0 then
           emit (Stdout ''  Unified Virtual Addressing is supported on this device\<newline>'' [])
         else
           seq (emit (Stderr
                  ''Unified Virtual Addressing is not supported on this device\<newline>'' []))
               um_exit),
        emit (Call (cuCtxCreate 0)),
        (if drv_result d (cuCtxCreate 0) \<noteq> CUDA_SUCCESS then
           seq (emit (Stderr ''* Error initializing the CUDA context.\<newline>'' []))
               um_exitCtx
         else skip),
        emit (Call (cuModuleLoad module_file)),
        (if drv_result d (cuModuleLoad module_file) \<noteq> CUDA_SUCCESS then
           seq (emit (Stderr ''* Error loading the module %s\<newline>'' [ArgStr module_file]))
               um_exitCtx
         else skip),
        emit (Call (cuModuleGetFunction kernel_name)),
        (if drv_result d (cuModuleGetFunction kernel_name) \<noteq> CUDA_SUCCESS then
           seq (emit (Stderr ''* Error getting kernel function %s\<newline>''
                        [ArgStr kernel_name]))
               um_exitCtx
         else skip)])"

definition um_setupDeviceMemory :: "env \<Rightarrow> int \<Rightarrow> run" where
  "um_setupDeviceMemory d n =
     seqs
      [checkCudaErrors d um_file 114 (cuMemAllocHost VA (size_t (sizeof_int * n))),
       checkCudaErrors d um_file 115 (cuMemAllocHost VB (size_t (sizeof_int * n))),
       checkCudaErrors d um_file 116 (cuMemAllocHost VC (size_t (sizeof_int * n)))]"

definition um_releaseDeviceMemory :: "env \<Rightarrow> run" where
  "um_releaseDeviceMemory d =
     seqs
      [checkCudaErrors d um_file 121 (cuMemFreeHost VA),
       checkCudaErrors d um_file 122 (cuMemFreeHost VB),
       checkCudaErrors d um_file 123 (cuMemFreeHost VC)]"

definition um_runKernel :: "env \<Rightarrow> int \<Rightarrow> run" where
  "um_runKernel d n = runKernel d um_file 130 132 n"

text \<open>
  Each of the two loops of lines 170 to 183: as above, and \<open>correct\<close> is cleared at a
  difference. The loop state is the events so far and \<open>correct\<close>.
\<close>

function um_check_loop ::
  "int \<Rightarrow> int \<Rightarrow> (int \<Rightarrow> int) \<Rightarrow> (int \<Rightarrow> int) \<Rightarrow> (int \<Rightarrow> int) \<Rightarrow> event list \<times> bool
     \<Rightarrow> event list \<times> bool" where
  "um_check_loop i n a b c (es, correct) =
     (if i < n then
        um_check_loop (i + 1) n a b c
          (if c i \<noteq> c_add (a i) (b i) then
             (es @ [HostRead VC i, HostRead VA i, HostRead VB i,
                    HostRead VA i, HostRead VB i, HostRead VC i,
                    error_line i (c_add (a i) (b i)) (c i)],
              False)
           else (es @ [HostRead VC i, HostRead VA i, HostRead VB i], correct))
      else (es, correct))"
  by pat_completeness auto
termination
  by (relation "measure (\<lambda>(i, n, a, b, c, s). nat (n - i))") auto

text \<open>
  Modelled from the spec: the kernel \<open>Sum\<close> of \<open>kernel.ptx\<close> is not among the
  sources. By the spec it computes \<open>c[i] = a[i] + b[i]\<close>, so it stores to the output
  vector only: in \<open>main\<close>, where the arrays are the pinned buffers, \<open>d_a\<close> and
  \<open>d_b\<close> are after the launch as the host stored them. What \<open>d_c\<close> holds is left to
  the environment, and is the same in both passes of the check. The return code of
  \<open>cuStreamSynchronize\<close> is dropped, as in the source.
\<close>

definition um_main :: "env \<Rightarrow> run" where
  "um_main d =
     (let n = N;
          (w, d_a, d_b) = init_loop 0 n ([], drv_uninit d VA, drv_uninit d VB);
          d_c = drv_output d;
          (w1, correct1) = um_check_loop 0 n d_a d_b d_c ([], True);
          (w2, correct) = um_check_loop 0 n d_a d_b d_c ([], correct1) in
      seqs
       [emit (Stdout ''- Initializing...\<newline>'' []),
        um_initCUDA d,
        um_setupDeviceMemory d n,
        events w,
        emit (Stdout ''# Running the kernel...\<newline>'' []),
        um_runKernel d n,
        emit (Call (cuStreamSynchronize 0)),
        emit (Stdout ''# Kernel complete.\<newline>'' []),
        events w1,
        events w2,
        (if correct then emit (Stdout ''*** All checks complete.\<newline>'' [])
         else emit (Stdout ''*** Result incorrect.\<newline>'' [])),
        emit (Stdout ''- Finalizing...\<newline>'' []),
        um_releaseDeviceMemory d,
        finalizeCUDA,
        stop (Exit 0)])"

section \<open>Reading a run\<close>

definition trace :: "run \<Rightarrow> event list" where
  "trace r = fst r"

definition status :: "run \<Rightarrow> halt option" where
  "status r = snd r"

definition is_stderr :: "event \<Rightarrow> bool" where
  "is_stderr e = (case e of Stderr f as \<Rightarrow> True | _ \<Rightarrow> False)"

definition is_stdout :: "event \<Rightarrow> bool" where
  "is_stdout e = (case e of Stdout f as \<Rightarrow> True | _ \<Rightarrow> False)"

definition stderr_of :: "run \<Rightarrow> event list" where
  "stderr_of r = filter is_stderr (trace r)"

definition stdout_of :: "run \<Rightarrow> event list" where
  "stdout_of r = filter is_stdout (trace r)"

fun is_launch :: "event \<Rightarrow> bool" where
  "is_launch (Call (cuLaunchKernel gx gy gz bx by bz sh st n)) = True"
| "is_launch e = False"

section \<open>Environments to run the programs in\<close>

definition sample_attr :: "int \<Rightarrow> int \<Rightarrow> attribute \<Rightarrow> int" where
  "sample_attr uva block_size a =
     (case a of
        CU_DEVICE_ATTRIBUTE_COMPUTE_CAPABILITY_MAJOR \<Rightarrow> 7
      | CU_DEVICE_ATTRIBUTE_COMPUTE_CAPABILITY_MINOR \<Rightarrow> 5
      | CU_DEVICE_ATTRIBUTE_UNIFIED_ADDRESSING \<Rightarrow> uva
      | CU_DEVICE_ATTRIBUTE_MAX_BLOCK_DIM_X \<Rightarrow> block_size)"

text \<open>
  One device with unified addressing, 8 GiB of memory and the given block size; the
  return codes and the output vector are arguments.
\<close>

definition sample_env :: "(vcall \<Rightarrow> CUresult) \<Rightarrow> int \<Rightarrow> (int \<Rightarrow> int) \<Rightarrow> env" where
  "sample_env res block_size out =
     \<lparr>drv_result = res, drv_deviceCount = 1, drv_deviceName = ''GPU'',
      drv_attr = sample_attr 1 block_size, drv_totalMem = 8589934592, drv_output = out,
      drv_uninit = (\<lambda>v i. 0)\<rparr>"

definition all_success :: "vcall \<Rightarrow> CUresult" where
  "all_success call = CUDA_SUCCESS"

text \<open>The code \<open>k\<close> for the call \<open>c\<close>, success for every other call.\<close>

definition failing :: "vcall \<Rightarrow> nat \<Rightarrow> vcall \<Rightarrow> CUresult" where
  "failing c k call = (if call = c then CUDA_ERROR k else CUDA_SUCCESS)"

text \<open>The sums the kernel is meant to store, and an output vector that is wrong at index 3 only.\<close>

definition exact_sums :: "int \<Rightarrow> int" where
  "exact_sums i = N - i + i * i"

definition wrong_at_3 :: "int \<Rightarrow> int" where
  "wrong_at_3 i = (if i = 3 then 0 else exact_sums i)"

section \<open>Runs in which nothing fails\<close>

text \<open>The arrays \<open>a\<close> and \<open>b\<close> (\<open>d_a\<close> and \<open>d_b\<close>) as the first loop of \<open>main\<close> leaves them, and its stores.\<close>

definition init_arrays :: "env \<Rightarrow> event list \<times> (int \<Rightarrow> int) \<times> (int \<Rightarrow> int)" where
  "init_arrays d = init_loop 0 N ([], drv_uninit d VA, drv_uninit d VB)"

definition init_writes :: "env \<Rightarrow> event list" where
  "init_writes d = fst (init_arrays d)"

definition host_a :: "env \<Rightarrow> int \<Rightarrow> int" where
  "host_a d = fst (snd (init_arrays d))"

definition host_b :: "env \<Rightarrow> int \<Rightarrow> int" where
  "host_b d = snd (snd (init_arrays d))"

text \<open>The launch that \<open>main\<close> makes in an environment, when the division does not trap.\<close>

definition launch_calls :: "env \<Rightarrow> vcall list" where
  "launch_calls d =
     (case grid_dim_x N (drv_attr d CU_DEVICE_ATTRIBUTE_MAX_BLOCK_DIM_X) of
        None \<Rightarrow> []
      | Some g \<Rightarrow>
          [cuLaunchKernel (uint32 g) 1 1
             (uint32 (drv_attr d CU_DEVICE_ATTRIBUTE_MAX_BLOCK_DIM_X)) 1 1 0 0 N])"

text \<open>
  The vendor calls whose return code each program tests, in the order of a run in which
  all of them succeed.
\<close>

definition da_calls :: "env \<Rightarrow> vcall list" where
  "da_calls d =
     [cuInit 0, cuDeviceGetCount, cuDeviceGet 0,
      cuDeviceGetAttribute CU_DEVICE_ATTRIBUTE_COMPUTE_CAPABILITY_MAJOR,
      cuDeviceGetAttribute CU_DEVICE_ATTRIBUTE_COMPUTE_CAPABILITY_MINOR,
      cuDeviceTotalMem, cuCtxCreate 0, cuModuleLoad module_file,
      cuModuleGetFunction kernel_name,
      cuMemAlloc VA 40, cuMemAlloc VB 40, cuMemAlloc VC 40,
      cuMemcpyHtoD VA 40, cuMemcpyHtoD VB 40,
      cuDeviceGetAttribute CU_DEVICE_ATTRIBUTE_MAX_BLOCK_DIM_X] @
     launch_calls d @
     [cuMemcpyDtoH VC 40, cuMemFree VA, cuMemFree VB, cuMemFree VC]"

definition um_calls :: "env \<Rightarrow> vcall list" where
  "um_calls d =
     [cuInit 0, cuDeviceGetCount, cuDeviceGet 0,
      cuDeviceGetAttribute CU_DEVICE_ATTRIBUTE_COMPUTE_CAPABILITY_MAJOR,
      cuDeviceGetAttribute CU_DEVICE_ATTRIBUTE_COMPUTE_CAPABILITY_MINOR,
      cuDeviceTotalMem,
      cuDeviceGetAttribute CU_DEVICE_ATTRIBUTE_UNIFIED_ADDRESSING,
      cuCtxCreate 0, cuModuleLoad module_file, cuModuleGetFunction kernel_name,
      cuMemAllocHost VA 40, cuMemAllocHost VB 40, cuMemAllocHost VC 40,
      cuDeviceGetAttribute CU_DEVICE_ATTRIBUTE_MAX_BLOCK_DIM_X] @
     launch_calls d @
     [cuMemFreeHost VA, cuMemFreeHost VB, cuMemFreeHost VC]"

text \<open>
  Nothing fails: a device is counted, the division of \<open>runKernel\<close> does not trap (and
  the device has unified addressing, for the second program), and every tested call
  returns \<open>CUDA_SUCCESS\<close>. The output vector plays no part.
\<close>

definition da_ok :: "env \<Rightarrow> bool" where
  "da_ok d \<longleftrightarrow>
     drv_deviceCount d \<noteq> 0 \<and>
     grid_dim_x N (drv_attr d CU_DEVICE_ATTRIBUTE_MAX_BLOCK_DIM_X) \<noteq> None \<and>
     list_all (\<lambda>c. drv_result d c = CUDA_SUCCESS) (da_calls d)"

definition um_ok :: "env \<Rightarrow> bool" where
  "um_ok d \<longleftrightarrow>
     drv_deviceCount d \<noteq> 0 \<and>
     drv_attr d CU_DEVICE_ATTRIBUTE_UNIFIED_ADDRESSING \<noteq> 0 \<and>
     grid_dim_x N (drv_attr d CU_DEVICE_ATTRIBUTE_MAX_BLOCK_DIM_X) \<noteq> None \<and>
     list_all (\<lambda>c. drv_result d c = CUDA_SUCCESS) (um_calls d)"

text \<open>
  What one round of the checking loops adds to the trace at index \<open>i\<close>, and whether the
  round finds a difference.
\<close>

definition mismatch :: "(int \<Rightarrow> int) \<Rightarrow> (int \<Rightarrow> int) \<Rightarrow> (int \<Rightarrow> int) \<Rightarrow> int \<Rightarrow> bool" where
  "mismatch a b c i \<longleftrightarrow> c i \<noteq> c_add (a i) (b i)"

definition check_round ::
  "(int \<Rightarrow> int) \<Rightarrow> (int \<Rightarrow> int) \<Rightarrow> (int \<Rightarrow> int) \<Rightarrow> int \<Rightarrow> event list" where
  "check_round a b c i =
     [HostRead VC i, HostRead VA i, HostRead VB i] @
     (if mismatch a b c i then
        [HostRead VA i, HostRead VB i, HostRead VC i,
         error_line i (c_add (a i) (b i)) (c i)]
      else [])"

definition init_round :: "int \<Rightarrow> int \<Rightarrow> event list" where
  "init_round n i = [HostWrite VA i (c_sub n i), HostWrite VB i (c_mul i i)]"

text \<open>The events of one pass of the checking loop in \<open>main\<close>, and the line that follows the two passes of the second program.\<close>

definition checks :: "env \<Rightarrow> event list" where
  "checks d = concat (map (check_round (host_a d) (host_b d) (drv_output d)) [0..N - 1])"

definition verdict :: "env \<Rightarrow> event" where
  "verdict d =
     (if list_ex (mismatch (host_a d) (host_b d) (drv_output d)) [0..N - 1]
      then Stdout ''*** Result incorrect.\<newline>'' []
      else Stdout ''*** All checks complete.\<newline>'' [])"

definition is_verdict :: "event \<Rightarrow> bool" where
  "is_verdict e \<longleftrightarrow>
     e = Stdout ''*** All checks complete.\<newline>'' [] \<or> e = Stdout ''*** Result incorrect.\<newline>'' []"

text \<open>The events of the head of \<open>initCUDA\<close> when nothing fails.\<close>

definition head_events :: "env \<Rightarrow> event list" where
  "head_events d =
     [Call (cuInit 0), Call cuDeviceGetCount, Call (cuDeviceGet 0), Call (cuDeviceGetName 100),
      Stdout ''> Using device 0: %s\<newline>'' [ArgStr (drv_deviceName d)],
      Call (cuDeviceGetAttribute CU_DEVICE_ATTRIBUTE_COMPUTE_CAPABILITY_MAJOR),
      Call (cuDeviceGetAttribute CU_DEVICE_ATTRIBUTE_COMPUTE_CAPABILITY_MINOR),
      Stdout ''> GPU Device has SM %d.%d compute capability\<newline>''
        [ArgInt (drv_attr d CU_DEVICE_ATTRIBUTE_COMPUTE_CAPABILITY_MAJOR),
         ArgInt (drv_attr d CU_DEVICE_ATTRIBUTE_COMPUTE_CAPABILITY_MINOR)],
      Call cuDeviceTotalMem,
      Stdout ''  Total amount of global memory:   %llu bytes\<newline>'' [ArgULL (drv_totalMem d)],
      Stdout ''  64-bit Memory Address:           %s\<newline>''
        [ArgStr (if drv_totalMem d > 4 * 1024 * 1024 * 1024 then ''YES'' else ''NO'')]]"

section \<open>Kinds of events\<close>

fun is_sync :: "event \<Rightarrow> bool" where
  "is_sync (Call (cuStreamSynchronize st)) = True"
| "is_sync e = False"

fun is_write :: "event \<Rightarrow> bool" where
  "is_write (HostWrite v i x) = True"
| "is_write e = False"

fun is_output_read :: "event \<Rightarrow> bool" where
  "is_output_read (HostRead VC i) = True"
| "is_output_read e = False"

fun is_alloc :: "event \<Rightarrow> bool" where
  "is_alloc (Call (cuMemAlloc v bytes)) = True"
| "is_alloc (Call (cuMemAllocHost v bytes)) = True"
| "is_alloc e = False"

fun is_copy :: "event \<Rightarrow> bool" where
  "is_copy (Call (cuMemcpyHtoD v bytes)) = True"
| "is_copy (Call (cuMemcpyDtoH v bytes)) = True"
| "is_copy e = False"

text \<open>
  An event keeps to the bound \<open>n\<close>: an allocation or a copy is of \<open>n\<close> integers, a
  launch passes \<open>n\<close> to the kernel, a store or a load of the host is at an index from 0
  to \<open>n - 1\<close>.
\<close>

fun uses_bound :: "int \<Rightarrow> event \<Rightarrow> bool" where
  "uses_bound n (Call (cuMemAlloc v bytes)) = (bytes = sizeof_int * n)"
| "uses_bound n (Call (cuMemAllocHost v bytes)) = (bytes = sizeof_int * n)"
| "uses_bound n (Call (cuMemcpyHtoD v bytes)) = (bytes = sizeof_int * n)"
| "uses_bound n (Call (cuMemcpyDtoH v bytes)) = (bytes = sizeof_int * n)"
| "uses_bound n (Call (cuLaunchKernel gx gy gz bx by bz sh st m)) = (m = n)"
| "uses_bound n (HostWrite v i x) = (0 \<le> i \<and> i < n)"
| "uses_bound n (HostRead v i) = (0 \<le> i \<and> i < n)"
| "uses_bound n e = True"

text \<open>The elements of the three vectors that the host stores to or loads from.\<close>

fun cells :: "event \<Rightarrow> (vec \<times> int) list" where
  "cells (HostWrite v i x) = [(v, i)]"
| "cells (HostRead v i) = [(v, i)]"
| "cells e = []"

definition touched :: "event list \<Rightarrow> (vec \<times> int) set" where
  "touched es = set (concat (map cells es))"

text \<open>Neither a launch, nor a synchronisation, nor a load of the output, nor a store.\<close>

definition quiet :: "event \<Rightarrow> bool" where
  "quiet e \<longleftrightarrow> \<not> is_launch e \<and> \<not> is_sync e \<and> \<not> is_output_read e \<and> \<not> is_write e"

section \<open>The parts of \<open>main\<close>\<close>

text \<open>
  \<open>main\<close> of the first program is its first loop, then \<open>da_before\<close>, then
  \<open>runKernel\<close>, then \<open>da_after\<close>; \<open>main\<close> of the second program is \<open>um_before\<close>,
  then \<open>runKernel\<close>, then \<open>cuStreamSynchronize\<close>, then \<open>um_after\<close>.
\<close>

definition da_before :: "env \<Rightarrow> run" where
  "da_before d =
     seqs [emit (Stdout ''- Initializing...\<newline>'' []), da_initCUDA d,
           da_setupDeviceMemory d N,
           checkCudaErrors d da_file 147 (cuMemcpyHtoD VA (size_t (sizeof_int * N))),
           checkCudaErrors d da_file 148 (cuMemcpyHtoD VB (size_t (sizeof_int * N))),
           emit (Stdout ''# Running the kernel...\<newline>'' [])]"

definition da_after :: "env \<Rightarrow> run" where
  "da_after d =
     seqs [emit (Stdout ''# Kernel complete.\<newline>'' []),
           checkCudaErrors d da_file 156 (cuMemcpyDtoH VC (size_t (sizeof_int * N))),
           events (checks d),
           emit (Stdout ''*** All checks complete.\<newline>'' []),
           emit (Stdout ''- Finalizing...\<newline>'' []), da_releaseDeviceMemory d,
           finalizeCUDA, stop (Exit 0)]"

definition um_before :: "env \<Rightarrow> run" where
  "um_before d =
     seqs [emit (Stdout ''- Initializing...\<newline>'' []), um_initCUDA d,
           um_setupDeviceMemory d N, events (init_writes d),
           emit (Stdout ''# Running the kernel...\<newline>'' [])]"

definition um_after :: "env \<Rightarrow> run" where
  "um_after d =
     seqs [emit (Stdout ''# Kernel complete.\<newline>'' []), events (checks d),
           events (checks d), emit (verdict d),
           emit (Stdout ''- Finalizing...\<newline>'' []), um_releaseDeviceMemory d,
           finalizeCUDA, stop (Exit 0)]"

section \<open>How a run ends\<close>

text \<open>
  A run is aborted when it ends by \<open>exit(-1)\<close> with something written to the standard
  error. A piece of program is settled when it goes on, returns 0 from \<open>main\<close>, traps,
  or is aborted.
\<close>

definition aborted :: "run \<Rightarrow> bool" where
  "aborted r \<longleftrightarrow> status r = Some (Exit (- 1)) \<and> stderr_of r \<noteq> []"

definition settled :: "run \<Rightarrow> bool" where
  "settled r \<longleftrightarrow>
     status r = None \<or> status r = Some (Exit 0) \<or> status r = Some Trap \<or> aborted r"

section \<open>Calls under \<open>checkCudaErrors\<close>\<close>

text \<open>
  The vendor functions that the programs call inside the macro \<open>checkCudaErrors\<close>.
  The others are \<open>cuInit\<close>, \<open>cuCtxCreate\<close>, \<open>cuModuleLoad\<close> and
  \<open>cuModuleGetFunction\<close>, tested by hand in \<open>initCUDA\<close>, and \<open>cuDeviceGetName\<close>,
  \<open>cuCtxDestroy\<close> and \<open>cuStreamSynchronize\<close>, whose code is dropped.
\<close>

fun wrapped :: "vcall \<Rightarrow> bool" where
  "wrapped (cuInit flags) = False"
| "wrapped (cuDeviceGetName len) = False"
| "wrapped (cuCtxCreate flags) = False"
| "wrapped (cuModuleLoad name) = False"
| "wrapped (cuModuleGetFunction name) = False"
| "wrapped cuCtxDestroy = False"
| "wrapped (cuStreamSynchronize st) = False"
| "wrapped c = True"

text \<open>The line of each such call in \<open>driver_api.cpp\<close> and in \<open>unified_memory.cpp\<close>.\<close>

fun da_line :: "vcall \<Rightarrow> int" where
  "da_line cuDeviceGetCount = 46"
| "da_line (cuDeviceGet ordinal) = 54"
| "da_line (cuDeviceGetAttribute CU_DEVICE_ATTRIBUTE_COMPUTE_CAPABILITY_MAJOR) = 61"
| "da_line (cuDeviceGetAttribute CU_DEVICE_ATTRIBUTE_COMPUTE_CAPABILITY_MINOR) = 62"
| "da_line cuDeviceTotalMem = 65"
| "da_line (cuMemAlloc VA bytes) = 103"
| "da_line (cuMemAlloc VB bytes) = 104"
| "da_line (cuMemAlloc VC bytes) = 105"
| "da_line (cuMemFree VA) = 110"
| "da_line (cuMemFree VB) = 111"
| "da_line (cuMemFree VC) = 112"
| "da_line (cuDeviceGetAttribute CU_DEVICE_ATTRIBUTE_MAX_BLOCK_DIM_X) = 119"
| "da_line (cuLaunchKernel gx gy gz bx by bz sh st n) = 121"
| "da_line (cuMemcpyHtoD VA bytes) = 147"
| "da_line (cuMemcpyHtoD VB bytes) = 148"
| "da_line (cuMemcpyDtoH v bytes) = 156"
| "da_line c = 0"

fun um_line :: "vcall \<Rightarrow> int" where
  "um_line cuDeviceGetCount = 46"
| "um_line (cuDeviceGet ordinal) = 54"
| "um_line (cuDeviceGetAttribute CU_DEVICE_ATTRIBUTE_COMPUTE_CAPABILITY_MAJOR) = 61"
| "um_line (cuDeviceGetAttribute CU_DEVICE_ATTRIBUTE_COMPUTE_CAPABILITY_MINOR) = 62"
| "um_line cuDeviceTotalMem = 65"
| "um_line (cuDeviceGetAttribute CU_DEVICE_ATTRIBUTE_UNIFIED_ADDRESSING) = 74"
| "um_line (cuMemAllocHost VA bytes) = 114"
| "um_line (cuMemAllocHost VB bytes) = 115"
| "um_line (cuMemAllocHost VC bytes) = 116"
| "um_line (cuMemFreeHost VA) = 121"
| "um_line (cuMemFreeHost VB) = 122"
| "um_line (cuMemFreeHost VC) = 123"
| "um_line (cuDeviceGetAttribute CU_DEVICE_ATTRIBUTE_MAX_BLOCK_DIM_X) = 130"
| "um_line (cuLaunchKernel gx gy gz bx by bz sh st n) = 132"
| "um_line c = 0"

text \<open>
  A piece of program reports the failures of such calls: wherever one of them is made
  and returns a code other than \<open>CUDA_SUCCESS\<close>, the next event is the message with
  the code, the file and the line, it is the last event, and the process ends by
  \<open>exit(-1)\<close>.
\<close>

definition reported :: "env \<Rightarrow> string \<Rightarrow> (vcall \<Rightarrow> int) \<Rightarrow> run \<Rightarrow> bool" where
  "reported d file line_of r \<longleftrightarrow>
     (\<forall>pre c post.
        trace r = pre @ Call c # post \<longrightarrow> wrapped c \<longrightarrow> drv_result d c \<noteq> CUDA_SUCCESS \<longrightarrow>
        status r = Some (Exit (- 1)) \<and>
        post = [Stderr ''CUDA Driver API error = %04d from file <%s>, line %i.\<newline>''
                  [ArgRes (drv_result d c), ArgStr file, ArgInt (line_of c)]])"

text \<open>
  The vendor functions whose code \<open>initCUDA\<close> tests by a condition of its own, and
  what follows such a call when it fails: for \<open>cuInit\<close> the count of devices stays 0
  and the message of the empty count is printed; for the three others a fixed message
  is printed (with the name of the module or of the kernel, never the code, the file
  or the line) and the jump to \<open>exit\<close> (\<open>exitCtx\<close>) calls \<open>cuCtxDestroy\<close>. Then the
  process ends by \<open>exit(-1)\<close>.
\<close>

fun hand_tested :: "vcall \<Rightarrow> bool" where
  "hand_tested (cuInit flags) = True"
| "hand_tested (cuCtxCreate flags) = True"
| "hand_tested (cuModuleLoad name) = True"
| "hand_tested (cuModuleGetFunction name) = True"
| "hand_tested c = False"

fun fixed_report :: "vcall \<Rightarrow> event list" where
  "fixed_report (cuInit flags) = [Stderr ''Error: no devices supporting CUDA\<newline>'' []]"
| "fixed_report (cuCtxCreate flags) =
     [Stderr ''* Error initializing the CUDA context.\<newline>'' [], Call cuCtxDestroy]"
| "fixed_report (cuModuleLoad name) =
     [Stderr ''* Error loading the module %s\<newline>'' [ArgStr name], Call cuCtxDestroy]"
| "fixed_report (cuModuleGetFunction name) =
     [Stderr ''* Error getting kernel function %s\<newline>'' [ArgStr name], Call cuCtxDestroy]"
| "fixed_report c = []"

text \<open>
  A piece of program answers the failures of such calls: wherever one of them is made
  and returns a code other than \<open>CUDA_SUCCESS\<close>, the events that follow are exactly
  those above and the process ends by \<open>exit(-1)\<close>.
\<close>

definition hand_reported :: "env \<Rightarrow> run \<Rightarrow> bool" where
  "hand_reported d r \<longleftrightarrow>
     (\<forall>pre c post.
        trace r = pre @ Call c # post \<longrightarrow> hand_tested c \<longrightarrow> drv_result d c \<noteq> CUDA_SUCCESS \<longrightarrow>
        status r = Some (Exit (- 1)) \<and> post = fixed_report c)"

section \<open>The steps of the procedure\<close>

text \<open>
  The step an event belongs to: the calls of \<open>initCUDA\<close> initialise; allocations
  allocate; the stores of the host to \<open>a\<close> and \<open>b\<close> and the copies to the device
  populate the inputs; the calls of \<open>runKernel\<close> and the synchronisation launch; the
  copy back and the loads of the checking loop inspect the output; frees and
  \<open>cuCtxDestroy\<close> release. Printing belongs to no step.
\<close>

datatype phase = Initialize | Allocate | Populate | Launch | Inspect | Release

fun phase_of :: "event \<Rightarrow> phase option" where
  "phase_of (Call (cuInit flags)) = Some Initialize"
| "phase_of (Call cuDeviceGetCount) = Some Initialize"
| "phase_of (Call (cuDeviceGet ordinal)) = Some Initialize"
| "phase_of (Call (cuDeviceGetName len)) = Some Initialize"
| "phase_of (Call (cuDeviceGetAttribute CU_DEVICE_ATTRIBUTE_MAX_BLOCK_DIM_X)) = Some Launch"
| "phase_of (Call (cuDeviceGetAttribute a)) = Some Initialize"
| "phase_of (Call cuDeviceTotalMem) = Some Initialize"
| "phase_of (Call (cuCtxCreate flags)) = Some Initialize"
| "phase_of (Call (cuModuleLoad name)) = Some Initialize"
| "phase_of (Call (cuModuleGetFunction name)) = Some Initialize"
| "phase_of (Call (cuMemAlloc v bytes)) = Some Allocate"
| "phase_of (Call (cuMemAllocHost v bytes)) = Some Allocate"
| "phase_of (HostWrite v i x) = Some Populate"
| "phase_of (Call (cuMemcpyHtoD v bytes)) = Some Populate"
| "phase_of (Call (cuLaunchKernel gx gy gz bx by bz sh st n)) = Some Launch"
| "phase_of (Call (cuStreamSynchronize st)) = Some Launch"
| "phase_of (Call (cuMemcpyDtoH v bytes)) = Some Inspect"
| "phase_of (HostRead v i) = Some Inspect"
| "phase_of (Call (cuMemFree v)) = Some Release"
| "phase_of (Call (cuMemFreeHost v)) = Some Release"
| "phase_of (Call cuCtxDestroy) = Some Release"
| "phase_of (Stdout f as) = None"
| "phase_of (Stderr f as) = None"

text \<open>The steps of a run in order, each maximal block of events of one step counted once.\<close>

definition phases :: "event list \<Rightarrow> phase list" where
  "phases es = remdups_adj (List.map_filter phase_of es)"

text \<open>
  The loads of one pass of the checking loop: \<open>c[i]\<close>, \<open>a[i]\<close> and \<open>b[i]\<close> for the
  comparison and, at a mismatch, \<open>a[i]\<close>, \<open>b[i]\<close> and \<open>c[i]\<close> again for the arguments
  of \<open>printf\<close>.
\<close>

definition check_loads :: "env \<Rightarrow> event list" where
  "check_loads d =
     concat (map (\<lambda>i. [HostRead VC i, HostRead VA i, HostRead VB i] @
                       (if mismatch (host_a d) (host_b d) (drv_output d) i
                        then [HostRead VA i, HostRead VB i, HostRead VC i] else []))
                 [0..N - 1])"

text \<open>An event that prints, as opposed to a step on the vectors or a call of the driver.\<close>

definition is_print :: "event \<Rightarrow> bool" where
  "is_print e \<longleftrightarrow> is_stdout e \<or> is_stderr e"

section \<open>Sequencing\<close>

declare init_loop.simps [simp del] da_check_loop.simps [simp del]
  um_check_loop.simps [simp del]

lemma seq_None: "seq (es, None) q = (es @ fst q, snd q)"
  by (simp add: seq_def)

lemma seq_Some: "seq (es, Some h) q = (es, Some h)"
  by (simp add: seq_def)

lemma checkCudaErrors_eq:
  "checkCudaErrors d file line call =
     (if drv_result d call = CUDA_SUCCESS then ([Call call], None)
      else ([Call call,
             Stderr ''CUDA Driver API error = %04d from file <%s>, line %i.\<newline>''
               [ArgRes (drv_result d call), ArgStr file, ArgInt line]],
            Some (Exit (- 1))))"
  by (auto simp: checkCudaErrors_def checkCudaErrors_fn_def seq_def emit_def stop_def skip_def)

lemmas run_defs = emit_def skip_def stop_def events_def seq_None seq_Some finalizeCUDA_def

section \<open>The loops\<close>

lemma upto_step: "i < n \<Longrightarrow> [i..n - 1] = i # [i + 1..n - 1]"
  by (simp add: upto_rec1)

lemma upto_done: "\<not> i < n \<Longrightarrow> [i..n - 1] = []"
  by simp

lemma init_loop_eq:
  "init_loop i n (es, a, b) =
     (es @ concat (map (init_round n) [i..n - 1]),
      (\<lambda>j. if i \<le> j \<and> j < n then c_sub n j else a j),
      (\<lambda>j. if i \<le> j \<and> j < n then c_mul j j else b j))"
proof (induction i n "(es, a, b)" arbitrary: es a b rule: init_loop.induct)
  case (1 i n es a b)
  show ?case
  proof (cases "i < n")
    case True
    have fa: "(\<lambda>j. if i + 1 \<le> j \<and> j < n then c_sub n j else (a(i := c_sub n i)) j)
            = (\<lambda>j. if i \<le> j \<and> j < n then c_sub n j else a j)"
      using True by (auto simp: fun_eq_iff)
    have fb: "(\<lambda>j. if i + 1 \<le> j \<and> j < n then c_mul j j else (b(i := c_mul i i)) j)
            = (\<lambda>j. if i \<le> j \<and> j < n then c_mul j j else b j)"
      using True by (auto simp: fun_eq_iff)
    show ?thesis
      using True "1.hyps"[OF True]
      by (subst init_loop.simps) (simp add: upto_step fa fb init_round_def)
  next
    case False
    then show ?thesis
      by (subst init_loop.simps) (auto simp: fun_eq_iff)
  qed
qed

lemma da_check_loop_eq:
  "da_check_loop i n a b c es = es @ concat (map (check_round a b c) [i..n - 1])"
proof (induction i n a b c es rule: da_check_loop.induct)
  case (1 i n a b c es)
  show ?case
  proof (cases "i < n")
    case True
    have r: "check_round a b c i =
        [HostRead VC i, HostRead VA i, HostRead VB i] @
        (if c i \<noteq> c_add (a i) (b i) then
           [HostRead VA i, HostRead VB i, HostRead VC i, error_line i (c_add (a i) (b i)) (c i)]
         else [])"
      by (simp add: check_round_def mismatch_def)
    show ?thesis
      using True "1.IH"[OF True]
      by (subst da_check_loop.simps) (simp add: upto_step r)
  next
    case False
    then show ?thesis
      by (subst da_check_loop.simps) simp
  qed
qed

lemma um_check_loop_eq:
  "um_check_loop i n a b c (es, correct) =
     (es @ concat (map (check_round a b c) [i..n - 1]),
      correct \<and> \<not> list_ex (mismatch a b c) [i..n - 1])"
proof (induction i n a b c "(es, correct)" arbitrary: es correct rule: um_check_loop.induct)
  case (1 i n a b c es correct)
  show ?case
  proof (cases "i < n")
    case True
    show ?thesis
    proof (cases "mismatch a b c i")
      case m: True
      have r: "check_round a b c i =
          [HostRead VC i, HostRead VA i, HostRead VB i,
           HostRead VA i, HostRead VB i, HostRead VC i, error_line i (c_add (a i) (b i)) (c i)]"
        using m by (simp add: check_round_def)
      have c: "c i \<noteq> c_add (a i) (b i)"
        using m by (simp add: mismatch_def)
      show ?thesis
        using True m c "1.hyps"[OF True, of _ False]
        by (subst um_check_loop.simps) (simp add: upto_step r)
    next
      case m: False
      have r: "check_round a b c i = [HostRead VC i, HostRead VA i, HostRead VB i]"
        using m by (simp add: check_round_def)
      have c: "c i = c_add (a i) (b i)"
        using m by (simp add: mismatch_def)
      show ?thesis
        using True m c "1.hyps"[OF True, of _ correct]
        by (subst um_check_loop.simps) (simp add: upto_step r)
    qed
  next
    case False
    then show ?thesis
      by (subst um_check_loop.simps) simp
  qed
qed

lemma int32_small: "- 2147483648 \<le> x \<Longrightarrow> x < 2147483648 \<Longrightarrow> int32 x = x"
  by (simp add: int32_def)

lemma small_arith:
  assumes "0 \<le> i" "i < N"
  shows "c_sub N i = N - i" "c_mul i i = i * i" "c_add (N - i) (i * i) = N - i + i * i"
proof -
  have i: "i \<le> 9" using assms by (simp add: N_def)
  have "i * i \<le> 9 * 9"
    using assms(1) i by (intro mult_mono) simp_all
  then have sq: "0 \<le> i * i" "i * i \<le> 81" by simp_all
  show "c_sub N i = N - i"
    using assms by (simp add: c_sub_def int32_small N_def)
  have "- 2147483648 \<le> i * i" and "i * i < 2147483648"
    using sq by linarith+
  then show "c_mul i i = i * i"
    unfolding c_mul_def by (rule int32_small)
  have "- 2147483648 \<le> N - i + i * i" and "N - i + i * i < 2147483648"
    using sq assms unfolding N_def by linarith+
  then show "c_add (N - i) (i * i) = N - i + i * i"
    unfolding c_add_def by (rule int32_small)
qed

lemma host_arrays:
  "host_a d = (\<lambda>j. if 0 \<le> j \<and> j < N then c_sub N j else drv_uninit d VA j)"
  "host_b d = (\<lambda>j. if 0 \<le> j \<and> j < N then c_mul j j else drv_uninit d VB j)"
  "init_writes d = concat (map (init_round N) [0..N - 1])"
  by (simp_all add: host_a_def host_b_def init_writes_def init_arrays_def init_loop_eq)

section \<open>The trace of a run in which nothing fails\<close>

lemma initCUDA_head_ok:
  assumes "drv_result d (cuInit 0) = CUDA_SUCCESS" "drv_result d cuDeviceGetCount = CUDA_SUCCESS"
   "drv_deviceCount d \<noteq> 0" "drv_result d (cuDeviceGet 0) = CUDA_SUCCESS"
   "drv_result d (cuDeviceGetAttribute CU_DEVICE_ATTRIBUTE_COMPUTE_CAPABILITY_MAJOR) = CUDA_SUCCESS"
   "drv_result d (cuDeviceGetAttribute CU_DEVICE_ATTRIBUTE_COMPUTE_CAPABILITY_MINOR) = CUDA_SUCCESS"
   "drv_result d cuDeviceTotalMem = CUDA_SUCCESS"
  shows "initCUDA_head d file = (head_events d, None)"
  using assms by (simp add: initCUDA_head_def head_events_def Let_def checkCudaErrors_eq run_defs)

lemma da_ok_D:
  assumes "da_ok d"
  shows "drv_result d (cuInit 0) = CUDA_SUCCESS" "drv_result d cuDeviceGetCount = CUDA_SUCCESS"
   "drv_deviceCount d \<noteq> 0" "drv_result d (cuDeviceGet 0) = CUDA_SUCCESS"
   "drv_result d (cuDeviceGetAttribute CU_DEVICE_ATTRIBUTE_COMPUTE_CAPABILITY_MAJOR) = CUDA_SUCCESS"
   "drv_result d (cuDeviceGetAttribute CU_DEVICE_ATTRIBUTE_COMPUTE_CAPABILITY_MINOR) = CUDA_SUCCESS"
   "drv_result d cuDeviceTotalMem = CUDA_SUCCESS"
   "drv_result d (cuCtxCreate 0) = CUDA_SUCCESS"
   "drv_result d (cuModuleLoad module_file) = CUDA_SUCCESS"
   "drv_result d (cuModuleGetFunction kernel_name) = CUDA_SUCCESS"
   "drv_result d (cuMemAlloc VA 40) = CUDA_SUCCESS"
   "drv_result d (cuMemAlloc VB 40) = CUDA_SUCCESS"
   "drv_result d (cuMemAlloc VC 40) = CUDA_SUCCESS"
   "drv_result d (cuMemcpyHtoD VA 40) = CUDA_SUCCESS"
   "drv_result d (cuMemcpyHtoD VB 40) = CUDA_SUCCESS"
   "drv_result d (cuDeviceGetAttribute CU_DEVICE_ATTRIBUTE_MAX_BLOCK_DIM_X) = CUDA_SUCCESS"
   "drv_result d (cuMemcpyDtoH VC 40) = CUDA_SUCCESS"
   "drv_result d (cuMemFree VA) = CUDA_SUCCESS"
   "drv_result d (cuMemFree VB) = CUDA_SUCCESS"
   "drv_result d (cuMemFree VC) = CUDA_SUCCESS"
  using assms by (simp_all add: da_ok_def da_calls_def)

lemma da_ok_launch:
  assumes "da_ok d"
  shows "\<exists>g. grid_dim_x N (drv_attr d CU_DEVICE_ATTRIBUTE_MAX_BLOCK_DIM_X) = Some g \<and>
     launch_calls d = [cuLaunchKernel (uint32 g) 1 1
             (uint32 (drv_attr d CU_DEVICE_ATTRIBUTE_MAX_BLOCK_DIM_X)) 1 1 0 0 N] \<and>
     drv_result d (cuLaunchKernel (uint32 g) 1 1
             (uint32 (drv_attr d CU_DEVICE_ATTRIBUTE_MAX_BLOCK_DIM_X)) 1 1 0 0 N) = CUDA_SUCCESS"
  using assms by (auto simp: da_ok_def da_calls_def launch_calls_def)

lemma da_runKernel_ok:
  assumes "da_ok d"
  shows "da_runKernel d N =
     (Call (cuDeviceGetAttribute CU_DEVICE_ATTRIBUTE_MAX_BLOCK_DIM_X) # map Call (launch_calls d), None)"
  using da_ok_launch[OF assms] da_ok_D(16)[OF assms]
  by (auto simp: da_runKernel_def runKernel_def checkCudaErrors_eq run_defs)

lemma da_initCUDA_ok:
  assumes "da_ok d"
  shows "da_initCUDA d = (head_events d @
     [Call (cuCtxCreate 0), Call (cuModuleLoad module_file), Call (cuModuleGetFunction kernel_name)], None)"
  using da_ok_D[OF assms] initCUDA_head_ok[of d da_file]
  by (simp add: da_initCUDA_def run_defs)

lemma bytes_N: "size_t (sizeof_int * N) = 40"
  by (simp add: sizeof_int_def size_t_def N_def)

lemma da_main_ok:
  assumes "da_ok d"
  shows "da_main d =
    (init_writes d @ [Stdout ''- Initializing...\<newline>'' []] @ head_events d @
     [Call (cuCtxCreate 0), Call (cuModuleLoad module_file), Call (cuModuleGetFunction kernel_name),
      Call (cuMemAlloc VA 40), Call (cuMemAlloc VB 40), Call (cuMemAlloc VC 40),
      Call (cuMemcpyHtoD VA 40), Call (cuMemcpyHtoD VB 40),
      Stdout ''# Running the kernel...\<newline>'' [],
      Call (cuDeviceGetAttribute CU_DEVICE_ATTRIBUTE_MAX_BLOCK_DIM_X)] @
     map Call (launch_calls d) @
     [Stdout ''# Kernel complete.\<newline>'' [], Call (cuMemcpyDtoH VC 40)] @
     checks d @
     [Stdout ''*** All checks complete.\<newline>'' [], Stdout ''- Finalizing...\<newline>'' [],
      Call (cuMemFree VA), Call (cuMemFree VB), Call (cuMemFree VC), Call cuCtxDestroy],
     Some (Exit 0))"
  using da_ok_D[OF assms]
  by (simp add: da_main_def Let_def split_def da_initCUDA_ok[OF assms] da_runKernel_ok[OF assms]
      da_setupDeviceMemory_def da_releaseDeviceMemory_def checkCudaErrors_eq run_defs
      init_writes_def host_a_def host_b_def init_arrays_def bytes_N checks_def da_check_loop_eq)

lemma um_ok_D:
  assumes "um_ok d"
  shows "drv_result d (cuInit 0) = CUDA_SUCCESS" "drv_result d cuDeviceGetCount = CUDA_SUCCESS"
   "drv_deviceCount d \<noteq> 0" "drv_result d (cuDeviceGet 0) = CUDA_SUCCESS"
   "drv_result d (cuDeviceGetAttribute CU_DEVICE_ATTRIBUTE_COMPUTE_CAPABILITY_MAJOR) = CUDA_SUCCESS"
   "drv_result d (cuDeviceGetAttribute CU_DEVICE_ATTRIBUTE_COMPUTE_CAPABILITY_MINOR) = CUDA_SUCCESS"
   "drv_result d cuDeviceTotalMem = CUDA_SUCCESS"
   "drv_result d (cuDeviceGetAttribute CU_DEVICE_ATTRIBUTE_UNIFIED_ADDRESSING) = CUDA_SUCCESS"
   "drv_attr d CU_DEVICE_ATTRIBUTE_UNIFIED_ADDRESSING \<noteq> 0"
   "drv_result d (cuCtxCreate 0) = CUDA_SUCCESS"
   "drv_result d (cuModuleLoad module_file) = CUDA_SUCCESS"
   "drv_result d (cuModuleGetFunction kernel_name) = CUDA_SUCCESS"
   "drv_result d (cuMemAllocHost VA 40) = CUDA_SUCCESS"
   "drv_result d (cuMemAllocHost VB 40) = CUDA_SUCCESS"
   "drv_result d (cuMemAllocHost VC 40) = CUDA_SUCCESS"
   "drv_result d (cuDeviceGetAttribute CU_DEVICE_ATTRIBUTE_MAX_BLOCK_DIM_X) = CUDA_SUCCESS"
   "drv_result d (cuMemFreeHost VA) = CUDA_SUCCESS"
   "drv_result d (cuMemFreeHost VB) = CUDA_SUCCESS"
   "drv_result d (cuMemFreeHost VC) = CUDA_SUCCESS"
  using assms by (simp_all add: um_ok_def um_calls_def)

lemma um_ok_launch:
  assumes "um_ok d"
  shows "\<exists>g. grid_dim_x N (drv_attr d CU_DEVICE_ATTRIBUTE_MAX_BLOCK_DIM_X) = Some g \<and>
     launch_calls d = [cuLaunchKernel (uint32 g) 1 1
             (uint32 (drv_attr d CU_DEVICE_ATTRIBUTE_MAX_BLOCK_DIM_X)) 1 1 0 0 N] \<and>
     drv_result d (cuLaunchKernel (uint32 g) 1 1
             (uint32 (drv_attr d CU_DEVICE_ATTRIBUTE_MAX_BLOCK_DIM_X)) 1 1 0 0 N) = CUDA_SUCCESS"
  using assms by (auto simp: um_ok_def um_calls_def launch_calls_def)

lemma um_runKernel_ok:
  assumes "um_ok d"
  shows "um_runKernel d N =
     (Call (cuDeviceGetAttribute CU_DEVICE_ATTRIBUTE_MAX_BLOCK_DIM_X) # map Call (launch_calls d), None)"
  using um_ok_launch[OF assms] um_ok_D(16)[OF assms]
  by (auto simp: um_runKernel_def runKernel_def checkCudaErrors_eq run_defs)

lemma um_initCUDA_ok:
  assumes "um_ok d"
  shows "um_initCUDA d = (head_events d @
     [Call (cuDeviceGetAttribute CU_DEVICE_ATTRIBUTE_UNIFIED_ADDRESSING),
      Stdout ''  Unified Virtual Addressing is supported on this device\<newline>'' [],
      Call (cuCtxCreate 0), Call (cuModuleLoad module_file), Call (cuModuleGetFunction kernel_name)], None)"
  using um_ok_D[OF assms] initCUDA_head_ok[of d um_file]
  by (simp add: um_initCUDA_def Let_def checkCudaErrors_eq run_defs)

lemma um_passes:
  "um_check_loop 0 N (host_a d) (host_b d) (drv_output d) ([], True) =
     (checks d, \<not> list_ex (mismatch (host_a d) (host_b d) (drv_output d)) [0..N - 1])"
  "um_check_loop 0 N (host_a d) (host_b d) (drv_output d)
      ([], \<not> list_ex (mismatch (host_a d) (host_b d) (drv_output d)) [0..N - 1]) =
     (checks d, \<not> list_ex (mismatch (host_a d) (host_b d) (drv_output d)) [0..N - 1])"
  by (simp_all add: um_check_loop_eq checks_def)

lemma um_main_ok:
  assumes "um_ok d"
  shows "um_main d =
    ([Stdout ''- Initializing...\<newline>'' []] @ head_events d @
     [Call (cuDeviceGetAttribute CU_DEVICE_ATTRIBUTE_UNIFIED_ADDRESSING),
      Stdout ''  Unified Virtual Addressing is supported on this device\<newline>'' [],
      Call (cuCtxCreate 0), Call (cuModuleLoad module_file), Call (cuModuleGetFunction kernel_name),
      Call (cuMemAllocHost VA 40), Call (cuMemAllocHost VB 40), Call (cuMemAllocHost VC 40)] @
     init_writes d @
     [Stdout ''# Running the kernel...\<newline>'' [],
      Call (cuDeviceGetAttribute CU_DEVICE_ATTRIBUTE_MAX_BLOCK_DIM_X)] @
     map Call (launch_calls d) @
     [Call (cuStreamSynchronize 0), Stdout ''# Kernel complete.\<newline>'' []] @
     checks d @ checks d @
     [verdict d, Stdout ''- Finalizing...\<newline>'' [],
      Call (cuMemFreeHost VA), Call (cuMemFreeHost VB), Call (cuMemFreeHost VC),
      Call cuCtxDestroy],
     Some (Exit 0))"
proof -
  have fold: "init_loop 0 N ([], drv_uninit d VA, drv_uninit d VB) =
      (init_writes d, host_a d, host_b d)"
    by (simp add: init_writes_def host_a_def host_b_def init_arrays_def)
  show ?thesis
    using um_ok_D[OF assms]
    by (simp add: um_main_def Let_def fold um_passes um_initCUDA_ok[OF assms]
        um_runKernel_ok[OF assms] um_setupDeviceMemory_def um_releaseDeviceMemory_def
        checkCudaErrors_eq run_defs bytes_N verdict_def)
qed

lemma error_line_in_rounds:
  "error_line i e g \<in> set (concat (map (check_round a b c) js)) \<longleftrightarrow>
     i \<in> set js \<and> mismatch a b c i \<and> e = c_add (a i) (b i) \<and> g = c i"
  by (auto simp: check_round_def error_line_def)

lemma count_upto: "count_list [i..j] k = (if i \<le> k \<and> k \<le> j then 1 else 0)"
proof (induction i j rule: upto.induct)
  case (1 i j)
  then show ?case
    by (subst upto.simps) auto
qed

lemma error_line_count_rounds:
  "count_list (concat (map (check_round a b c) js)) (error_line i e g) =
     (if mismatch a b c i \<and> e = c_add (a i) (b i) \<and> g = c i then count_list js i else 0)"
  by (induction js) (auto simp: check_round_def error_line_def)

lemma error_line_in_checks:
  "error_line i e g \<in> set (checks d) \<longleftrightarrow>
     0 \<le> i \<and> i < N \<and> mismatch (host_a d) (host_b d) (drv_output d) i \<and>
     e = c_add (host_a d i) (host_b d i) \<and> g = drv_output d i"
  unfolding checks_def error_line_in_rounds by auto

lemma error_line_count_checks:
  "count_list (checks d) (error_line i e g) =
     (if 0 \<le> i \<and> i < N \<and> mismatch (host_a d) (host_b d) (drv_output d) i \<and>
         e = c_add (host_a d i) (host_b d i) \<and> g = drv_output d i then 1 else 0)"
  unfolding checks_def error_line_count_rounds count_upto by auto

lemma init_writes_no_stdout: "Stdout f as \<notin> set (init_writes d)"
  by (auto simp: host_arrays init_round_def)

lemma launch_calls_no_stdout: "Stdout f as \<notin> Call ` set (launch_calls d)"
  by auto

lemma da_error_line:
  assumes "da_ok d"
  shows "error_line i e g \<in> set (trace (da_main d)) \<longleftrightarrow> error_line i e g \<in> set (checks d)"
  by (auto simp add: da_main_ok[OF assms] trace_def head_events_def error_line_def[of i e g] init_writes_no_stdout)

lemma um_error_line:
  assumes "um_ok d"
  shows "error_line i e g \<in> set (trace (um_main d)) \<longleftrightarrow> error_line i e g \<in> set (checks d)"
  by (auto simp add: um_main_ok[OF assms] trace_def head_events_def error_line_def[of i e g] init_writes_no_stdout verdict_def)

section \<open>The grid of the launch\<close>

lemma round_up_bounds:
  fixes n bs :: int
  assumes "0 < bs"
  defines "g \<equiv> (n + bs - 1) div bs"
  shows "(g - 1) * bs < n" and "n \<le> g * bs"
proof -
  have eq: "n + bs - 1 = bs * g + (n + bs - 1) mod bs"
    unfolding g_def by simp
  have lo: "0 \<le> (n + bs - 1) mod bs" and hi: "(n + bs - 1) mod bs < bs"
    using assms(1) by simp_all
  show "(g - 1) * bs < n"
    using eq lo by (simp add: algebra_simps)
  show "n \<le> g * bs"
    using eq hi by (simp add: algebra_simps)
qed

lemma round_up_ceiling:
  fixes n bs :: int
  assumes "0 < bs"
  shows "(n + bs - 1) div bs = \<lceil>real_of_int n / real_of_int bs\<rceil>"
proof -
  let ?g = "(n + bs - 1) div bs"
  have b: "0 < real_of_int bs" using assms by simp
  have "real_of_int ((?g - 1) * bs) < real_of_int n"
    using round_up_bounds(1)[OF assms, of n] by (simp only: of_int_less_iff)
  then have lo: "real_of_int ?g - 1 < real_of_int n / real_of_int bs"
    using b by (simp add: pos_less_divide_eq)
  have "real_of_int n \<le> real_of_int (?g * bs)"
    using round_up_bounds(2)[OF assms, of n] by (simp only: of_int_le_iff)
  then have hi: "real_of_int n / real_of_int bs \<le> real_of_int ?g"
    using b by (simp add: pos_divide_le_eq)
  show ?thesis
    using lo hi by (simp add: ceiling_unique)
qed

lemma grid_dim_x_exact:
  assumes "1 \<le> n" and "1 \<le> bs" and "n + bs \<le> INT_MAX"
  shows "grid_dim_x n bs = Some ((n + bs - 1) div bs)"
proof -
  have s: "c_add n bs = n + bs"
    using assms by (simp add: c_add_def int32_def INT_MAX_def)
  have t: "c_sub (n + bs) 1 = n + bs - 1"
    using assms by (simp add: c_sub_def int32_def INT_MAX_def)
  have "(n + bs - 1) sdiv bs = (n + bs - 1) div bs"
    using assms by (simp add: signed_divide_int_def sgn_if)
  then show ?thesis
    using assms by (simp add: grid_dim_x_def s t c_div_def)
qed

lemma grid_bounds:
  assumes "1 \<le> n" and "1 \<le> bs" and "n + bs \<le> INT_MAX"
  shows "0 \<le> (n + bs - 1) div bs" and "(n + bs - 1) div bs \<le> INT_MAX"
proof -
  show "0 \<le> (n + bs - 1) div bs"
    using assms by (simp add: pos_imp_zdiv_nonneg_iff)
  have "(n + bs - 1) div bs \<le> n + bs - 1"
    using zdiv_mono2[of "n + bs - 1" 1 bs] assms by simp
  then show "(n + bs - 1) div bs \<le> INT_MAX"
    using assms by simp
qed

lemma runKernel_launch:
  assumes "1 \<le> n" and "1 \<le> bs" and "n + bs \<le> INT_MAX"
    and "drv_attr d CU_DEVICE_ATTRIBUTE_MAX_BLOCK_DIM_X = bs"
    and "drv_result d (cuDeviceGetAttribute CU_DEVICE_ATTRIBUTE_MAX_BLOCK_DIM_X) = CUDA_SUCCESS"
  shows "filter is_launch (trace (runKernel d file la ll n)) =
           [Call (cuLaunchKernel ((n + bs - 1) div bs) 1 1 bs 1 1 0 0 n)]"
proof -
  have g: "uint32 ((n + bs - 1) div bs) = (n + bs - 1) div bs"
    using grid_bounds[OF assms(1-3)] by (simp add: uint32_def INT_MAX_def)
  have b: "uint32 bs = bs"
    using assms(1-3) by (simp add: uint32_def INT_MAX_def)
  show ?thesis
    using assms(4,5)
    by (simp add: runKernel_def trace_def grid_dim_x_exact[OF assms(1-3)] g b
        checkCudaErrors_eq run_defs)
qed

text \<open>
  C6, as amended. For every \<open>n \<ge> 1\<close> and every queried \<open>block_size \<ge> 1\<close> whose sum
  \<open>n + block_size\<close> fits in \<open>int\<close>, the grid x-dimension \<open>(n+block_size-1)/block_size\<close>
  is the ceiling of \<open>n / block_size\<close>, and \<open>runKernel\<close> of both files launches exactly
  once, with this grid x-dimension, block x-dimension \<open>block_size\<close>, and y and z
  dimensions 1.
\<close>

theorem runKernel_grid_is_ceiling:
  assumes "1 \<le> n" and "1 \<le> block_size" and "n + block_size \<le> INT_MAX"
    and "drv_attr d CU_DEVICE_ATTRIBUTE_MAX_BLOCK_DIM_X = block_size"
    and "drv_result d (cuDeviceGetAttribute CU_DEVICE_ATTRIBUTE_MAX_BLOCK_DIM_X) = CUDA_SUCCESS"
  shows "grid_dim_x n block_size = Some ((n + block_size - 1) div block_size)
       \<and> (n + block_size - 1) div block_size = \<lceil>real_of_int n / real_of_int block_size\<rceil>
       \<and> filter is_launch (trace (da_runKernel d n)) =
           [Call (cuLaunchKernel \<lceil>real_of_int n / real_of_int block_size\<rceil> 1 1
                    block_size 1 1 0 0 n)]
       \<and> filter is_launch (trace (um_runKernel d n)) =
           [Call (cuLaunchKernel \<lceil>real_of_int n / real_of_int block_size\<rceil> 1 1
                    block_size 1 1 0 0 n)]"
proof -
  have pos: "0 < block_size" using assms(2) by simp
  show ?thesis
    using grid_dim_x_exact[OF assms(1-3)] runKernel_launch[OF assms]
    by (simp add: da_runKernel_def um_runKernel_def round_up_ceiling[OF pos])
qed

theorem runKernel_grid_is_ceiling_witness:
  "grid_dim_x 10 3 = Some 4 \<and> \<lceil>real_of_int 10 / real_of_int 3\<rceil> = (4::int)
   \<and> filter is_launch (trace (da_runKernel (sample_env all_success 3 exact_sums) 10)) =
       [Call (cuLaunchKernel 4 1 1 3 1 1 0 0 10)]
   \<and> filter is_launch (trace (um_runKernel (sample_env all_success 3 exact_sums) 10)) =
       [Call (cuLaunchKernel 4 1 1 3 1 1 0 0 10)]"
proof -
  have a: "drv_attr (sample_env all_success 3 exact_sums) CU_DEVICE_ATTRIBUTE_MAX_BLOCK_DIM_X = 3"
    by (simp add: sample_env_def sample_attr_def)
  have r: "drv_result (sample_env all_success 3 exact_sums)
             (cuDeviceGetAttribute CU_DEVICE_ATTRIBUTE_MAX_BLOCK_DIM_X) = CUDA_SUCCESS"
    by (simp add: sample_env_def all_success_def)
  have c: "\<lceil>real_of_int 10 / real_of_int 3\<rceil> = (4::int)"
    by (simp add: ceiling_unique)
  have h: "(10::int) + 3 \<le> INT_MAX"
    by (simp add: INT_MAX_def)
  show ?thesis
    using runKernel_grid_is_ceiling[of 10 3 "sample_env all_success 3 exact_sums", OF _ _ h a r] c
    by simp
qed

text \<open>
  C6 as stated fails where the sum overflows: with \<open>n = 10\<close> and a queried block size
  of \<open>INT_MAX\<close> the sum wraps to a negative number, the quotient is 0, and the launch
  of both files has a grid of 0 blocks, while the ceiling of \<open>n / block_size\<close> is 1.
\<close>

theorem runKernel_grid_overflow:
  "grid_dim_x N 2147483647 = Some 0
   \<and> \<lceil>real_of_int N / real_of_int 2147483647\<rceil> = (1::int)
   \<and> filter is_launch (trace (da_runKernel (sample_env all_success 2147483647 exact_sums) N)) =
       [Call (cuLaunchKernel 0 1 1 2147483647 1 1 0 0 10)]
   \<and> filter is_launch (trace (um_runKernel (sample_env all_success 2147483647 exact_sums) N)) =
       [Call (cuLaunchKernel 0 1 1 2147483647 1 1 0 0 10)]"
proof -
  have g: "grid_dim_x 10 2147483647 = Some 0"
    by (simp add: grid_dim_x_def c_div_def c_add_def c_sub_def int32_def INT_MIN_def)
  have c: "\<lceil>real_of_int 10 / real_of_int 2147483647\<rceil> = (1::int)"
    by (simp add: ceiling_unique)
  show ?thesis
    by (simp add: N_def g c da_runKernel_def um_runKernel_def runKernel_def trace_def
        sample_env_def sample_attr_def all_success_def checkCudaErrors_eq run_defs uint32_def)
qed

lemma sample_grid: "grid_dim_x N 1024 = Some 1"
  by (simp add: grid_dim_x_def c_div_def c_add_def c_sub_def int32_def INT_MIN_def N_def)

lemma sample_ok: "da_ok (sample_env all_success 1024 out)" "um_ok (sample_env all_success 1024 out)"
  by (simp_all add: da_ok_def um_ok_def da_calls_def um_calls_def launch_calls_def sample_env_def
      sample_attr_def all_success_def sample_grid)

lemma stdout_error_line:
  "error_line i e g \<in> set (stdout_of r) \<longleftrightarrow> error_line i e g \<in> set (trace r)"
  by (simp add: stdout_of_def is_stdout_def error_line_def)

lemma sample_arrays:
  "host_a d 3 = 7" "host_b d 3 = 9" "host_a d 4 = 6" "host_b d 4 = 16"
  by (simp_all add: host_arrays N_def c_sub_def c_mul_def int32_def)

section \<open>The result check\<close>

text \<open>
  C1. For every index \<open>i\<close> with \<open>0 \<le> i < N\<close>, the checking loop of either program
  prints an error line naming \<open>i\<close> exactly when \<open>c[i]\<close> differs from \<open>a[i] + b[i]\<close>,
  and that line carries the expected value \<open>a[i] + b[i]\<close> and the got value \<open>c[i]\<close>:
  for the loops on any arrays, and for the standard output of both programs in every
  run in which nothing fails.
\<close>

theorem result_check_accepts_iff_sum:
  assumes "0 \<le> i" and "i < N"
  shows "(error_line i e g \<in> set (da_check_loop 0 N a b c []) \<longleftrightarrow>
            c i \<noteq> c_add (a i) (b i) \<and> e = c_add (a i) (b i) \<and> g = c i)
       \<and> (error_line i e g \<in> set (fst (um_check_loop 0 N a b c ([], True))) \<longleftrightarrow>
            c i \<noteq> c_add (a i) (b i) \<and> e = c_add (a i) (b i) \<and> g = c i)
       \<and> (da_ok d \<longrightarrow>
            (error_line i e g \<in> set (stdout_of (da_main d)) \<longleftrightarrow>
               drv_output d i \<noteq> c_add (host_a d i) (host_b d i) \<and>
               e = c_add (host_a d i) (host_b d i) \<and> g = drv_output d i))
       \<and> (um_ok d \<longrightarrow>
            (error_line i e g \<in> set (stdout_of (um_main d)) \<longleftrightarrow>
               drv_output d i \<noteq> c_add (host_a d i) (host_b d i) \<and>
               e = c_add (host_a d i) (host_b d i) \<and> g = drv_output d i))"
proof -
  have loop: "error_line i e g \<in> set (concat (map (check_round a b c) [0..N - 1])) \<longleftrightarrow>
      c i \<noteq> c_add (a i) (b i) \<and> e = c_add (a i) (b i) \<and> g = c i"
    using assms unfolding error_line_in_rounds by (auto simp: mismatch_def)
  have main: "error_line i e g \<in> set (checks d) \<longleftrightarrow>
      drv_output d i \<noteq> c_add (host_a d i) (host_b d i) \<and>
      e = c_add (host_a d i) (host_b d i) \<and> g = drv_output d i"
    using assms unfolding error_line_in_checks by (auto simp: mismatch_def)
  show ?thesis
    using loop main
    by (simp add: da_check_loop_eq um_check_loop_eq stdout_error_line da_error_line um_error_line)
qed

theorem result_check_accepts_iff_sum_witness:
  "da_ok (sample_env all_success 1024 wrong_at_3)
   \<and> um_ok (sample_env all_success 1024 wrong_at_3)
   \<and> error_line 3 16 0 \<in> set (stdout_of (da_main (sample_env all_success 1024 wrong_at_3)))
   \<and> error_line 3 16 0 \<in> set (stdout_of (um_main (sample_env all_success 1024 wrong_at_3)))
   \<and> error_line 4 22 22 \<notin> set (stdout_of (da_main (sample_env all_success 1024 wrong_at_3)))
   \<and> error_line 4 22 22 \<notin> set (stdout_of (um_main (sample_env all_success 1024 wrong_at_3)))"
proof -
  let ?d = "sample_env all_success 1024 wrong_at_3"
  have out: "drv_output ?d 3 = 0" "drv_output ?d 4 = 22"
    by (simp_all add: sample_env_def wrong_at_3_def exact_sums_def N_def)
  have sums: "c_add 7 9 = 16" "c_add 6 16 = 22"
    by (simp_all add: c_add_def int32_def)
  have n: "(3::int) < N" "(4::int) < N"
    by (simp_all add: N_def)
  show ?thesis
    using result_check_accepts_iff_sum[of 3 16 0 _ _ _ ?d, OF _ n(1)]
      result_check_accepts_iff_sum[of 4 22 22 _ _ _ ?d, OF _ n(2)]
    by (simp add: sample_ok sample_arrays out sums)
qed

lemma checks_events: "x \<in> set (checks d) \<Longrightarrow> (\<exists>v i. x = HostRead v i) \<or> (\<exists>i e g. x = error_line i e g)"
  by (auto simp: checks_def check_round_def split: if_splits) blast+

lemma checks_no_verdict: "filter is_verdict (checks d) = []"
  using checks_events[of _ d] by (auto simp: filter_empty_conv is_verdict_def error_line_def)

lemma init_writes_events: "x \<in> set (init_writes d) \<Longrightarrow> \<exists>v i y. x = HostWrite v i y"
  by (auto simp: host_arrays init_round_def)

lemma init_writes_no_verdict: "filter is_verdict (init_writes d) = []"
  using init_writes_events[of _ d] by (auto simp: filter_empty_conv is_verdict_def)

lemma launch_no_verdict: "filter is_verdict (map Call (launch_calls d)) = []"
  by (auto simp: filter_empty_conv is_verdict_def)

lemma init_writes_no_stderr: "filter is_stderr (init_writes d) = []"
proof -
  have "\<not> is_stderr x" if "x \<in> set (init_writes d)" for x
    using init_writes_events[OF that] by (auto simp: is_stderr_def)
  then show ?thesis
    by (simp add: filter_empty_conv)
qed

lemma error_line_not_in_writes: "count_list (init_writes d) (Stdout f as) = 0"
  using init_writes_events[of _ d] by (auto simp: count_list_0_iff)

lemma error_line_not_in_launch: "count_list (map Call cs) (Stdout f as) = 0"
  by (auto simp: count_list_0_iff)

text \<open>
  C4. In the unified-memory program the checking loop runs twice in a row on the same
  arrays: in a run in which nothing fails, the two passes leave the same events one
  after the other, the error line of every position whose output differs from the sum
  is printed exactly twice (and no error line for any other position), and exactly
  one verdict line is printed.
\<close>

theorem um_check_loop_runs_twice:
  assumes "um_ok d" and "0 \<le> i" and "i < N"
  shows "fst (um_check_loop 0 N (host_a d) (host_b d) (drv_output d) ([], True)) = checks d
       \<and> fst (um_check_loop 0 N (host_a d) (host_b d) (drv_output d)
              ([], snd (um_check_loop 0 N (host_a d) (host_b d) (drv_output d) ([], True))))
           = checks d
       \<and> count_list (trace (um_main d)) (error_line i e g) =
           (if drv_output d i \<noteq> c_add (host_a d i) (host_b d i) \<and>
               e = c_add (host_a d i) (host_b d i) \<and> g = drv_output d i
            then 2 else 0)
       \<and> filter is_verdict (trace (um_main d)) = [verdict d]"
proof -
  have passes: "fst (um_check_loop 0 N (host_a d) (host_b d) (drv_output d) ([], k)) = checks d"
    for k by (simp add: um_check_loop_eq checks_def)
  have cnt: "count_list (trace (um_main d)) (error_line i e g) =
      2 * count_list (checks d) (error_line i e g)"
    by (simp add: um_main_ok[OF assms(1)] trace_def error_line_not_in_writes
        error_line_not_in_launch head_events_def verdict_def error_line_def[of i e g])
  have v: "verdict d = Stdout ''*** All checks complete.\<newline>'' [] \<or>
           verdict d = Stdout ''*** Result incorrect.\<newline>'' []"
    by (simp add: verdict_def)
  have ver: "filter is_verdict (trace (um_main d)) = [verdict d]"
    by (simp add: um_main_ok[OF assms(1)] trace_def checks_no_verdict init_writes_no_verdict
        launch_no_verdict v head_events_def is_verdict_def)
  show ?thesis
    using assms(2,3) passes cnt ver
    by (simp add: error_line_count_checks mismatch_def)
qed

theorem um_check_loop_runs_twice_witness:
  "um_ok (sample_env all_success 1024 wrong_at_3)
   \<and> count_list (trace (um_main (sample_env all_success 1024 wrong_at_3))) (error_line 3 16 0) = 2
   \<and> count_list (trace (um_main (sample_env all_success 1024 wrong_at_3))) (error_line 4 22 22) = 0
   \<and> filter is_verdict (trace (um_main (sample_env all_success 1024 wrong_at_3))) =
       [Stdout ''*** Result incorrect.\<newline>'' []]"
proof -
  let ?d = "sample_env all_success 1024 wrong_at_3"
  have out: "drv_output ?d 3 = 0" "drv_output ?d 4 = 22"
    by (simp_all add: sample_env_def wrong_at_3_def exact_sums_def N_def)
  have sums: "c_add 7 9 = 16" "c_add 6 16 = 22"
    by (simp_all add: c_add_def int32_def)
  have n: "(3::int) < N" "(4::int) < N"
    by (simp_all add: N_def)
  have m: "mismatch (host_a ?d) (host_b ?d) (drv_output ?d) 3"
    by (simp add: mismatch_def sample_arrays out sums)
  have "3 \<in> set [0..N - 1]"
    by (simp add: N_def)
  then have "list_ex (mismatch (host_a ?d) (host_b ?d) (drv_output ?d)) [0..N - 1]"
    using m unfolding list_ex_iff by blast
  then have v: "verdict ?d = Stdout ''*** Result incorrect.\<newline>'' []"
    by (simp add: verdict_def)
  show ?thesis
    using um_check_loop_runs_twice[of ?d 3 16 0, OF sample_ok(2) _ n(1)]
      um_check_loop_runs_twice[of ?d 4 22 22, OF sample_ok(2) _ n(2)]
    by (simp add: sample_ok sample_arrays out sums v)
qed

section \<open>A failing \<open>cuInit\<close>\<close>

text \<open>
  C9. When \<open>cuInit\<close> returns a code other than \<open>CUDA_SUCCESS\<close>, \<open>initCUDA\<close> of either
  program makes no further vendor call (the device count is not queried and stays 0),
  writes the line about no devices to the standard error and exits with status -1; the
  line has no argument, so the code of \<open>cuInit\<close> is not printed, and it is the only
  output on the standard error of the whole run.
\<close>

theorem cuInit_failure_reports_no_devices:
  assumes "drv_result d (cuInit 0) \<noteq> CUDA_SUCCESS"
  shows "da_initCUDA d =
           ([Call (cuInit 0), Stderr ''Error: no devices supporting CUDA\<newline>'' []],
            Some (Exit (- 1)))
       \<and> um_initCUDA d =
           ([Call (cuInit 0), Stderr ''Error: no devices supporting CUDA\<newline>'' []],
            Some (Exit (- 1)))
       \<and> da_main d =
           (init_writes d @
            [Stdout ''- Initializing...\<newline>'' [], Call (cuInit 0),
             Stderr ''Error: no devices supporting CUDA\<newline>'' []],
            Some (Exit (- 1)))
       \<and> um_main d =
           ([Stdout ''- Initializing...\<newline>'' [], Call (cuInit 0),
             Stderr ''Error: no devices supporting CUDA\<newline>'' []],
            Some (Exit (- 1)))
       \<and> stderr_of (da_main d) = [Stderr ''Error: no devices supporting CUDA\<newline>'' []]
       \<and> stderr_of (um_main d) = [Stderr ''Error: no devices supporting CUDA\<newline>'' []]"
proof -
  have head: "initCUDA_head d f =
      ([Call (cuInit 0), Stderr ''Error: no devices supporting CUDA\<newline>'' []],
       Some (Exit (- 1)))" for f
    using assms by (simp add: initCUDA_head_def Let_def run_defs)
  have da_i: "da_initCUDA d =
      ([Call (cuInit 0), Stderr ''Error: no devices supporting CUDA\<newline>'' []],
       Some (Exit (- 1)))"
    by (simp add: da_initCUDA_def head run_defs)
  have um_i: "um_initCUDA d =
      ([Call (cuInit 0), Stderr ''Error: no devices supporting CUDA\<newline>'' []],
       Some (Exit (- 1)))"
    by (simp add: um_initCUDA_def Let_def head run_defs)
  have da_m: "da_main d =
      (init_writes d @
       [Stdout ''- Initializing...\<newline>'' [], Call (cuInit 0),
        Stderr ''Error: no devices supporting CUDA\<newline>'' []],
       Some (Exit (- 1)))"
    by (simp add: da_main_def Let_def split_def da_i run_defs init_writes_def init_arrays_def)
  have um_m: "um_main d =
      ([Stdout ''- Initializing...\<newline>'' [], Call (cuInit 0),
        Stderr ''Error: no devices supporting CUDA\<newline>'' []],
       Some (Exit (- 1)))"
    by (simp add: um_main_def Let_def split_def um_i run_defs)
  show ?thesis
    by (simp add: da_i um_i da_m um_m stderr_of_def trace_def init_writes_no_stderr is_stderr_def)
qed

theorem cuInit_failure_reports_no_devices_witness:
  "drv_result (sample_env (failing (cuInit 0) 100) 1024 exact_sums) (cuInit 0) = CUDA_ERROR 100
   \<and> status (da_main (sample_env (failing (cuInit 0) 100) 1024 exact_sums)) = Some (Exit (- 1))
   \<and> status (um_main (sample_env (failing (cuInit 0) 100) 1024 exact_sums)) = Some (Exit (- 1))
   \<and> stderr_of (da_main (sample_env (failing (cuInit 0) 100) 1024 exact_sums)) =
       [Stderr ''Error: no devices supporting CUDA\<newline>'' []]
   \<and> stderr_of (um_main (sample_env (failing (cuInit 0) 100) 1024 exact_sums)) =
       [Stderr ''Error: no devices supporting CUDA\<newline>'' []]
   \<and> Call cuDeviceGetCount \<notin> set (trace (um_main (sample_env (failing (cuInit 0) 100) 1024 exact_sums)))"
proof -
  let ?d = "sample_env (failing (cuInit 0) 100) 1024 exact_sums"
  have f: "drv_result ?d (cuInit 0) = CUDA_ERROR 100"
    by (simp add: sample_env_def failing_def)
  then have h: "drv_result ?d (cuInit 0) \<noteq> CUDA_SUCCESS"
    by simp
  show ?thesis
    using cuInit_failure_reports_no_devices[OF h] f
    by (simp add: status_def trace_def stderr_of_def init_writes_no_stderr is_stderr_def)
qed

section \<open>Properties of every run\<close>

lemma trace_seq: "trace (seq p q) = (if status p = None then trace p @ trace q else trace p)"
  by (auto simp: seq_def trace_def status_def split: option.splits)

lemma status_seq: "status (seq p q) = (if status p = None then status q else status p)"
  by (auto simp: seq_def trace_def status_def split: option.splits)

lemma all_skip: "list_all P (trace skip)"
  by (simp add: skip_def trace_def)

lemma all_stop: "list_all P (trace (stop h))"
  by (simp add: stop_def trace_def)

lemma all_emit: "P e \<Longrightarrow> list_all P (trace (emit e))"
  by (simp add: emit_def trace_def)

lemma all_events: "list_all P es \<Longrightarrow> list_all P (trace (events es))"
  by (simp add: events_def trace_def)

lemma all_seq: "list_all P (trace p) \<Longrightarrow> list_all P (trace q) \<Longrightarrow> list_all P (trace (seq p q))"
  by (simp add: trace_seq)

lemma all_seqs_Nil: "list_all P (trace (seqs []))"
  by (simp add: all_skip)

lemma all_seqs_Cons:
  "list_all P (trace p) \<Longrightarrow> list_all P (trace (seqs ps)) \<Longrightarrow> list_all P (trace (seqs (p # ps)))"
  by (simp add: all_seq)

lemma all_if:
  "(b \<Longrightarrow> list_all P (trace p)) \<Longrightarrow> (\<not> b \<Longrightarrow> list_all P (trace q)) \<Longrightarrow>
     list_all P (trace (if b then p else q))"
  by simp

lemma all_checkCudaErrors:
  "P (Call c) \<Longrightarrow>
   P (Stderr ''CUDA Driver API error = %04d from file <%s>, line %i.\<newline>''
        [ArgRes (drv_result d c), ArgStr file, ArgInt line]) \<Longrightarrow>
   list_all P (trace (checkCudaErrors d file line c))"
  by (simp add: checkCudaErrors_eq trace_def)

lemma all_option_case:
  "(x = None \<Longrightarrow> list_all P (trace p)) \<Longrightarrow> (\<And>y. x = Some y \<Longrightarrow> list_all P (trace (q y))) \<Longrightarrow>
     list_all P (trace (case x of None \<Rightarrow> p | Some y \<Rightarrow> q y))"
  by (cases x) simp_all

lemmas all_intros = all_seqs_Nil all_seqs_Cons all_seq all_if all_option_case all_checkCudaErrors
  all_emit all_skip all_stop all_events

lemma bound_writes: "list_all (uses_bound N) (init_writes d)"
  by (auto simp: host_arrays init_round_def list_all_iff)

lemma bound_checks: "list_all (uses_bound N) (checks d)"
  by (auto simp: checks_def check_round_def error_line_def list_all_iff)

lemma bound_initCUDA_head: "list_all (uses_bound N) (trace (initCUDA_head d f))"
  unfolding initCUDA_head_def Let_def
  by (intro all_intros) simp_all

lemma bound_da_initCUDA: "list_all (uses_bound N) (trace (da_initCUDA d))"
  unfolding da_initCUDA_def da_exit_def
  by (intro all_intros bound_initCUDA_head) simp_all

lemma bound_um_initCUDA: "list_all (uses_bound N) (trace (um_initCUDA d))"
  unfolding um_initCUDA_def um_exit_def um_exitCtx_def Let_def
  by (intro all_intros bound_initCUDA_head) simp_all

lemma bound_runKernel: "list_all (uses_bound N) (trace (runKernel d f la ll N))"
  unfolding runKernel_def Let_def
  by (intro all_intros) simp_all

lemma bound_da_main: "list_all (uses_bound N) (trace (da_main d))"
proof -
  have fold: "init_loop 0 N ([], drv_uninit d VA, drv_uninit d VB) =
      (init_writes d, host_a d, host_b d)"
    by (simp add: init_writes_def host_a_def host_b_def init_arrays_def)
  show ?thesis
    unfolding da_main_def Let_def fold split_conv da_setupDeviceMemory_def
      da_releaseDeviceMemory_def da_runKernel_def finalizeCUDA_def da_check_loop_eq
      checks_def[symmetric] append_Nil
    by (intro all_intros bound_da_initCUDA bound_runKernel bound_writes bound_checks)
       (simp_all add: sizeof_int_def size_t_def N_def)
qed

lemma bound_um_main: "list_all (uses_bound N) (trace (um_main d))"
proof -
  have fold: "init_loop 0 N ([], drv_uninit d VA, drv_uninit d VB) =
      (init_writes d, host_a d, host_b d)"
    by (simp add: init_writes_def host_a_def host_b_def init_arrays_def)
  show ?thesis
    unfolding um_main_def Let_def fold split_conv um_setupDeviceMemory_def
      um_releaseDeviceMemory_def um_runKernel_def finalizeCUDA_def um_passes
    by (intro all_intros bound_um_initCUDA bound_runKernel bound_writes bound_checks)
       (simp_all add: sizeof_int_def size_t_def N_def)
qed


section \<open>One bound for three arrays\<close>

lemma touched_append: "touched (xs @ ys) = touched xs \<union> touched ys"
  by (simp add: touched_def)

lemma touched_Cons: "touched (x # xs) = set (cells x) \<union> touched xs"
  by (simp add: touched_def)

lemma touched_Nil: "touched [] = {}"
  by (simp add: touched_def)

lemma touched_calls: "touched (map Call cs) = {}"
  by (simp add: touched_def)

lemma touched_writes: "touched (init_writes d) = {VA, VB} \<times> {0..N - 1}"
  by (auto simp: touched_def host_arrays init_round_def)

lemma touched_checks: "touched (checks d) = UNIV \<times> {0..N - 1}"
proof -
  have u: "(UNIV :: vec set) = {VA, VB, VC}"
    using vec.exhaust by auto
  show ?thesis
    unfolding u by (auto simp: touched_def checks_def check_round_def error_line_def)
qed

lemma filter_calls_writes:
  "filter is_alloc (init_writes d) = []" "filter is_copy (init_writes d) = []"
  "filter is_launch (init_writes d) = []"
  by (auto simp: filter_empty_conv dest!: init_writes_events)

lemma filter_calls_checks:
  "filter is_alloc (checks d) = []" "filter is_copy (checks d) = []"
  "filter is_launch (checks d) = []"
  by (auto simp: filter_empty_conv error_line_def dest!: checks_events)

lemma filter_calls_launch:
  "filter is_alloc (map Call (launch_calls d)) = []" "filter is_copy (map Call (launch_calls d)) = []"
  by (auto simp: filter_empty_conv launch_calls_def split: option.splits)

lemma launch_calls_ok:
  "grid_dim_x N (drv_attr d CU_DEVICE_ATTRIBUTE_MAX_BLOCK_DIM_X) \<noteq> None \<Longrightarrow>
     filter is_launch (map Call (launch_calls d)) = map Call (launch_calls d) \<and>
     length (launch_calls d) = 1"
  by (auto simp: launch_calls_def)

section \<open>The order of events\<close>

lemma seq_assoc: "seq (seq p q) r = seq p (seq q r)"
  by (cases p; cases q; cases r) (auto simp: seq_def split: option.splits)

lemma seq_skip_left: "seq skip q = q"
  by (simp add: seq_def skip_def)

lemma seq_skip_right: "seq p skip = p"
  by (cases p) (auto simp: seq_def skip_def split: option.splits)

lemma status_simps:
  "status skip = None" "status (emit e) = None" "status (events es) = None"
  "status (stop h) = Some h"
  by (simp_all add: status_def run_defs)

lemma trace_simps:
  "trace skip = []" "trace (emit e) = [e]" "trace (events es) = es" "trace (stop h) = []"
  by (simp_all add: trace_def run_defs)

lemma fold_init: "init_loop 0 N ([], drv_uninit d VA, drv_uninit d VB) =
      (init_writes d, host_a d, host_b d)"
  by (simp add: init_writes_def host_a_def host_b_def init_arrays_def)

lemma filter_none: "list_all (\<lambda>e. \<not> Q e) xs \<Longrightarrow> filter Q xs = []"
  by (simp add: filter_empty_conv list_all_iff)

lemma takeWhile_all: "list_all P xs \<Longrightarrow> takeWhile P (xs @ ys) = xs @ takeWhile P ys"
  by (simp add: list_all_iff)

lemma dropWhile_all: "list_all P xs \<Longrightarrow> dropWhile P (xs @ ys) = dropWhile P ys"
  by (simp add: list_all_iff)

lemma takeWhile_id: "list_all P xs \<Longrightarrow> takeWhile P xs = xs"
  by (simp add: list_all_iff)

lemma filter_takeWhile_none: "list_all (\<lambda>e. \<not> Q e) xs \<Longrightarrow> filter Q (takeWhile P xs) = []"
  by (auto simp: filter_empty_conv list_all_iff dest: set_takeWhileD)

lemma filter_dropWhile_none: "list_all (\<lambda>e. \<not> Q e) xs \<Longrightarrow> filter Q (dropWhile P xs) = []"
  by (auto simp: filter_empty_conv list_all_iff dest: set_dropWhileD)

lemma um_main_parts:
  "um_main d =
     seq (um_before d)
      (seq (um_runKernel d N) (seq (emit (Call (cuStreamSynchronize 0))) (um_after d)))"
  unfolding um_main_def Let_def fold_init split_conv um_passes um_before_def um_after_def
  by (simp add: seq_assoc seq_skip_left seq_skip_right verdict_def)

lemma da_main_parts:
  "da_main d =
     seq (events (init_writes d)) (seq (da_before d) (seq (da_runKernel d N) (da_after d)))"
  unfolding da_main_def Let_def fold_init split_conv da_check_loop_eq checks_def[symmetric]
    append_Nil da_before_def da_after_def
  by (simp add: seq_assoc seq_skip_left seq_skip_right)

lemma quiet_initCUDA_head: "list_all quiet (trace (initCUDA_head d f))"
  unfolding initCUDA_head_def Let_def
  by (intro all_intros) (simp_all add: quiet_def)

lemma quiet_da_initCUDA: "list_all quiet (trace (da_initCUDA d))"
  unfolding da_initCUDA_def da_exit_def
  by (intro all_intros quiet_initCUDA_head) (simp_all add: quiet_def)

lemma quiet_um_initCUDA: "list_all quiet (trace (um_initCUDA d))"
  unfolding um_initCUDA_def um_exit_def um_exitCtx_def Let_def
  by (intro all_intros quiet_initCUDA_head) (simp_all add: quiet_def)

lemma quiet_da_before: "list_all quiet (trace (da_before d))"
  unfolding da_before_def da_setupDeviceMemory_def
  by (intro all_intros quiet_da_initCUDA) (simp_all add: quiet_def)

lemma writes_kinds:
  "list_all (\<lambda>e. is_write e \<and> \<not> is_launch e \<and> \<not> is_sync e \<and> \<not> is_output_read e) (init_writes d)"
  by (auto simp: list_all_iff dest!: init_writes_events)

lemma checks_kinds:
  "list_all (\<lambda>e. \<not> is_write e \<and> \<not> is_launch e \<and> \<not> is_sync e) (checks d)"
  by (auto simp: list_all_iff error_line_def dest!: checks_events)

lemma um_before_kinds:
  "list_all (\<lambda>e. \<not> is_launch e \<and> \<not> is_sync e \<and> \<not> is_output_read e) (trace (um_before d))"
proof -
  have q: "list_all quiet (trace (um_initCUDA d))"
    by (rule quiet_um_initCUDA)
  have i: "list_all (\<lambda>e. \<not> is_launch e \<and> \<not> is_sync e \<and> \<not> is_output_read e) (trace (um_initCUDA d))"
    using q by (simp add: list_all_iff quiet_def)
  have w: "list_all (\<lambda>e. \<not> is_launch e \<and> \<not> is_sync e \<and> \<not> is_output_read e) (init_writes d)"
    using writes_kinds[of d] by (simp add: list_all_iff)
  show ?thesis
    unfolding um_before_def um_setupDeviceMemory_def
    by (intro all_intros i w) simp_all
qed

lemma after_kinds:
  "list_all (\<lambda>e. \<not> is_write e \<and> \<not> is_launch e \<and> \<not> is_sync e) (trace (um_after d))"
  "list_all (\<lambda>e. \<not> is_write e \<and> \<not> is_launch e \<and> \<not> is_sync e) (trace (da_after d))"
  unfolding um_after_def da_after_def um_releaseDeviceMemory_def da_releaseDeviceMemory_def
    finalizeCUDA_def
  by (intro all_intros checks_kinds; simp add: verdict_def)+

lemma runKernel_kinds:
  "list_all (\<lambda>e. \<not> is_write e \<and> \<not> is_sync e \<and> \<not> is_output_read e) (trace (runKernel d f la ll n))"
  unfolding runKernel_def Let_def
  by (intro all_intros) simp_all

lemma runKernel_launches:
  "length (filter is_launch (trace (runKernel d f la ll n))) \<le> 1"
  "status (runKernel d f la ll n) = None \<Longrightarrow> length (filter is_launch (trace (runKernel d f la ll n))) = 1"
  by (auto simp: runKernel_def Let_def checkCudaErrors_eq run_defs trace_def status_def
      split: option.splits if_splits)

lemma um_before_writes:
  "filter is_write (trace (um_before d)) = (if status (um_before d) = None then init_writes d else [])"
proof -
  have i: "filter is_write (trace (um_initCUDA d)) = []"
    using quiet_um_initCUDA[of d] by (intro filter_none) (simp add: list_all_iff quiet_def)
  have "list_all quiet (trace (um_setupDeviceMemory d N))"
    unfolding um_setupDeviceMemory_def by (intro all_intros) (simp_all add: quiet_def)
  then have s: "filter is_write (trace (um_setupDeviceMemory d N)) = []"
    by (intro filter_none) (simp add: list_all_iff quiet_def)
  have w: "filter is_write (init_writes d) = init_writes d"
    using writes_kinds[of d] by (simp add: list_all_iff filter_id_conv)
  show ?thesis
    by (auto simp add: um_before_def trace_seq status_seq trace_simps status_simps i s w)
qed


lemma um_trace_cases:
  "trace (um_main d) =
     (if status (um_before d) \<noteq> None then trace (um_before d)
      else if status (um_runKernel d N) \<noteq> None then trace (um_before d) @ trace (um_runKernel d N)
      else trace (um_before d) @ trace (um_runKernel d N) @
           Call (cuStreamSynchronize 0) # trace (um_after d))"
  by (simp add: um_main_parts trace_seq status_seq trace_simps status_simps)

lemma da_trace_cases:
  "trace (da_main d) =
     init_writes d @
     (if status (da_before d) \<noteq> None then trace (da_before d)
      else if status (da_runKernel d N) \<noteq> None then trace (da_before d) @ trace (da_runKernel d N)
      else trace (da_before d) @ trace (da_runKernel d N) @ trace (da_after d))"
  by (simp add: da_main_parts trace_seq status_seq trace_simps status_simps)

lemma weaken_all: "list_all P xs \<Longrightarrow> (\<And>x. P x \<Longrightarrow> Q x) \<Longrightarrow> list_all Q xs"
  by (auto simp: list_all_iff)

text \<open>
  C7. In every run of the unified-memory program, whatever the driver answers: the
  kernel is launched at most once; the host synchronises at most once, by
  \<open>cuStreamSynchronize\<close> on stream 0; no element of the output vector is loaded before
  that synchronisation (none at all when it is not reached); and when it is reached
  the launch has been made before it. In a run in which nothing fails there are
  exactly one launch and exactly one synchronisation, and the output is loaded.
\<close>

theorem um_sync_after_launch_before_reads:
  "length (filter is_launch (trace (um_main d))) \<le> 1
   \<and> (filter is_sync (trace (um_main d)) = [] \<or>
      filter is_sync (trace (um_main d)) = [Call (cuStreamSynchronize 0)])
   \<and> \<not> list_ex is_output_read (takeWhile (\<lambda>e. \<not> is_sync e) (trace (um_main d)))
   \<and> (list_ex is_sync (trace (um_main d)) \<longrightarrow>
        list_ex is_launch (takeWhile (\<lambda>e. \<not> is_sync e) (trace (um_main d))) \<and>
        \<not> list_ex is_launch (dropWhile (\<lambda>e. \<not> is_sync e) (trace (um_main d))))
   \<and> (um_ok d \<longrightarrow>
        length (filter is_launch (trace (um_main d))) = 1 \<and>
        filter is_sync (trace (um_main d)) = [Call (cuStreamSynchronize 0)] \<and>
        list_ex is_output_read (trace (um_main d)))"
proof -
  let ?A = "trace (um_before d)" and ?R = "trace (um_runKernel d N)" and ?B = "trace (um_after d)"
  have A: "list_all (\<lambda>e. \<not> is_launch e \<and> \<not> is_sync e \<and> \<not> is_output_read e) ?A"
    by (rule um_before_kinds)
  have R: "list_all (\<lambda>e. \<not> is_write e \<and> \<not> is_sync e \<and> \<not> is_output_read e) ?R"
    unfolding um_runKernel_def by (rule runKernel_kinds)
  have B: "list_all (\<lambda>e. \<not> is_write e \<and> \<not> is_launch e \<and> \<not> is_sync e) ?B"
    by (rule after_kinds)
  have Al: "filter is_launch ?A = []" and As: "filter is_sync ?A = []"
    and Ar: "filter is_output_read ?A = []"
    using A by (auto intro!: filter_none elim: weaken_all)
  have Rs: "filter is_sync ?R = []" and Rr: "filter is_output_read ?R = []"
    using R by (auto intro!: filter_none elim: weaken_all)
  have Bl: "filter is_launch ?B = []" and Bs: "filter is_sync ?B = []"
    using B by (auto intro!: filter_none elim: weaken_all)
  have Rl: "length (filter is_launch ?R) \<le> 1"
    and Rl1: "status (um_runKernel d N) = None \<Longrightarrow> length (filter is_launch ?R) = 1"
    unfolding um_runKernel_def by (rule runKernel_launches)+
  have AR: "list_all (\<lambda>e. \<not> is_sync e) (?A @ ?R)"
    using A R by (auto simp: list_all_iff)
  have tw: "takeWhile (\<lambda>e. \<not> is_sync e) (?A @ ?R @ Call (cuStreamSynchronize 0) # ?B) = ?A @ ?R"
    using takeWhile_all[OF AR, of "Call (cuStreamSynchronize 0) # ?B"] by simp
  have dw: "dropWhile (\<lambda>e. \<not> is_sync e) (?A @ ?R @ Call (cuStreamSynchronize 0) # ?B)
              = Call (cuStreamSynchronize 0) # ?B"
    using dropWhile_all[OF AR, of "Call (cuStreamSynchronize 0) # ?B"] by simp
  have twA: "takeWhile (\<lambda>e. \<not> is_sync e) ?A = ?A"
    using A by (intro takeWhile_id) (auto elim: weaken_all)
  have twAR: "takeWhile (\<lambda>e. \<not> is_sync e) (?A @ ?R) = ?A @ ?R"
    using AR by (rule takeWhile_id)
  have p1: "length (filter is_launch (trace (um_main d))) \<le> 1"
    using Rl by (simp add: um_trace_cases Al Bl)
  have p2: "filter is_sync (trace (um_main d)) = [] \<or>
      filter is_sync (trace (um_main d)) = [Call (cuStreamSynchronize 0)]"
    by (simp add: um_trace_cases As Rs Bs)
  have p3: "\<not> list_ex is_output_read (takeWhile (\<lambda>e. \<not> is_sync e) (trace (um_main d)))"
    using Ar Rr
    by (auto simp add: um_trace_cases tw twA twAR list_ex_iff filter_empty_conv)
  have p4: "list_ex is_launch (takeWhile (\<lambda>e. \<not> is_sync e) (trace (um_main d))) \<and>
        \<not> list_ex is_launch (dropWhile (\<lambda>e. \<not> is_sync e) (trace (um_main d)))"
    if s: "list_ex is_sync (trace (um_main d))"
  proof -
    have reach: "status (um_before d) = None \<and> status (um_runKernel d N) = None"
      using s As Rs
      by (auto simp: um_trace_cases list_ex_iff filter_empty_conv split: if_splits)
    then have "filter is_launch ?R \<noteq> []"
      using Rl1 by auto
    then have "list_ex is_launch (?A @ ?R)"
      by (auto simp: list_ex_iff filter_empty_conv)
    moreover have "\<not> list_ex is_launch (Call (cuStreamSynchronize 0) # ?B)"
      using Bl by (simp add: list_ex_iff filter_empty_conv)
    ultimately show ?thesis
      using reach by (simp add: um_trace_cases tw dw)
  qed
  have p5: "length (filter is_launch (trace (um_main d))) = 1 \<and>
        filter is_sync (trace (um_main d)) = [Call (cuStreamSynchronize 0)] \<and>
        list_ex is_output_read (trace (um_main d))" if ok: "um_ok d"
  proof -
    have g: "grid_dim_x N (drv_attr d CU_DEVICE_ATTRIBUTE_MAX_BLOCK_DIM_X) \<noteq> None"
      using ok by (simp add: um_ok_def)
    have ws: "filter is_sync (init_writes d) = []"
      using writes_kinds[of d] by (auto intro!: filter_none elim: weaken_all)
    have cs: "filter is_sync (checks d) = []"
      using checks_kinds[of d] by (auto intro!: filter_none elim: weaken_all)
    have l: "length (filter is_launch (trace (um_main d))) = 1"
      by (simp add: um_main_ok[OF ok] trace_def head_events_def filter_calls_writes(3)
          filter_calls_checks(3) launch_calls_ok[OF g] verdict_def)
    have y: "filter is_sync (trace (um_main d)) = [Call (cuStreamSynchronize 0)]"
      by (simp add: um_main_ok[OF ok] trace_def head_events_def ws cs verdict_def
          launch_calls_def split: option.splits)
    have "HostRead VC 0 \<in> set (checks d)"
      by (simp add: checks_def check_round_def N_def) (rule bexI[of _ 0], simp_all)
    then have "HostRead VC 0 \<in> set (trace (um_main d))"
      by (simp add: um_main_ok[OF ok] trace_def)
    then have r: "list_ex is_output_read (trace (um_main d))"
      unfolding list_ex_iff by (rule bexI[rotated]) simp
    show ?thesis using l y r by simp
  qed
  show ?thesis
    using p1 p2 p3 p4 p5 by blast
qed

theorem um_sync_after_launch_before_reads_witness:
  "um_ok (sample_env all_success 1024 wrong_at_3)
   \<and> list_ex is_sync (trace (um_main (sample_env all_success 1024 wrong_at_3)))
   \<and> length (filter is_launch (trace (um_main (sample_env all_success 1024 wrong_at_3)))) = 1
   \<and> filter is_sync (trace (um_main (sample_env all_success 1024 wrong_at_3))) =
       [Call (cuStreamSynchronize 0)]
   \<and> list_ex is_output_read (trace (um_main (sample_env all_success 1024 wrong_at_3)))
   \<and> \<not> list_ex is_output_read
        (takeWhile (\<lambda>e. \<not> is_sync e) (trace (um_main (sample_env all_success 1024 wrong_at_3))))
   \<and> list_ex is_launch
        (takeWhile (\<lambda>e. \<not> is_sync e) (trace (um_main (sample_env all_success 1024 wrong_at_3))))"
proof -
  let ?d = "sample_env all_success 1024 wrong_at_3"
  have ok: "um_ok ?d" by (rule sample_ok)
  have t: "um_ok ?d \<longrightarrow> filter is_sync (trace (um_main ?d)) = [Call (cuStreamSynchronize 0)]"
    using um_sync_after_launch_before_reads[of ?d] by blast
  then have "filter is_sync (trace (um_main ?d)) \<noteq> []"
    using ok by simp
  then have s: "list_ex is_sync (trace (um_main ?d))"
    by (auto simp: list_ex_iff filter_empty_conv)
  show ?thesis
    using um_sync_after_launch_before_reads[of ?d] ok s by blast
qed

section \<open>The addends\<close>

lemma init_writes_exact:
  "init_writes d = concat (map (\<lambda>j. [HostWrite VA j (N - j), HostWrite VB j (j * j)]) [0..N - 1])"
proof -
  have "map (init_round N) [0..N - 1] =
        map (\<lambda>j. [HostWrite VA j (N - j), HostWrite VB j (j * j)]) [0..N - 1]"
    by (rule map_cong) (simp_all add: init_round_def small_arith)
  then show ?thesis
    unfolding host_arrays by (rule arg_cong[where f = concat])
qed

lemma da_rest_no_writes:
  "list_all (\<lambda>e. \<not> is_write e)
     (if status (da_before d) \<noteq> None then trace (da_before d)
      else if status (da_runKernel d N) \<noteq> None then trace (da_before d) @ trace (da_runKernel d N)
      else trace (da_before d) @ trace (da_runKernel d N) @ trace (da_after d))"
proof -
  have A: "list_all (\<lambda>e. \<not> is_write e) (trace (da_before d))"
    using quiet_da_before[of d] by (rule weaken_all) (simp add: quiet_def)
  have R: "list_all (\<lambda>e. \<not> is_write e) (trace (da_runKernel d N))"
    unfolding da_runKernel_def using runKernel_kinds by (rule weaken_all) simp
  have B: "list_all (\<lambda>e. \<not> is_write e) (trace (da_after d))"
    using after_kinds(2)[of d] by (rule weaken_all) simp
  show ?thesis
    using A R B by simp
qed

lemma one_launch:
  "da_ok d \<Longrightarrow> length (filter is_launch (trace (da_main d))) = 1"
  "um_ok d \<Longrightarrow> length (filter is_launch (trace (um_main d))) = 1"
proof -
  show "length (filter is_launch (trace (da_main d))) = 1" if ok: "da_ok d"
  proof -
    have g: "grid_dim_x N (drv_attr d CU_DEVICE_ATTRIBUTE_MAX_BLOCK_DIM_X) \<noteq> None"
      using ok by (simp add: da_ok_def)
    show ?thesis
      by (simp add: da_main_ok[OF ok] trace_def head_events_def filter_calls_writes(3)
          filter_calls_checks(3) launch_calls_ok[OF g])
  qed
  show "length (filter is_launch (trace (um_main d))) = 1" if ok: "um_ok d"
  proof -
    have g: "grid_dim_x N (drv_attr d CU_DEVICE_ATTRIBUTE_MAX_BLOCK_DIM_X) \<noteq> None"
      using ok by (simp add: um_ok_def)
    show ?thesis
      by (simp add: um_main_ok[OF ok] trace_def head_events_def filter_calls_writes(3)
          filter_calls_checks(3) launch_calls_ok[OF g] verdict_def)
  qed
qed

text \<open>
  C10. Both programs fill the addend arrays with the same loop: for every \<open>i\<close> with
  \<open>0 \<le> i < N\<close> it leaves \<open>a[i] = N - i\<close> and \<open>b[i] = i * i\<close>, so that the sum the check
  expects at \<open>i\<close> is \<open>(N - i) + i * i\<close> (and this is the expected value of every error
  line for \<open>i\<close> that a run without failure prints). The stores of the loop are the only
  stores of a run, and in every run in which the kernel is launched they all come
  before the launch.
\<close>

theorem addends_populated_before_launch:
  assumes "0 \<le> i" and "i < N"
  shows "host_a d i = N - i \<and> host_b d i = i * i
       \<and> c_add (host_a d i) (host_b d i) = N - i + i * i
       \<and> init_writes d =
           concat (map (\<lambda>j. [HostWrite VA j (N - j), HostWrite VB j (j * j)]) [0..N - 1])
       \<and> filter is_write (takeWhile (\<lambda>e. \<not> is_launch e) (trace (da_main d))) = init_writes d
       \<and> filter is_write (dropWhile (\<lambda>e. \<not> is_launch e) (trace (da_main d))) = []
       \<and> (list_ex is_launch (trace (um_main d)) \<longrightarrow>
            filter is_write (takeWhile (\<lambda>e. \<not> is_launch e) (trace (um_main d))) = init_writes d
            \<and> filter is_write (dropWhile (\<lambda>e. \<not> is_launch e) (trace (um_main d))) = [])
       \<and> (da_ok d \<longrightarrow> list_ex is_launch (trace (da_main d)) \<and>
            (error_line i e g \<in> set (trace (da_main d)) \<longrightarrow> e = N - i + i * i))
       \<and> (um_ok d \<longrightarrow> list_ex is_launch (trace (um_main d)) \<and>
            (error_line i e g \<in> set (trace (um_main d)) \<longrightarrow> e = N - i + i * i))"
proof -
  have a: "host_a d i = N - i" and b: "host_b d i = i * i"
    using assms by (simp_all add: host_arrays small_arith)
  have s: "c_add (host_a d i) (host_b d i) = N - i + i * i"
    using assms by (simp add: a b small_arith)
  have W: "list_all (\<lambda>e. \<not> is_launch e) (init_writes d)"
    using writes_kinds[of d] by (rule weaken_all) simp
  have Ww: "filter is_write (init_writes d) = init_writes d"
    using writes_kinds[of d] by (simp add: list_all_iff filter_id_conv)
  have da_t: "filter is_write (takeWhile (\<lambda>e. \<not> is_launch e) (trace (da_main d))) = init_writes d"
    unfolding da_trace_cases takeWhile_all[OF W]
    by (simp only: filter_append Ww filter_takeWhile_none[OF da_rest_no_writes] append_Nil2)
  have da_d: "filter is_write (dropWhile (\<lambda>e. \<not> is_launch e) (trace (da_main d))) = []"
    unfolding da_trace_cases dropWhile_all[OF W]
    by (rule filter_dropWhile_none[OF da_rest_no_writes])
  have um: "filter is_write (takeWhile (\<lambda>e. \<not> is_launch e) (trace (um_main d))) = init_writes d
      \<and> filter is_write (dropWhile (\<lambda>e. \<not> is_launch e) (trace (um_main d))) = []"
    if l: "list_ex is_launch (trace (um_main d))"
  proof -
    let ?A = "trace (um_before d)"
    let ?rest = "if status (um_runKernel d N) \<noteq> None then trace (um_runKernel d N)
       else trace (um_runKernel d N) @ Call (cuStreamSynchronize 0) # trace (um_after d)"
    have A: "list_all (\<lambda>e. \<not> is_launch e) ?A"
      using um_before_kinds[of d] by (rule weaken_all) simp
    have reach: "status (um_before d) = None"
    proof (rule ccontr)
      assume "status (um_before d) \<noteq> None"
      then have "trace (um_main d) = ?A"
        by (simp add: um_trace_cases)
      then show False
        using l A by (auto simp: list_ex_iff list_all_iff)
    qed
    have t: "trace (um_main d) = ?A @ ?rest"
      using reach by (simp add: um_trace_cases)
    have R: "list_all (\<lambda>e. \<not> is_write e) (trace (um_runKernel d N))"
      unfolding um_runKernel_def using runKernel_kinds by (rule weaken_all) simp
    have B: "list_all (\<lambda>e. \<not> is_write e) (trace (um_after d))"
      using after_kinds(1)[of d] by (rule weaken_all) simp
    have rest: "list_all (\<lambda>e. \<not> is_write e) ?rest"
      using R B by simp
    have Aw: "filter is_write ?A = init_writes d"
      using reach by (simp add: um_before_writes)
    have "filter is_write (takeWhile (\<lambda>e. \<not> is_launch e) (?A @ ?rest)) = init_writes d"
      unfolding takeWhile_all[OF A]
      by (simp only: filter_append Aw filter_takeWhile_none[OF rest] append_Nil2)
    moreover have "filter is_write (dropWhile (\<lambda>e. \<not> is_launch e) (?A @ ?rest)) = []"
      unfolding dropWhile_all[OF A] by (rule filter_dropWhile_none[OF rest])
    ultimately show ?thesis
      unfolding t by simp
  qed
  have da_ok_part: "list_ex is_launch (trace (da_main d)) \<and>
      (error_line i e g \<in> set (trace (da_main d)) \<longrightarrow> e = N - i + i * i)" if ok: "da_ok d"
  proof -
    have "length (filter is_launch (trace (da_main d))) = 1"
      using one_launch(1)[OF ok] .
    then have "filter is_launch (trace (da_main d)) \<noteq> []"
      by auto
    then have "list_ex is_launch (trace (da_main d))"
      by (auto simp: list_ex_iff filter_empty_conv)
    then show ?thesis
      using s by (simp add: da_error_line[OF ok] error_line_in_checks)
  qed
  have um_ok_part: "list_ex is_launch (trace (um_main d)) \<and>
      (error_line i e g \<in> set (trace (um_main d)) \<longrightarrow> e = N - i + i * i)" if ok: "um_ok d"
  proof -
    have "length (filter is_launch (trace (um_main d))) = 1"
      using one_launch(2)[OF ok] .
    then have "filter is_launch (trace (um_main d)) \<noteq> []"
      by auto
    then have "list_ex is_launch (trace (um_main d))"
      by (auto simp: list_ex_iff filter_empty_conv)
    then show ?thesis
      using s by (simp add: um_error_line[OF ok] error_line_in_checks)
  qed
  show ?thesis
    using a b s init_writes_exact[of d] da_t da_d um da_ok_part um_ok_part by blast
qed


theorem addends_populated_before_launch_witness:
  "da_ok (sample_env all_success 1024 wrong_at_3)
   \<and> um_ok (sample_env all_success 1024 wrong_at_3)
   \<and> host_a (sample_env all_success 1024 wrong_at_3) 3 = 7
   \<and> host_b (sample_env all_success 1024 wrong_at_3) 3 = 9
   \<and> list_ex is_launch (trace (um_main (sample_env all_success 1024 wrong_at_3)))
   \<and> filter is_write
        (takeWhile (\<lambda>e. \<not> is_launch e) (trace (um_main (sample_env all_success 1024 wrong_at_3))))
       = init_writes (sample_env all_success 1024 wrong_at_3)
   \<and> filter is_write
        (takeWhile (\<lambda>e. \<not> is_launch e) (trace (da_main (sample_env all_success 1024 wrong_at_3))))
       = init_writes (sample_env all_success 1024 wrong_at_3)
   \<and> error_line 3 16 0 \<in> set (trace (da_main (sample_env all_success 1024 wrong_at_3)))
   \<and> error_line 3 16 0 \<in> set (trace (um_main (sample_env all_success 1024 wrong_at_3)))"
proof -
  let ?d = "sample_env all_success 1024 wrong_at_3"
  have n: "(3::int) < N"
    by (simp add: N_def)
  have out: "drv_output ?d 3 = 0"
    by (simp add: sample_env_def wrong_at_3_def)
  have m: "mismatch (host_a ?d) (host_b ?d) (drv_output ?d) 3"
    by (simp add: mismatch_def sample_arrays out c_add_def int32_def)
  have e: "error_line 3 16 0 \<in> set (checks ?d)"
    using m n by (simp add: error_line_in_checks sample_arrays out c_add_def int32_def)
  show ?thesis
    using addends_populated_before_launch[of 3 ?d 16 0, OF _ n] e
    by (simp add: sample_ok da_error_line um_error_line N_def)
qed

section \<open>The exit status\<close>

lemma stderr_of_seq:
  "stderr_of (seq p q) = (if status p = None then stderr_of p @ stderr_of q else stderr_of p)"
  by (simp add: stderr_of_def trace_seq)

lemma settled_seq: "settled p \<Longrightarrow> settled q \<Longrightarrow> settled (seq p q)"
  by (auto simp: settled_def aborted_def status_seq stderr_of_seq)

lemma settled_seqs_Nil: "settled (seqs [])"
  by (simp add: settled_def status_simps)

lemma settled_seqs_Cons: "settled p \<Longrightarrow> settled (seqs ps) \<Longrightarrow> settled (seqs (p # ps))"
  by (simp add: settled_seq)

lemma settled_atoms:
  "settled skip" "settled (emit e)" "settled (events es)" "settled (stop (Exit 0))"
  "settled (stop Trap)"
  by (simp_all add: settled_def status_simps)

lemma settled_checkCudaErrors: "settled (checkCudaErrors d f l c)"
  by (simp add: settled_def aborted_def checkCudaErrors_eq status_def stderr_of_def trace_def
      is_stderr_def)

lemma stderr_of_message: "stderr_of (emit (Stderr f as)) = [Stderr f as]"
  by (simp add: stderr_of_def trace_simps is_stderr_def)

lemma settled_message:
  "status q = Some (Exit (- 1)) \<Longrightarrow> settled (seq (emit (Stderr f as)) q)"
  by (simp add: settled_def aborted_def status_seq status_simps stderr_of_seq stderr_of_message)

lemma settled_if:
  "(b \<Longrightarrow> settled p) \<Longrightarrow> (\<not> b \<Longrightarrow> settled q) \<Longrightarrow> settled (if b then p else q)"
  by simp

lemma settled_option_case:
  "(x = None \<Longrightarrow> settled p) \<Longrightarrow> (\<And>y. x = Some y \<Longrightarrow> settled (q y)) \<Longrightarrow>
     settled (case x of None \<Rightarrow> p | Some y \<Rightarrow> q y)"
  by (cases x) simp_all

lemmas settled_intros = settled_seqs_Nil settled_seqs_Cons settled_message settled_if
  settled_option_case settled_checkCudaErrors settled_atoms

lemma exits_status:
  "status (stop (Exit (- 1))) = Some (Exit (- 1))" "status da_exit = Some (Exit (- 1))"
  "status um_exit = Some (Exit (- 1))" "status um_exitCtx = Some (Exit (- 1))"
  by (simp_all add: da_exit_def um_exit_def um_exitCtx_def status_seq status_simps)

lemma settled_initCUDA_head: "settled (initCUDA_head d f)"
  unfolding initCUDA_head_def Let_def
  by (intro settled_intros exits_status)

lemma settled_da_initCUDA: "settled (da_initCUDA d)"
  unfolding da_initCUDA_def
  by (intro settled_intros exits_status settled_initCUDA_head)

lemma settled_um_initCUDA: "settled (um_initCUDA d)"
  unfolding um_initCUDA_def Let_def
  by (intro settled_intros exits_status settled_initCUDA_head)

lemma settled_runKernel: "settled (runKernel d f la ll n)"
  unfolding runKernel_def Let_def
  by (intro settled_intros)

lemma settled_da_main: "settled (da_main d)"
  unfolding da_main_def Let_def fold_init split_conv da_setupDeviceMemory_def
    da_releaseDeviceMemory_def da_runKernel_def finalizeCUDA_def
  by (intro settled_intros settled_da_initCUDA settled_runKernel)

lemma settled_um_main: "settled (um_main d)"
  unfolding um_main_def Let_def fold_init split_conv um_passes um_setupDeviceMemory_def
    um_releaseDeviceMemory_def um_runKernel_def finalizeCUDA_def
  by (intro settled_intros settled_um_initCUDA settled_runKernel)

lemma status_checkCudaErrors:
  "status (checkCudaErrors d f l c) =
     (if drv_result d c = CUDA_SUCCESS then None else Some (Exit (- 1)))"
  by (simp add: checkCudaErrors_eq status_def)

lemma status_initCUDA_head:
  "status (initCUDA_head d f) =
     (if drv_result d (cuInit 0) = CUDA_SUCCESS \<and> drv_result d cuDeviceGetCount = CUDA_SUCCESS \<and>
         drv_deviceCount d \<noteq> 0 \<and> drv_result d (cuDeviceGet 0) = CUDA_SUCCESS \<and>
         drv_result d (cuDeviceGetAttribute CU_DEVICE_ATTRIBUTE_COMPUTE_CAPABILITY_MAJOR) = CUDA_SUCCESS \<and>
         drv_result d (cuDeviceGetAttribute CU_DEVICE_ATTRIBUTE_COMPUTE_CAPABILITY_MINOR) = CUDA_SUCCESS \<and>
         drv_result d cuDeviceTotalMem = CUDA_SUCCESS
      then None else Some (Exit (- 1)))"
  by (simp add: initCUDA_head_def Let_def status_seq status_simps status_checkCudaErrors)

lemma status_da_initCUDA:
  "status (da_initCUDA d) =
     (if status (initCUDA_head d da_file) = None \<and> drv_result d (cuCtxCreate 0) = CUDA_SUCCESS \<and>
         drv_result d (cuModuleLoad module_file) = CUDA_SUCCESS \<and>
         drv_result d (cuModuleGetFunction kernel_name) = CUDA_SUCCESS
      then None else Some (Exit (- 1)))"
  using status_initCUDA_head[of d da_file]
  by (simp add: da_initCUDA_def status_seq status_simps exits_status)

lemma status_um_initCUDA:
  "status (um_initCUDA d) =
     (if status (initCUDA_head d um_file) = None \<and>
         drv_result d (cuDeviceGetAttribute CU_DEVICE_ATTRIBUTE_UNIFIED_ADDRESSING) = CUDA_SUCCESS \<and>
         drv_attr d CU_DEVICE_ATTRIBUTE_UNIFIED_ADDRESSING \<noteq> 0 \<and>
         drv_result d (cuCtxCreate 0) = CUDA_SUCCESS \<and>
         drv_result d (cuModuleLoad module_file) = CUDA_SUCCESS \<and>
         drv_result d (cuModuleGetFunction kernel_name) = CUDA_SUCCESS
      then None else Some (Exit (- 1)))"
  using status_initCUDA_head[of d um_file]
  by (simp add: um_initCUDA_def Let_def status_seq status_simps exits_status status_checkCudaErrors)

lemma status_runKernel:
  "status (runKernel d f la ll n) =
     (if drv_result d (cuDeviceGetAttribute CU_DEVICE_ATTRIBUTE_MAX_BLOCK_DIM_X) \<noteq> CUDA_SUCCESS
      then Some (Exit (- 1))
      else case grid_dim_x n (drv_attr d CU_DEVICE_ATTRIBUTE_MAX_BLOCK_DIM_X) of
             None \<Rightarrow> Some Trap
           | Some g \<Rightarrow>
               if drv_result d (cuLaunchKernel (uint32 g) 1 1
                    (uint32 (drv_attr d CU_DEVICE_ATTRIBUTE_MAX_BLOCK_DIM_X)) 1 1 0 0 n) = CUDA_SUCCESS
               then None else Some (Exit (- 1)))"
  by (simp add: runKernel_def Let_def status_seq status_simps status_checkCudaErrors
      split: option.splits)


lemma status_da_parts:
  "status (da_before d) =
     (if status (da_initCUDA d) = None \<and>
         drv_result d (cuMemAlloc VA 40) = CUDA_SUCCESS \<and>
         drv_result d (cuMemAlloc VB 40) = CUDA_SUCCESS \<and>
         drv_result d (cuMemAlloc VC 40) = CUDA_SUCCESS \<and>
         drv_result d (cuMemcpyHtoD VA 40) = CUDA_SUCCESS \<and>
         drv_result d (cuMemcpyHtoD VB 40) = CUDA_SUCCESS
      then None else Some (Exit (- 1)))"
  "status (da_after d) =
     (if drv_result d (cuMemcpyDtoH VC 40) = CUDA_SUCCESS \<and>
         drv_result d (cuMemFree VA) = CUDA_SUCCESS \<and>
         drv_result d (cuMemFree VB) = CUDA_SUCCESS \<and>
         drv_result d (cuMemFree VC) = CUDA_SUCCESS
      then Some (Exit 0) else Some (Exit (- 1)))"
  using status_da_initCUDA[of d]
  by (simp_all add: da_before_def da_after_def da_setupDeviceMemory_def
      da_releaseDeviceMemory_def finalizeCUDA_def status_seq status_simps
      status_checkCudaErrors bytes_N)

lemma status_um_parts:
  "status (um_before d) =
     (if status (um_initCUDA d) = None \<and>
         drv_result d (cuMemAllocHost VA 40) = CUDA_SUCCESS \<and>
         drv_result d (cuMemAllocHost VB 40) = CUDA_SUCCESS \<and>
         drv_result d (cuMemAllocHost VC 40) = CUDA_SUCCESS
      then None else Some (Exit (- 1)))"
  "status (um_after d) =
     (if drv_result d (cuMemFreeHost VA) = CUDA_SUCCESS \<and>
         drv_result d (cuMemFreeHost VB) = CUDA_SUCCESS \<and>
         drv_result d (cuMemFreeHost VC) = CUDA_SUCCESS
      then Some (Exit 0) else Some (Exit (- 1)))"
  using status_um_initCUDA[of d]
  by (simp_all add: um_before_def um_after_def um_setupDeviceMemory_def
      um_releaseDeviceMemory_def finalizeCUDA_def status_seq status_simps
      status_checkCudaErrors bytes_N)

lemma status_da_main:
  "status (da_main d) =
     (if status (da_before d) \<noteq> None then status (da_before d)
      else if status (da_runKernel d N) \<noteq> None then status (da_runKernel d N)
      else status (da_after d))"
  by (simp add: da_main_parts status_seq status_simps)

lemma status_um_main:
  "status (um_main d) =
     (if status (um_before d) \<noteq> None then status (um_before d)
      else if status (um_runKernel d N) \<noteq> None then status (um_runKernel d N)
      else status (um_after d))"
  by (simp add: um_main_parts status_seq status_simps)

lemma da_exit_0_iff: "status (da_main d) = Some (Exit 0) \<longleftrightarrow> da_ok d"
  unfolding status_da_main status_da_parts status_da_initCUDA status_initCUDA_head
    da_runKernel_def status_runKernel da_ok_def da_calls_def launch_calls_def
  by (auto split: option.splits)

lemma um_exit_0_iff: "status (um_main d) = Some (Exit 0) \<longleftrightarrow> um_ok d"
  unfolding status_um_main status_um_parts status_um_initCUDA status_initCUDA_head
    um_runKernel_def status_runKernel um_ok_def um_calls_def launch_calls_def
  by (auto split: option.splits)

lemma trap_only_by_division:
  "status (da_main d) = Some Trap \<Longrightarrow>
     grid_dim_x N (drv_attr d CU_DEVICE_ATTRIBUTE_MAX_BLOCK_DIM_X) = None"
  "status (um_main d) = Some Trap \<Longrightarrow>
     grid_dim_x N (drv_attr d CU_DEVICE_ATTRIBUTE_MAX_BLOCK_DIM_X) = None"
  unfolding status_da_main status_da_parts status_da_initCUDA status_initCUDA_head
    status_um_main status_um_parts status_um_initCUDA
    da_runKernel_def um_runKernel_def status_runKernel
  by (auto split: option.splits if_splits)

lemma grid_traps_iff: "grid_dim_x N bs = None \<longleftrightarrow> bs = 0"
proof -
  have "c_sub (c_add N bs) 1 \<noteq> INT_MIN" if "bs = - 1"
    using that by (simp add: c_sub_def c_add_def int32_def N_def INT_MIN_def)
  then show ?thesis
    by (auto simp: grid_dim_x_def c_div_def)
qed

lemma stderr_empty_ok:
  "da_ok d \<Longrightarrow> stderr_of (da_main d) = []"
  "um_ok d \<Longrightarrow> stderr_of (um_main d) = []"
proof -
  have w: "filter is_stderr (init_writes d) = []"
    by (rule init_writes_no_stderr)
  have c: "filter is_stderr (checks d) = []"
    by (auto simp: filter_empty_conv is_stderr_def error_line_def dest!: checks_events)
  have l: "filter is_stderr (map Call (launch_calls d)) = []"
    by (auto simp: filter_empty_conv is_stderr_def)
  show "stderr_of (da_main d) = []" if ok: "da_ok d"
    by (simp add: da_main_ok[OF ok] stderr_of_def trace_def head_events_def w c l is_stderr_def)
  show "stderr_of (um_main d) = []" if ok: "um_ok d"
    by (simp add: um_main_ok[OF ok] stderr_of_def trace_def head_events_def w c l verdict_def
        is_stderr_def)
qed

lemma not_ok_aborted:
  assumes "drv_attr d CU_DEVICE_ATTRIBUTE_MAX_BLOCK_DIM_X \<noteq> 0"
  shows "\<not> da_ok d \<Longrightarrow> aborted (da_main d)" and "\<not> um_ok d \<Longrightarrow> aborted (um_main d)"
proof -
  have g: "grid_dim_x N (drv_attr d CU_DEVICE_ATTRIBUTE_MAX_BLOCK_DIM_X) \<noteq> None"
    using assms by (simp add: grid_traps_iff)
  show "aborted (da_main d)" if "\<not> da_ok d"
    using settled_da_main[of d] that g trap_only_by_division(1)[of d] da_exit_0_iff[of d]
      status_da_main[of d] status_da_parts(2)[of d]
    by (auto simp: settled_def split: if_splits)
  show "aborted (um_main d)" if "\<not> um_ok d"
    using settled_um_main[of d] that g trap_only_by_division(2)[of d] um_exit_0_iff[of d]
      status_um_main[of d] status_um_parts(2)[of d]
    by (auto simp: settled_def split: if_splits)
qed

text \<open>
  C2, as amended. Either program returns 0 exactly when nothing fails: a device is
  counted, the queried block size is not 0 (and the device has unified addressing, for
  the second program), and every vendor call whose return code the program tests
  succeeds. The output vector plays no part in this: a difference between the output
  and the sums is reported on the standard output only. In a run that returns 0
  nothing is written to the standard error. In every other run with a block size
  other than 0 the process ends by \<open>exit(-1)\<close> after writing to the standard error.
\<close>

theorem exit_status_ignores_mismatch:
  "(status (da_main d) = Some (Exit 0) \<longleftrightarrow> da_ok d)
   \<and> (status (um_main d) = Some (Exit 0) \<longleftrightarrow> um_ok d)
   \<and> da_ok (d\<lparr>drv_output := out\<rparr>) = da_ok d
   \<and> um_ok (d\<lparr>drv_output := out\<rparr>) = um_ok d
   \<and> (da_ok d \<longrightarrow> stderr_of (da_main d) = [])
   \<and> (um_ok d \<longrightarrow> stderr_of (um_main d) = [])
   \<and> (\<not> da_ok d \<and> drv_attr d CU_DEVICE_ATTRIBUTE_MAX_BLOCK_DIM_X \<noteq> 0 \<longrightarrow>
        status (da_main d) = Some (Exit (- 1)) \<and> stderr_of (da_main d) \<noteq> [])
   \<and> (\<not> um_ok d \<and> drv_attr d CU_DEVICE_ATTRIBUTE_MAX_BLOCK_DIM_X \<noteq> 0 \<longrightarrow>
        status (um_main d) = Some (Exit (- 1)) \<and> stderr_of (um_main d) \<noteq> [])"
proof -
  have lc: "launch_calls (d\<lparr>drv_output := out\<rparr>) = launch_calls d"
    by (simp add: launch_calls_def cong: option.case_cong)
  have o: "da_ok (d\<lparr>drv_output := out\<rparr>) = da_ok d" "um_ok (d\<lparr>drv_output := out\<rparr>) = um_ok d"
    by (simp_all add: da_ok_def um_ok_def da_calls_def um_calls_def lc)
  show ?thesis
    using not_ok_aborted[of d] stderr_empty_ok[of d]
    by (simp add: da_exit_0_iff um_exit_0_iff o aborted_def)
qed


lemma failing_ok:
  "da_ok (sample_env (failing (cuDeviceGetName 100) 999) 1024 out)"
  "um_ok (sample_env (failing (cuStreamSynchronize 0) 700) 1024 out)"
  "\<not> da_ok (sample_env (failing (cuMemAlloc VB 40) 2) 1024 out)"
  "\<not> um_ok (sample_env (failing (cuMemAllocHost VB 40) 2) 1024 out)"
  by (simp_all add: da_ok_def um_ok_def da_calls_def um_calls_def launch_calls_def sample_env_def
      sample_attr_def failing_def sample_grid)

theorem exit_status_ignores_mismatch_witness:
  "da_ok (sample_env all_success 1024 wrong_at_3)
   \<and> um_ok (sample_env all_success 1024 wrong_at_3)
   \<and> status (da_main (sample_env all_success 1024 wrong_at_3)) = Some (Exit 0)
   \<and> status (um_main (sample_env all_success 1024 wrong_at_3)) = Some (Exit 0)
   \<and> stderr_of (da_main (sample_env all_success 1024 wrong_at_3)) = []
   \<and> stderr_of (um_main (sample_env all_success 1024 wrong_at_3)) = []
   \<and> \<not> da_ok (sample_env (failing (cuMemAlloc VB 40) 2) 1024 exact_sums)
   \<and> status (da_main (sample_env (failing (cuMemAlloc VB 40) 2) 1024 exact_sums)) = Some (Exit (- 1))
   \<and> stderr_of (da_main (sample_env (failing (cuMemAlloc VB 40) 2) 1024 exact_sums)) \<noteq> []
   \<and> \<not> um_ok (sample_env (failing (cuMemAllocHost VB 40) 2) 1024 exact_sums)
   \<and> status (um_main (sample_env (failing (cuMemAllocHost VB 40) 2) 1024 exact_sums)) =
       Some (Exit (- 1))
   \<and> stderr_of (um_main (sample_env (failing (cuMemAllocHost VB 40) 2) 1024 exact_sums)) \<noteq> []"
proof -
  have b: "drv_attr (sample_env r 1024 out) CU_DEVICE_ATTRIBUTE_MAX_BLOCK_DIM_X \<noteq> 0" for r out
    by (simp add: sample_env_def sample_attr_def)
  show ?thesis
    using exit_status_ignores_mismatch[of "sample_env all_success 1024 wrong_at_3"]
      exit_status_ignores_mismatch[of "sample_env (failing (cuMemAlloc VB 40) 2) 1024 exact_sums"]
      exit_status_ignores_mismatch[of "sample_env (failing (cuMemAllocHost VB 40) 2) 1024 exact_sums"]
    by (simp add: sample_ok failing_ok b)
qed

text \<open>
  C2 as stated fails. With every vendor call succeeding and the output wrong at index 3,
  both programs return 0 and write nothing to the standard error. The same holds when
  \<open>cuDeviceGetName\<close> fails in the first program or \<open>cuStreamSynchronize\<close> in the
  second: their codes are not tested. And with every call succeeding and every output
  equal to its sum, the first program still ends by \<open>exit(-1)\<close> when no device is
  counted, and by the trap of the division when the queried block size is 0.
\<close>

theorem mismatch_exits_zero:
  "(\<forall>c. drv_result (sample_env all_success 1024 wrong_at_3) c = CUDA_SUCCESS)
   \<and> drv_output (sample_env all_success 1024 wrong_at_3) 3 \<noteq>
       c_add (host_a (sample_env all_success 1024 wrong_at_3) 3)
             (host_b (sample_env all_success 1024 wrong_at_3) 3)
   \<and> status (da_main (sample_env all_success 1024 wrong_at_3)) = Some (Exit 0)
   \<and> status (um_main (sample_env all_success 1024 wrong_at_3)) = Some (Exit 0)
   \<and> stderr_of (da_main (sample_env all_success 1024 wrong_at_3)) = []
   \<and> stderr_of (um_main (sample_env all_success 1024 wrong_at_3)) = []
   \<and> drv_result (sample_env (failing (cuDeviceGetName 100) 999) 1024 exact_sums)
        (cuDeviceGetName 100) = CUDA_ERROR 999
   \<and> Call (cuDeviceGetName 100) \<in>
        set (trace (da_main (sample_env (failing (cuDeviceGetName 100) 999) 1024 exact_sums)))
   \<and> status (da_main (sample_env (failing (cuDeviceGetName 100) 999) 1024 exact_sums)) =
        Some (Exit 0)
   \<and> stderr_of (da_main (sample_env (failing (cuDeviceGetName 100) 999) 1024 exact_sums)) = []
   \<and> drv_result (sample_env (failing (cuStreamSynchronize 0) 700) 1024 exact_sums)
        (cuStreamSynchronize 0) = CUDA_ERROR 700
   \<and> Call (cuStreamSynchronize 0) \<in>
        set (trace (um_main (sample_env (failing (cuStreamSynchronize 0) 700) 1024 exact_sums)))
   \<and> status (um_main (sample_env (failing (cuStreamSynchronize 0) 700) 1024 exact_sums)) =
        Some (Exit 0)
   \<and> stderr_of (um_main (sample_env (failing (cuStreamSynchronize 0) 700) 1024 exact_sums)) = []
   \<and> status (da_main ((sample_env all_success 1024 exact_sums)\<lparr>drv_deviceCount := 0\<rparr>)) =
        Some (Exit (- 1))
   \<and> status (da_main (sample_env all_success 0 exact_sums)) = Some Trap"
proof -
  let ?d = "sample_env all_success 1024 wrong_at_3"
  let ?n = "sample_env (failing (cuDeviceGetName 100) 999) 1024 exact_sums"
  let ?s = "sample_env (failing (cuStreamSynchronize 0) 700) 1024 exact_sums"
  have all: "\<forall>c. drv_result ?d c = CUDA_SUCCESS"
    by (simp add: sample_env_def all_success_def)
  have wrong: "drv_output ?d 3 \<noteq> c_add (host_a ?d 3) (host_b ?d 3)"
    by (simp add: sample_arrays c_add_def int32_def) (simp add: sample_env_def wrong_at_3_def)
  have codes: "drv_result ?n (cuDeviceGetName 100) = CUDA_ERROR 999"
      "drv_result ?s (cuStreamSynchronize 0) = CUDA_ERROR 700"
    by (simp_all add: sample_env_def failing_def)
  have name: "Call (cuDeviceGetName 100) \<in> set (trace (da_main ?n))"
    by (simp add: da_main_ok[OF failing_ok(1)] trace_def head_events_def)
  have sync: "Call (cuStreamSynchronize 0) \<in> set (trace (um_main ?s))"
    by (simp add: um_main_ok[OF failing_ok(2)] trace_def)
  have nodev: "status (da_main ((sample_env all_success 1024 exact_sums)\<lparr>drv_deviceCount := 0\<rparr>)) =
        Some (Exit (- 1))"
    by (simp add: status_da_main status_da_parts status_da_initCUDA status_initCUDA_head
        sample_env_def)
  have g0: "grid_dim_x N 0 = None"
    by (simp add: grid_traps_iff)
  have trap: "status (da_main (sample_env all_success 0 exact_sums)) = Some Trap"
    by (simp add: status_da_main status_da_parts status_da_initCUDA status_initCUDA_head
        da_runKernel_def status_runKernel sample_env_def sample_attr_def all_success_def g0)
  show ?thesis
    using all wrong codes name sync nodev trap
    by (simp add: da_exit_0_iff um_exit_0_iff sample_ok failing_ok stderr_empty_ok)
qed

section \<open>Reporting the failure of a call\<close>

lemma reported_no_calls:
  "(\<And>c. Call c \<in> set (trace r) \<Longrightarrow> \<not> wrapped c) \<Longrightarrow> reported d f L r"
  unfolding reported_def by (metis in_set_conv_decomp)

lemma reported_skip: "reported d f L skip"
  by (rule reported_no_calls) (simp add: trace_simps)

lemma reported_stop: "reported d f L (stop h)"
  by (rule reported_no_calls) (simp add: trace_simps)

lemma reported_emit: "(\<And>c. e = Call c \<Longrightarrow> \<not> wrapped c) \<Longrightarrow> reported d f L (emit e)"
  by (rule reported_no_calls) (simp add: trace_simps)

lemma reported_events: "(\<And>c. Call c \<notin> set es) \<Longrightarrow> reported d f L (events es)"
  by (rule reported_no_calls) (simp add: trace_simps)

lemma reported_checkCudaErrors: "L c = l \<Longrightarrow> reported d f L (checkCudaErrors d f l c)"
  by (auto simp: reported_def checkCudaErrors_eq trace_def status_def Cons_eq_append_conv)

lemma reported_seq:
  assumes p: "reported d f L p" and q: "reported d f L q"
  shows "reported d f L (seq p q)"
  unfolding reported_def
proof (intro allI impI)
  fix pre c post
  assume t: "trace (seq p q) = pre @ Call c # post" and w: "wrapped c"
    and r: "drv_result d c \<noteq> CUDA_SUCCESS"
  let ?msg = "[Stderr ''CUDA Driver API error = %04d from file <%s>, line %i.\<newline>''
                  [ArgRes (drv_result d c), ArgStr f, ArgInt (L c)]]"
  show "status (seq p q) = Some (Exit (- 1)) \<and> post = ?msg"
  proof (cases "status p = None")
    case False
    then have "trace p = pre @ Call c # post"
      using t by (auto simp: trace_seq)
    then have "status p = Some (Exit (- 1)) \<and> post = ?msg"
      using p w r unfolding reported_def by blast
    then show ?thesis
      by (simp add: status_seq)
  next
    case True
    then have eq: "trace p @ trace q = pre @ Call c # post"
      using t by (simp add: trace_seq)
    then obtain us where
      "(trace p = pre @ us \<and> us @ trace q = Call c # post) \<or>
       (trace p @ us = pre \<and> trace q = us @ Call c # post)"
      unfolding append_eq_append_conv2 by blast
    then consider (left) us' where "trace p = pre @ Call c # us'"
      | (right) us where "trace q = us @ Call c # post"
      by (cases us) auto
    then show ?thesis
    proof cases
      case left
      then have "status p = Some (Exit (- 1))"
        using p w r unfolding reported_def by blast
      then show ?thesis
        using True by simp
    next
      case right
      then have "status q = Some (Exit (- 1)) \<and> post = ?msg"
        using q w r unfolding reported_def by blast
      then show ?thesis
        using True by (simp add: status_seq)
    qed
  qed
qed

lemma reported_seqs_Nil: "reported d f L (seqs [])"
  by (simp add: reported_skip)

lemma reported_seqs_Cons:
  "reported d f L p \<Longrightarrow> reported d f L (seqs ps) \<Longrightarrow> reported d f L (seqs (p # ps))"
  by (simp add: reported_seq)

lemma reported_if:
  "(b \<Longrightarrow> reported d f L p) \<Longrightarrow> (\<not> b \<Longrightarrow> reported d f L q) \<Longrightarrow>
     reported d f L (if b then p else q)"
  by simp

lemma reported_option_case:
  "(x = None \<Longrightarrow> reported d f L p) \<Longrightarrow> (\<And>y. x = Some y \<Longrightarrow> reported d f L (q y)) \<Longrightarrow>
     reported d f L (case x of None \<Rightarrow> p | Some y \<Rightarrow> q y)"
  by (cases x) simp_all

lemmas reported_intros = reported_seqs_Nil reported_seqs_Cons reported_seq reported_if
  reported_option_case reported_checkCudaErrors reported_emit reported_skip reported_stop
  reported_events

lemma reported_initCUDA_head:
  "reported d f da_line (initCUDA_head d f)" "reported d f um_line (initCUDA_head d f)"
  unfolding initCUDA_head_def Let_def
  by (intro reported_intros; simp)+

lemma reported_da_initCUDA: "reported d da_file da_line (da_initCUDA d)"
  unfolding da_initCUDA_def da_exit_def
  by (intro reported_intros reported_initCUDA_head; simp)

lemma reported_um_initCUDA: "reported d um_file um_line (um_initCUDA d)"
  unfolding um_initCUDA_def um_exit_def um_exitCtx_def Let_def
  by (intro reported_intros reported_initCUDA_head; simp)

lemma reported_runKernel:
  "reported d da_file da_line (da_runKernel d n)" "reported d um_file um_line (um_runKernel d n)"
  unfolding da_runKernel_def um_runKernel_def runKernel_def Let_def
  by (intro reported_intros; simp)+

lemma no_calls_in_loops: "Call c \<notin> set (init_writes d)" "Call c \<notin> set (checks d)"
  by (auto simp: error_line_def dest!: init_writes_events checks_events)

lemma reported_da_main: "reported d da_file da_line (da_main d)"
  unfolding da_main_parts da_before_def da_after_def da_setupDeviceMemory_def
    da_releaseDeviceMemory_def finalizeCUDA_def
  by (intro reported_intros reported_da_initCUDA reported_runKernel no_calls_in_loops; simp)

lemma reported_um_main: "reported d um_file um_line (um_main d)"
  unfolding um_main_parts um_before_def um_after_def um_setupDeviceMemory_def
    um_releaseDeviceMemory_def finalizeCUDA_def
  by (intro reported_intros reported_um_initCUDA reported_runKernel no_calls_in_loops;
      simp add: verdict_def split: if_splits)


lemma initCUDA_passes:
  "status (da_initCUDA d) = None \<Longrightarrow>
     trace (da_initCUDA d) =
       head_events d @
       [Call (cuCtxCreate 0), Call (cuModuleLoad module_file),
        Call (cuModuleGetFunction kernel_name)]"
  "status (initCUDA_head d f) = None \<Longrightarrow> initCUDA_head d f = (head_events d, None)"
proof -
  show h: "initCUDA_head d f = (head_events d, None)" if "status (initCUDA_head d f) = None" for f
    using that unfolding status_initCUDA_head
    by (intro initCUDA_head_ok) (simp_all split: if_splits)
  show "trace (da_initCUDA d) =
       head_events d @
       [Call (cuCtxCreate 0), Call (cuModuleLoad module_file),
        Call (cuModuleGetFunction kernel_name)]" if "status (da_initCUDA d) = None"
  proof -
    have c: "status (initCUDA_head d da_file) = None"
      "drv_result d (cuCtxCreate 0) = CUDA_SUCCESS"
      "drv_result d (cuModuleLoad module_file) = CUDA_SUCCESS"
      "drv_result d (cuModuleGetFunction kernel_name) = CUDA_SUCCESS"
      using that unfolding status_da_initCUDA by (simp_all split: if_splits)
    show ?thesis
      by (simp add: da_initCUDA_def h[OF c(1)] c(2-4) run_defs trace_def)
  qed
qed

lemma alloc_failure_trace:
  "trace (da_main (sample_env (failing (cuMemAlloc VB 40) 2) 1024 exact_sums)) =
     (init_writes (sample_env (failing (cuMemAlloc VB 40) 2) 1024 exact_sums) @
      [Stdout ''- Initializing...\<newline>'' []] @
      head_events (sample_env (failing (cuMemAlloc VB 40) 2) 1024 exact_sums) @
      [Call (cuCtxCreate 0), Call (cuModuleLoad module_file),
       Call (cuModuleGetFunction kernel_name), Call (cuMemAlloc VA 40)]) @
     Call (cuMemAlloc VB 40) #
     [Stderr ''CUDA Driver API error = %04d from file <%s>, line %i.\<newline>''
        [ArgRes (CUDA_ERROR 2), ArgStr ''driver_api.cpp'', ArgInt 104]]"
proof -
  let ?d = "sample_env (failing (cuMemAlloc VB 40) 2) 1024 exact_sums"
  have r: "drv_result ?d c = (if c = cuMemAlloc VB 40 then CUDA_ERROR 2 else CUDA_SUCCESS)"
      "drv_deviceCount ?d = 1" for c
    by (simp_all add: sample_env_def failing_def)
  have i: "status (da_initCUDA ?d) = None"
    by (simp add: status_da_initCUDA status_initCUDA_head r module_file_def kernel_name_def)
  have b: "trace (da_before ?d) =
      [Stdout ''- Initializing...\<newline>'' []] @ head_events ?d @
      [Call (cuCtxCreate 0), Call (cuModuleLoad module_file),
       Call (cuModuleGetFunction kernel_name), Call (cuMemAlloc VA 40), Call (cuMemAlloc VB 40),
       Stderr ''CUDA Driver API error = %04d from file <%s>, line %i.\<newline>''
         [ArgRes (CUDA_ERROR 2), ArgStr ''driver_api.cpp'', ArgInt 104]]"
    by (simp add: da_before_def da_setupDeviceMemory_def trace_seq status_seq trace_simps
        status_simps i initCUDA_passes(1)[OF i] status_checkCudaErrors bytes_N r)
       (simp add: checkCudaErrors_eq trace_def r da_file_def)
  have s: "status (da_before ?d) \<noteq> None"
    by (simp add: status_da_parts r)
  show ?thesis
    using s by (simp add: da_trace_cases b)
qed

text \<open>
  C3 as stated fails. When \<open>cuCtxCreate\<close> fails with code 2 in the first program, the
  only line on the standard error is a fixed text without code, file or line, and
  \<open>cuCtxDestroy\<close> is called before the process exits. When \<open>cuDeviceGetName\<close> fails
  in the first program, or \<open>cuStreamSynchronize\<close> in the second, the call is not
  checked: the run goes on, returns 0 and writes nothing to the standard error.
\<close>

theorem unchecked_and_hand_tested_calls:
  "drv_result (sample_env (failing (cuCtxCreate 0) 2) 1024 exact_sums) (cuCtxCreate 0) =
     CUDA_ERROR 2
   \<and> trace (da_main (sample_env (failing (cuCtxCreate 0) 2) 1024 exact_sums)) =
       init_writes (sample_env (failing (cuCtxCreate 0) 2) 1024 exact_sums) @
       [Stdout ''- Initializing...\<newline>'' []] @
       head_events (sample_env (failing (cuCtxCreate 0) 2) 1024 exact_sums) @
       [Call (cuCtxCreate 0), Stderr ''* Error initializing the CUDA context.\<newline>'' [],
        Call cuCtxDestroy]
   \<and> stderr_of (da_main (sample_env (failing (cuCtxCreate 0) 2) 1024 exact_sums)) =
       [Stderr ''* Error initializing the CUDA context.\<newline>'' []]
   \<and> drv_result (sample_env (failing (cuDeviceGetName 100) 999) 1024 exact_sums)
        (cuDeviceGetName 100) = CUDA_ERROR 999
   \<and> Call (cuDeviceGetName 100) \<in>
        set (trace (da_main (sample_env (failing (cuDeviceGetName 100) 999) 1024 exact_sums)))
   \<and> status (da_main (sample_env (failing (cuDeviceGetName 100) 999) 1024 exact_sums)) =
        Some (Exit 0)
   \<and> stderr_of (da_main (sample_env (failing (cuDeviceGetName 100) 999) 1024 exact_sums)) = []
   \<and> drv_result (sample_env (failing (cuStreamSynchronize 0) 700) 1024 exact_sums)
        (cuStreamSynchronize 0) = CUDA_ERROR 700
   \<and> Call (cuStreamSynchronize 0) \<in>
        set (trace (um_main (sample_env (failing (cuStreamSynchronize 0) 700) 1024 exact_sums)))
   \<and> status (um_main (sample_env (failing (cuStreamSynchronize 0) 700) 1024 exact_sums)) =
        Some (Exit 0)
   \<and> stderr_of (um_main (sample_env (failing (cuStreamSynchronize 0) 700) 1024 exact_sums)) = []"
proof -
  let ?c = "sample_env (failing (cuCtxCreate 0) 2) 1024 exact_sums"
  let ?n = "sample_env (failing (cuDeviceGetName 100) 999) 1024 exact_sums"
  let ?s = "sample_env (failing (cuStreamSynchronize 0) 700) 1024 exact_sums"
  have r: "drv_result ?c c = (if c = cuCtxCreate 0 then CUDA_ERROR 2 else CUDA_SUCCESS)"
      "drv_deviceCount ?c = 1" for c
    by (simp_all add: sample_env_def failing_def)
  have h: "status (initCUDA_head ?c da_file) = None"
    by (simp add: status_initCUDA_head r)
  have i: "da_initCUDA ?c =
      (head_events ?c @
       [Call (cuCtxCreate 0), Stderr ''* Error initializing the CUDA context.\<newline>'' [],
        Call cuCtxDestroy], Some (Exit (- 1)))"
    by (simp add: da_initCUDA_def initCUDA_passes(2)[OF h] r da_exit_def run_defs)
  have b: "da_before ?c =
      ([Stdout ''- Initializing...\<newline>'' []] @ head_events ?c @
       [Call (cuCtxCreate 0), Stderr ''* Error initializing the CUDA context.\<newline>'' [],
        Call cuCtxDestroy], Some (Exit (- 1)))"
    by (simp add: da_before_def i run_defs)
  have t: "trace (da_main ?c) =
       init_writes ?c @ [Stdout ''- Initializing...\<newline>'' []] @ head_events ?c @
       [Call (cuCtxCreate 0), Stderr ''* Error initializing the CUDA context.\<newline>'' [],
        Call cuCtxDestroy]"
  proof -
    have s: "status (da_before ?c) = Some (Exit (- 1))"
      by (simp add: b status_def)
    have tb: "trace (da_before ?c) =
        [Stdout ''- Initializing...\<newline>'' []] @ head_events ?c @
        [Call (cuCtxCreate 0), Stderr ''* Error initializing the CUDA context.\<newline>'' [],
         Call cuCtxDestroy]"
      by (simp add: b trace_def)
    show ?thesis
      by (simp add: da_trace_cases s tb)
  qed
  have e: "stderr_of (da_main ?c) = [Stderr ''* Error initializing the CUDA context.\<newline>'' []]"
    by (simp add: stderr_of_def t init_writes_no_stderr head_events_def is_stderr_def)
  have codes: "drv_result ?n (cuDeviceGetName 100) = CUDA_ERROR 999"
      "drv_result ?s (cuStreamSynchronize 0) = CUDA_ERROR 700"
    by (simp_all add: sample_env_def failing_def)
  have name: "Call (cuDeviceGetName 100) \<in> set (trace (da_main ?n))"
    by (simp add: da_main_ok[OF failing_ok(1)] trace_def head_events_def)
  have sync: "Call (cuStreamSynchronize 0) \<in> set (trace (um_main ?s))"
    by (simp add: um_main_ok[OF failing_ok(2)] trace_def)
  show ?thesis
    using r(1)[of "cuCtxCreate 0"] t e codes name sync
    by (simp add: da_exit_0_iff um_exit_0_iff failing_ok stderr_empty_ok)
qed

subsection \<open>The calls tested by hand\<close>

lemma hand_no_calls:
  "(\<And>c. Call c \<in> set (trace r) \<Longrightarrow> hand_tested c \<Longrightarrow> drv_result d c = CUDA_SUCCESS) \<Longrightarrow>
     hand_reported d r"
  unfolding hand_reported_def by (metis in_set_conv_decomp)

lemma hand_skip: "hand_reported d skip"
  by (rule hand_no_calls) (simp add: trace_simps)

lemma hand_stop: "hand_reported d (stop h)"
  by (rule hand_no_calls) (simp add: trace_simps)

lemma hand_emit:
  "(\<And>c. e = Call c \<Longrightarrow> hand_tested c \<Longrightarrow> drv_result d c = CUDA_SUCCESS) \<Longrightarrow>
     hand_reported d (emit e)"
  by (rule hand_no_calls) (simp add: trace_simps)

lemma hand_events: "(\<And>c. Call c \<notin> set es) \<Longrightarrow> hand_reported d (events es)"
  by (rule hand_no_calls) (simp add: trace_simps)

lemma hand_checkCudaErrors: "\<not> hand_tested c \<Longrightarrow> hand_reported d (checkCudaErrors d f l c)"
  by (rule hand_no_calls) (auto simp: checkCudaErrors_eq trace_def split: if_splits)

lemma hand_seq:
  assumes p: "hand_reported d p" and q: "hand_reported d q"
  shows "hand_reported d (seq p q)"
  unfolding hand_reported_def
proof (intro allI impI)
  fix pre c post
  assume t: "trace (seq p q) = pre @ Call c # post" and w: "hand_tested c"
    and r: "drv_result d c \<noteq> CUDA_SUCCESS"
  show "status (seq p q) = Some (Exit (- 1)) \<and> post = fixed_report c"
  proof (cases "status p = None")
    case False
    then have "trace p = pre @ Call c # post"
      using t by (auto simp: trace_seq)
    then have "status p = Some (Exit (- 1)) \<and> post = fixed_report c"
      using p w r unfolding hand_reported_def by blast
    then show ?thesis
      by (simp add: status_seq)
  next
    case True
    then have eq: "trace p @ trace q = pre @ Call c # post"
      using t by (simp add: trace_seq)
    then obtain us where
      "(trace p = pre @ us \<and> us @ trace q = Call c # post) \<or>
       (trace p @ us = pre \<and> trace q = us @ Call c # post)"
      unfolding append_eq_append_conv2 by blast
    then consider (left) us' where "trace p = pre @ Call c # us'"
      | (right) us where "trace q = us @ Call c # post"
      by (cases us) auto
    then show ?thesis
    proof cases
      case left
      then have "status p = Some (Exit (- 1))"
        using p w r unfolding hand_reported_def by blast
      then show ?thesis
        using True by simp
    next
      case right
      then have "status q = Some (Exit (- 1)) \<and> post = fixed_report c"
        using q w r unfolding hand_reported_def by blast
      then show ?thesis
        using True by (simp add: status_seq)
    qed
  qed
qed

lemma hand_seqs_Nil: "hand_reported d (seqs [])"
  by (simp add: hand_skip)

lemma hand_seqs_Cons:
  "hand_reported d p \<Longrightarrow> hand_reported d (seqs ps) \<Longrightarrow> hand_reported d (seqs (p # ps))"
  by (simp add: hand_seq)

lemma hand_if:
  "(b \<Longrightarrow> hand_reported d p) \<Longrightarrow> (\<not> b \<Longrightarrow> hand_reported d q) \<Longrightarrow>
     hand_reported d (if b then p else q)"
  by simp

lemma hand_option_case:
  "(x = None \<Longrightarrow> hand_reported d p) \<Longrightarrow> (\<And>y. x = Some y \<Longrightarrow> hand_reported d (q y)) \<Longrightarrow>
     hand_reported d (case x of None \<Rightarrow> p | Some y \<Rightarrow> q y)"
  by (cases x) simp_all

lemmas hand_intros = hand_seqs_Nil hand_seqs_Cons hand_seq hand_if
  hand_option_case hand_checkCudaErrors hand_emit hand_skip hand_stop hand_events

text \<open>A call tested by hand, its test, and what comes after.\<close>

lemma hand_test:
  assumes c: "hand_tested c" and f: "fixed_report c = [Stderr m as, Call cuCtxDestroy]"
    and ps: "hand_reported d (seqs ps)"
  shows "hand_reported d
     (seqs (emit (Call c) #
            (if drv_result d c \<noteq> CUDA_SUCCESS
             then seq (emit (Stderr m as)) (seq (emit (Call cuCtxDestroy)) (stop (Exit (- 1))))
             else skip) # ps))"
proof (cases "drv_result d c = CUDA_SUCCESS")
  case True
  have "hand_reported d (seq (emit (Call c)) (seqs ps))"
    by (intro hand_seq hand_emit ps) (simp add: True)
  then show ?thesis
    by (simp add: True seq_skip_left)
next
  case False
  have "seqs (emit (Call c) #
            (if drv_result d c \<noteq> CUDA_SUCCESS
             then seq (emit (Stderr m as)) (seq (emit (Call cuCtxDestroy)) (stop (Exit (- 1))))
             else skip) # ps) = ([Call c, Stderr m as, Call cuCtxDestroy], Some (Exit (- 1)))"
    by (simp add: False run_defs)
  then show ?thesis
    unfolding hand_reported_def
    by (auto simp: trace_def status_def Cons_eq_append_conv f)
qed

lemma hand_initCUDA_head: "hand_reported d (initCUDA_head d f)"
proof (cases "drv_result d (cuInit 0) = CUDA_SUCCESS")
  case True
  show ?thesis
    unfolding initCUDA_head_def Let_def
    by (intro hand_intros; simp add: True)
next
  case False
  have "initCUDA_head d f =
      ([Call (cuInit 0), Stderr ''Error: no devices supporting CUDA\<newline>'' []],
       Some (Exit (- 1)))"
    by (simp add: initCUDA_head_def Let_def False run_defs)
  then show ?thesis
    unfolding hand_reported_def
    by (auto simp: trace_def status_def Cons_eq_append_conv)
qed

lemma hand_da_initCUDA: "hand_reported d (da_initCUDA d)"
  unfolding da_initCUDA_def da_exit_def
  by (intro hand_seqs_Cons[OF hand_initCUDA_head] hand_test hand_seqs_Nil; simp)

lemma hand_um_initCUDA: "hand_reported d (um_initCUDA d)"
  unfolding um_initCUDA_def um_exit_def um_exitCtx_def Let_def
  apply (rule hand_seqs_Cons[OF hand_initCUDA_head])
  apply (rule hand_seqs_Cons)
   apply (rule hand_checkCudaErrors, simp)
  apply (rule hand_seqs_Cons)
   apply (intro hand_if hand_seq hand_emit hand_stop; simp)
  apply (intro hand_test hand_seqs_Nil; simp)
  done

lemma hand_runKernel:
  "hand_reported d (da_runKernel d n)" "hand_reported d (um_runKernel d n)"
  unfolding da_runKernel_def um_runKernel_def runKernel_def Let_def
  by (intro hand_intros; simp)+

lemma hand_da_main: "hand_reported d (da_main d)"
  unfolding da_main_parts da_before_def da_after_def da_setupDeviceMemory_def
    da_releaseDeviceMemory_def finalizeCUDA_def
  by (intro hand_intros hand_da_initCUDA hand_runKernel no_calls_in_loops; simp)

lemma hand_um_main: "hand_reported d (um_main d)"
  unfolding um_main_parts um_before_def um_after_def um_setupDeviceMemory_def
    um_releaseDeviceMemory_def finalizeCUDA_def
  by (intro hand_intros hand_um_initCUDA hand_runKernel no_calls_in_loops;
      simp add: verdict_def split: if_splits)


text \<open>Runs in which one call tested by hand fails.\<close>

lemma module_failure_trace:
  "trace (um_main (sample_env (failing (cuModuleLoad module_file) 3) 1024 exact_sums)) =
     ([Stdout ''- Initializing...\<newline>'' []] @
      head_events (sample_env (failing (cuModuleLoad module_file) 3) 1024 exact_sums) @
      [Call (cuDeviceGetAttribute CU_DEVICE_ATTRIBUTE_UNIFIED_ADDRESSING),
       Stdout ''  Unified Virtual Addressing is supported on this device\<newline>'' [],
       Call (cuCtxCreate 0)]) @
     Call (cuModuleLoad module_file) #
     [Stderr ''* Error loading the module %s\<newline>'' [ArgStr ''kernel.ptx''],
      Call cuCtxDestroy]"
proof -
  let ?d = "sample_env (failing (cuModuleLoad module_file) 3) 1024 exact_sums"
  have r: "drv_result ?d c = (if c = cuModuleLoad module_file then CUDA_ERROR 3 else CUDA_SUCCESS)"
      "drv_deviceCount ?d = 1" "drv_attr ?d CU_DEVICE_ATTRIBUTE_UNIFIED_ADDRESSING = 1" for c
    by (simp_all add: sample_env_def failing_def sample_attr_def)
  have h: "status (initCUDA_head ?d um_file) = None"
    by (simp add: status_initCUDA_head r)
  have i: "um_initCUDA ?d =
      (head_events ?d @
       [Call (cuDeviceGetAttribute CU_DEVICE_ATTRIBUTE_UNIFIED_ADDRESSING),
        Stdout ''  Unified Virtual Addressing is supported on this device\<newline>'' [],
        Call (cuCtxCreate 0), Call (cuModuleLoad module_file),
        Stderr ''* Error loading the module %s\<newline>'' [ArgStr ''kernel.ptx''],
        Call cuCtxDestroy], Some (Exit (- 1)))"
    by (simp add: um_initCUDA_def Let_def initCUDA_passes(2)[OF h] r um_exit_def um_exitCtx_def
        checkCudaErrors_eq run_defs)
       (simp add: module_file_def)
  have b: "um_before ?d =
      ([Stdout ''- Initializing...\<newline>'' []] @ head_events ?d @
       [Call (cuDeviceGetAttribute CU_DEVICE_ATTRIBUTE_UNIFIED_ADDRESSING),
        Stdout ''  Unified Virtual Addressing is supported on this device\<newline>'' [],
        Call (cuCtxCreate 0), Call (cuModuleLoad module_file),
        Stderr ''* Error loading the module %s\<newline>'' [ArgStr ''kernel.ptx''],
        Call cuCtxDestroy], Some (Exit (- 1)))"
    by (simp add: um_before_def i run_defs)
  have s: "status (um_before ?d) \<noteq> None"
    by (simp add: b status_def)
  show ?thesis
    using s by (simp add: um_trace_cases) (simp add: b trace_def)
qed

lemma function_failure_trace:
  "trace (da_main (sample_env (failing (cuModuleGetFunction kernel_name) 4) 1024 exact_sums)) =
     (init_writes (sample_env (failing (cuModuleGetFunction kernel_name) 4) 1024 exact_sums) @
      [Stdout ''- Initializing...\<newline>'' []] @
      head_events (sample_env (failing (cuModuleGetFunction kernel_name) 4) 1024 exact_sums) @
      [Call (cuCtxCreate 0), Call (cuModuleLoad module_file)]) @
     Call (cuModuleGetFunction kernel_name) #
     [Stderr ''* Error getting kernel function %s\<newline>'' [ArgStr ''Sum''],
      Call cuCtxDestroy]"
proof -
  let ?d = "sample_env (failing (cuModuleGetFunction kernel_name) 4) 1024 exact_sums"
  have r: "drv_result ?d c =
        (if c = cuModuleGetFunction kernel_name then CUDA_ERROR 4 else CUDA_SUCCESS)"
      "drv_deviceCount ?d = 1" for c
    by (simp_all add: sample_env_def failing_def)
  have h: "status (initCUDA_head ?d da_file) = None"
    by (simp add: status_initCUDA_head r)
  have i: "da_initCUDA ?d =
      (head_events ?d @
       [Call (cuCtxCreate 0), Call (cuModuleLoad module_file),
        Call (cuModuleGetFunction kernel_name),
        Stderr ''* Error getting kernel function %s\<newline>'' [ArgStr ''Sum''],
        Call cuCtxDestroy], Some (Exit (- 1)))"
    by (simp add: da_initCUDA_def initCUDA_passes(2)[OF h] r da_exit_def run_defs)
       (simp add: kernel_name_def)
  have b: "da_before ?d =
      ([Stdout ''- Initializing...\<newline>'' []] @ head_events ?d @
       [Call (cuCtxCreate 0), Call (cuModuleLoad module_file),
        Call (cuModuleGetFunction kernel_name),
        Stderr ''* Error getting kernel function %s\<newline>'' [ArgStr ''Sum''],
        Call cuCtxDestroy], Some (Exit (- 1)))"
    by (simp add: da_before_def i run_defs)
  have s: "status (da_before ?d) \<noteq> None"
    by (simp add: b status_def)
  show ?thesis
    using s by (simp add: da_trace_cases) (simp add: b trace_def)
qed

lemma context_failure_trace:
  "trace (um_main (sample_env (failing (cuCtxCreate 0) 2) 1024 exact_sums)) =
     ([Stdout ''- Initializing...\<newline>'' []] @
      head_events (sample_env (failing (cuCtxCreate 0) 2) 1024 exact_sums) @
      [Call (cuDeviceGetAttribute CU_DEVICE_ATTRIBUTE_UNIFIED_ADDRESSING),
       Stdout ''  Unified Virtual Addressing is supported on this device\<newline>'' []]) @
     Call (cuCtxCreate 0) #
     [Stderr ''* Error initializing the CUDA context.\<newline>'' [], Call cuCtxDestroy]"
proof -
  let ?d = "sample_env (failing (cuCtxCreate 0) 2) 1024 exact_sums"
  have r: "drv_result ?d c = (if c = cuCtxCreate 0 then CUDA_ERROR 2 else CUDA_SUCCESS)"
      "drv_deviceCount ?d = 1" "drv_attr ?d CU_DEVICE_ATTRIBUTE_UNIFIED_ADDRESSING = 1" for c
    by (simp_all add: sample_env_def failing_def sample_attr_def)
  have h: "status (initCUDA_head ?d um_file) = None"
    by (simp add: status_initCUDA_head r)
  have i: "um_initCUDA ?d =
      (head_events ?d @
       [Call (cuDeviceGetAttribute CU_DEVICE_ATTRIBUTE_UNIFIED_ADDRESSING),
        Stdout ''  Unified Virtual Addressing is supported on this device\<newline>'' [],
        Call (cuCtxCreate 0),
        Stderr ''* Error initializing the CUDA context.\<newline>'' [],
        Call cuCtxDestroy], Some (Exit (- 1)))"
    by (simp add: um_initCUDA_def Let_def initCUDA_passes(2)[OF h] r um_exit_def um_exitCtx_def
        checkCudaErrors_eq run_defs)
  have b: "um_before ?d =
      ([Stdout ''- Initializing...\<newline>'' []] @ head_events ?d @
       [Call (cuDeviceGetAttribute CU_DEVICE_ATTRIBUTE_UNIFIED_ADDRESSING),
        Stdout ''  Unified Virtual Addressing is supported on this device\<newline>'' [],
        Call (cuCtxCreate 0),
        Stderr ''* Error initializing the CUDA context.\<newline>'' [],
        Call cuCtxDestroy], Some (Exit (- 1)))"
    by (simp add: um_before_def i run_defs)
  have s: "status (um_before ?d) \<noteq> None"
    by (simp add: b status_def)
  show ?thesis
    using s by (simp add: um_trace_cases) (simp add: b trace_def)
qed

lemma init_failure_trace:
  "trace (da_main (sample_env (failing (cuInit 0) 100) 1024 exact_sums)) =
     (init_writes (sample_env (failing (cuInit 0) 100) 1024 exact_sums) @
      [Stdout ''- Initializing...\<newline>'' []]) @
     Call (cuInit 0) # [Stderr ''Error: no devices supporting CUDA\<newline>'' []]"
proof -
  let ?d = "sample_env (failing (cuInit 0) 100) 1024 exact_sums"
  have r: "drv_result ?d (cuInit 0) \<noteq> CUDA_SUCCESS"
    by (simp add: sample_env_def failing_def)
  have head: "initCUDA_head ?d da_file =
      ([Call (cuInit 0), Stderr ''Error: no devices supporting CUDA\<newline>'' []],
       Some (Exit (- 1)))"
    using r by (simp add: initCUDA_head_def Let_def run_defs)
  have b: "da_before ?d =
      ([Stdout ''- Initializing...\<newline>'' [], Call (cuInit 0),
        Stderr ''Error: no devices supporting CUDA\<newline>'' []], Some (Exit (- 1)))"
    by (simp add: da_before_def da_initCUDA_def head run_defs)
  have s: "status (da_before ?d) \<noteq> None"
    by (simp add: b status_def)
  show ?thesis
    using s by (simp add: da_trace_cases) (simp add: b trace_def)
qed


text \<open>
  C3, as amended. Wherever a run of either program makes a vendor call under
  \<open>checkCudaErrors\<close> (\<open>cuDeviceGetCount\<close>, \<open>cuDeviceGet\<close>, \<open>cuDeviceGetAttribute\<close>,
  \<open>cuDeviceTotalMem\<close>, \<open>cuMemAlloc\<close>, \<open>cuMemAllocHost\<close>, \<open>cuMemcpyHtoD\<close>,
  \<open>cuMemcpyDtoH\<close>, \<open>cuLaunchKernel\<close>, \<open>cuMemFree\<close>, \<open>cuMemFreeHost\<close>) and the call
  returns a code other than \<open>CUDA_SUCCESS\<close>, the very next event writes the numeric
  code, the file and the line of the call to the standard error, nothing follows it, and
  the process ends by \<open>exit(-1)\<close>. Wherever a run of either program calls \<open>cuInit\<close>,
  \<open>cuCtxCreate\<close>, \<open>cuModuleLoad\<close> or \<open>cuModuleGetFunction\<close> and the call returns a
  code other than \<open>CUDA_SUCCESS\<close>, what follows is exactly the fixed message of that
  call on the standard error, without code, file or line, then (for the three last)
  the call of \<open>cuCtxDestroy\<close>, and the process ends by \<open>exit(-1)\<close>.
\<close>

theorem wrapped_calls_report_and_exit:
  "(trace (da_main d) = pre @ Call c # post \<and> wrapped c \<and> drv_result d c \<noteq> CUDA_SUCCESS \<longrightarrow>
      status (da_main d) = Some (Exit (- 1)) \<and>
      post = [Stderr ''CUDA Driver API error = %04d from file <%s>, line %i.\<newline>''
                [ArgRes (drv_result d c), ArgStr da_file, ArgInt (da_line c)]])
   \<and> (trace (um_main d) = pre @ Call c # post \<and> wrapped c \<and> drv_result d c \<noteq> CUDA_SUCCESS \<longrightarrow>
      status (um_main d) = Some (Exit (- 1)) \<and>
      post = [Stderr ''CUDA Driver API error = %04d from file <%s>, line %i.\<newline>''
                [ArgRes (drv_result d c), ArgStr um_file, ArgInt (um_line c)]])
   \<and> (trace (da_main d) = pre @ Call c # post \<and> hand_tested c \<and>
        drv_result d c \<noteq> CUDA_SUCCESS \<longrightarrow>
      status (da_main d) = Some (Exit (- 1)) \<and> post = fixed_report c)
   \<and> (trace (um_main d) = pre @ Call c # post \<and> hand_tested c \<and>
        drv_result d c \<noteq> CUDA_SUCCESS \<longrightarrow>
      status (um_main d) = Some (Exit (- 1)) \<and> post = fixed_report c)"
  using reported_da_main[of d] reported_um_main[of d] hand_da_main[of d] hand_um_main[of d]
  unfolding reported_def hand_reported_def by blast

theorem wrapped_calls_report_and_exit_witness:
  "wrapped (cuMemAlloc VB 40)
   \<and> drv_result (sample_env (failing (cuMemAlloc VB 40) 2) 1024 exact_sums) (cuMemAlloc VB 40) =
       CUDA_ERROR 2
   \<and> status (da_main (sample_env (failing (cuMemAlloc VB 40) 2) 1024 exact_sums)) =
       Some (Exit (- 1))
   \<and> trace (da_main (sample_env (failing (cuMemAlloc VB 40) 2) 1024 exact_sums)) =
       (init_writes (sample_env (failing (cuMemAlloc VB 40) 2) 1024 exact_sums) @
        [Stdout ''- Initializing...\<newline>'' []] @
        head_events (sample_env (failing (cuMemAlloc VB 40) 2) 1024 exact_sums) @
        [Call (cuCtxCreate 0), Call (cuModuleLoad module_file),
         Call (cuModuleGetFunction kernel_name), Call (cuMemAlloc VA 40)]) @
       Call (cuMemAlloc VB 40) #
       [Stderr ''CUDA Driver API error = %04d from file <%s>, line %i.\<newline>''
          [ArgRes (CUDA_ERROR 2), ArgStr ''driver_api.cpp'', ArgInt 104]]
   \<and> hand_tested (cuModuleLoad module_file)
   \<and> drv_result (sample_env (failing (cuModuleLoad module_file) 3) 1024 exact_sums) (cuModuleLoad module_file) =
       CUDA_ERROR 3
   \<and> status (um_main (sample_env (failing (cuModuleLoad module_file) 3) 1024 exact_sums)) =
       Some (Exit (- 1))
   \<and> trace (um_main (sample_env (failing (cuModuleLoad module_file) 3) 1024 exact_sums)) =
       ([Stdout ''- Initializing...\<newline>'' []] @
        head_events (sample_env (failing (cuModuleLoad module_file) 3) 1024 exact_sums) @
        [Call (cuDeviceGetAttribute CU_DEVICE_ATTRIBUTE_UNIFIED_ADDRESSING),
         Stdout ''  Unified Virtual Addressing is supported on this device\<newline>'' [],
         Call (cuCtxCreate 0)]) @
       Call (cuModuleLoad module_file) #
       [Stderr ''* Error loading the module %s\<newline>'' [ArgStr ''kernel.ptx''],
        Call cuCtxDestroy]
   \<and> hand_tested (cuModuleGetFunction kernel_name)
   \<and> drv_result (sample_env (failing (cuModuleGetFunction kernel_name) 4) 1024 exact_sums) (cuModuleGetFunction kernel_name) =
       CUDA_ERROR 4
   \<and> status (da_main (sample_env (failing (cuModuleGetFunction kernel_name) 4) 1024 exact_sums)) =
       Some (Exit (- 1))
   \<and> trace (da_main (sample_env (failing (cuModuleGetFunction kernel_name) 4) 1024 exact_sums)) =
       (init_writes (sample_env (failing (cuModuleGetFunction kernel_name) 4) 1024 exact_sums) @
        [Stdout ''- Initializing...\<newline>'' []] @
        head_events (sample_env (failing (cuModuleGetFunction kernel_name) 4) 1024 exact_sums) @
        [Call (cuCtxCreate 0), Call (cuModuleLoad module_file)]) @
       Call (cuModuleGetFunction kernel_name) #
       [Stderr ''* Error getting kernel function %s\<newline>'' [ArgStr ''Sum''],
        Call cuCtxDestroy]
   \<and> hand_tested (cuCtxCreate 0)
   \<and> drv_result (sample_env (failing (cuCtxCreate 0) 2) 1024 exact_sums) (cuCtxCreate 0) =
       CUDA_ERROR 2
   \<and> status (um_main (sample_env (failing (cuCtxCreate 0) 2) 1024 exact_sums)) =
       Some (Exit (- 1))
   \<and> trace (um_main (sample_env (failing (cuCtxCreate 0) 2) 1024 exact_sums)) =
       ([Stdout ''- Initializing...\<newline>'' []] @
        head_events (sample_env (failing (cuCtxCreate 0) 2) 1024 exact_sums) @
        [Call (cuDeviceGetAttribute CU_DEVICE_ATTRIBUTE_UNIFIED_ADDRESSING),
         Stdout ''  Unified Virtual Addressing is supported on this device\<newline>'' []]) @
       Call (cuCtxCreate 0) #
       [Stderr ''* Error initializing the CUDA context.\<newline>'' [], Call cuCtxDestroy]
   \<and> hand_tested (cuInit 0)
   \<and> drv_result (sample_env (failing (cuInit 0) 100) 1024 exact_sums) (cuInit 0) =
       CUDA_ERROR 100
   \<and> status (da_main (sample_env (failing (cuInit 0) 100) 1024 exact_sums)) =
       Some (Exit (- 1))
   \<and> trace (da_main (sample_env (failing (cuInit 0) 100) 1024 exact_sums)) =
       (init_writes (sample_env (failing (cuInit 0) 100) 1024 exact_sums) @
        [Stdout ''- Initializing...\<newline>'' []]) @
       Call (cuInit 0) #
       [Stderr ''Error: no devices supporting CUDA\<newline>'' []]"
proof -
  have ra: "drv_result (sample_env (failing (cuMemAlloc VB 40) 2) 1024 exact_sums) (cuMemAlloc VB 40) = CUDA_ERROR 2"
    by (simp add: sample_env_def failing_def)
  have sa: "status (da_main (sample_env (failing (cuMemAlloc VB 40) 2) 1024 exact_sums)) = Some (Exit (- 1))"
    using wrapped_calls_report_and_exit[of "sample_env (failing (cuMemAlloc VB 40) 2) 1024 exact_sums"
        "init_writes (sample_env (failing (cuMemAlloc VB 40) 2) 1024 exact_sums) @
        [Stdout ''- Initializing...\<newline>'' []] @
        head_events (sample_env (failing (cuMemAlloc VB 40) 2) 1024 exact_sums) @
        [Call (cuCtxCreate 0), Call (cuModuleLoad module_file),
         Call (cuModuleGetFunction kernel_name), Call (cuMemAlloc VA 40)]"
        "cuMemAlloc VB 40"
        "[Stderr ''CUDA Driver API error = %04d from file <%s>, line %i.\<newline>''
          [ArgRes (CUDA_ERROR 2), ArgStr ''driver_api.cpp'', ArgInt 104]]"]
      alloc_failure_trace ra
    by simp
  have rm: "drv_result (sample_env (failing (cuModuleLoad module_file) 3) 1024 exact_sums) (cuModuleLoad module_file) = CUDA_ERROR 3"
    by (simp add: sample_env_def failing_def)
  have sm: "status (um_main (sample_env (failing (cuModuleLoad module_file) 3) 1024 exact_sums)) = Some (Exit (- 1))"
    using wrapped_calls_report_and_exit[of "sample_env (failing (cuModuleLoad module_file) 3) 1024 exact_sums"
        "[Stdout ''- Initializing...\<newline>'' []] @
        head_events (sample_env (failing (cuModuleLoad module_file) 3) 1024 exact_sums) @
        [Call (cuDeviceGetAttribute CU_DEVICE_ATTRIBUTE_UNIFIED_ADDRESSING),
         Stdout ''  Unified Virtual Addressing is supported on this device\<newline>'' [],
         Call (cuCtxCreate 0)]"
        "cuModuleLoad module_file"
        "[Stderr ''* Error loading the module %s\<newline>'' [ArgStr ''kernel.ptx''],
        Call cuCtxDestroy]"]
      module_failure_trace rm
    by simp
  have rf: "drv_result (sample_env (failing (cuModuleGetFunction kernel_name) 4) 1024 exact_sums) (cuModuleGetFunction kernel_name) = CUDA_ERROR 4"
    by (simp add: sample_env_def failing_def)
  have sf: "status (da_main (sample_env (failing (cuModuleGetFunction kernel_name) 4) 1024 exact_sums)) = Some (Exit (- 1))"
    using wrapped_calls_report_and_exit[of "sample_env (failing (cuModuleGetFunction kernel_name) 4) 1024 exact_sums"
        "init_writes (sample_env (failing (cuModuleGetFunction kernel_name) 4) 1024 exact_sums) @
        [Stdout ''- Initializing...\<newline>'' []] @
        head_events (sample_env (failing (cuModuleGetFunction kernel_name) 4) 1024 exact_sums) @
        [Call (cuCtxCreate 0), Call (cuModuleLoad module_file)]"
        "cuModuleGetFunction kernel_name"
        "[Stderr ''* Error getting kernel function %s\<newline>'' [ArgStr ''Sum''],
        Call cuCtxDestroy]"]
      function_failure_trace rf
    by simp
  have rc: "drv_result (sample_env (failing (cuCtxCreate 0) 2) 1024 exact_sums) (cuCtxCreate 0) = CUDA_ERROR 2"
    by (simp add: sample_env_def failing_def)
  have sc: "status (um_main (sample_env (failing (cuCtxCreate 0) 2) 1024 exact_sums)) = Some (Exit (- 1))"
    using wrapped_calls_report_and_exit[of "sample_env (failing (cuCtxCreate 0) 2) 1024 exact_sums"
        "[Stdout ''- Initializing...\<newline>'' []] @
        head_events (sample_env (failing (cuCtxCreate 0) 2) 1024 exact_sums) @
        [Call (cuDeviceGetAttribute CU_DEVICE_ATTRIBUTE_UNIFIED_ADDRESSING),
         Stdout ''  Unified Virtual Addressing is supported on this device\<newline>'' []]"
        "cuCtxCreate 0"
        "[Stderr ''* Error initializing the CUDA context.\<newline>'' [], Call cuCtxDestroy]"]
      context_failure_trace rc
    by simp
  have ri: "drv_result (sample_env (failing (cuInit 0) 100) 1024 exact_sums) (cuInit 0) = CUDA_ERROR 100"
    by (simp add: sample_env_def failing_def)
  have si: "status (da_main (sample_env (failing (cuInit 0) 100) 1024 exact_sums)) = Some (Exit (- 1))"
    using wrapped_calls_report_and_exit[of "sample_env (failing (cuInit 0) 100) 1024 exact_sums"
        "init_writes (sample_env (failing (cuInit 0) 100) 1024 exact_sums) @
        [Stdout ''- Initializing...\<newline>'' []]"
        "cuInit 0"
        "[Stderr ''Error: no devices supporting CUDA\<newline>'' []]"]
      init_failure_trace ri
    by simp
  show ?thesis
    using ra rm rf rc ri sa sm sf sc si alloc_failure_trace module_failure_trace
      function_failure_trace context_failure_trace init_failure_trace
    by simp
qed


section \<open>The order of the steps\<close>

lemma map_filter_append: "List.map_filter f (xs @ ys) = List.map_filter f xs @ List.map_filter f ys"
  by (simp add: List.map_filter_def)

lemma block:
  assumes "es \<noteq> []" and "\<And>e. e \<in> set es \<Longrightarrow> phase_of e = Some p"
  shows "\<exists>ws. List.map_filter phase_of es = p # ws \<and> set ws \<subseteq> {p}"
proof -
  have all: "set (List.map_filter phase_of es) \<subseteq> {p}"
    using assms(2) by (auto simp: List.map_filter_def)
  obtain e es' where es: "es = e # es'"
    using assms(1) by (cases es) auto
  then have "phase_of e = Some p"
    using assms(2) by simp
  then have "List.map_filter phase_of es = p # List.map_filter phase_of es'"
    using es by simp
  then show ?thesis
    using all by auto
qed

lemma remdups_adj_block: "set xs \<subseteq> {p} \<Longrightarrow> remdups_adj (p # xs @ ys) = remdups_adj (p # ys)"
  by (induction xs) auto

lemma writes_block:
  "\<exists>ws. List.map_filter phase_of (init_writes d) = Populate # ws \<and> set ws \<subseteq> {Populate}"
proof (rule block)
  have "HostWrite VA 0 (c_sub N 0) \<in> set (init_writes d)"
    by (simp add: host_arrays init_round_def N_def)
  then show "init_writes d \<noteq> []"
    by auto
  show "phase_of e = Some Populate" if "e \<in> set (init_writes d)" for e
    using init_writes_events[OF that] by auto
qed

lemma checks_block:
  "set (List.map_filter phase_of (checks d)) \<subseteq> {Inspect}"
  by (auto simp: List.map_filter_def error_line_def dest!: checks_events)


lemma da_phases:
  assumes ok: "da_ok d"
  shows "phases (trace (da_main d)) =
           [Populate, Initialize, Allocate, Populate, Launch, Inspect, Release]"
proof -
  obtain ws where w: "List.map_filter phase_of (init_writes d) = Populate # ws"
      "set ws \<subseteq> {Populate}"
    using writes_block by blast
  obtain g where l: "launch_calls d =
      [cuLaunchKernel (uint32 g) 1 1 (uint32 (drv_attr d CU_DEVICE_ATTRIBUTE_MAX_BLOCK_DIM_X))
         1 1 0 0 N]"
    using da_ok_launch[OF ok] by blast
  note c = checks_block[of d]
  have "List.map_filter phase_of (trace (da_main d)) =
      Populate # ws @
      [Initialize, Initialize, Initialize, Initialize, Initialize, Initialize, Initialize,
       Initialize, Initialize, Initialize,
       Allocate, Allocate, Allocate, Populate, Populate, Launch, Launch] @
      Inspect # List.map_filter phase_of (checks d) @
      [Release, Release, Release, Release]"
    by (simp add: da_main_ok[OF ok] trace_def head_events_def map_filter_append w l)
  then show ?thesis
    by (simp add: phases_def remdups_adj_block[OF w(2)] remdups_adj_block[OF c])
qed

lemma um_phases:
  assumes ok: "um_ok d"
  shows "phases (trace (um_main d)) = [Initialize, Allocate, Populate, Launch, Inspect, Release]"
proof -
  obtain ws where w: "List.map_filter phase_of (init_writes d) = Populate # ws"
      "set ws \<subseteq> {Populate}"
    using writes_block by blast
  obtain g where l: "launch_calls d =
      [cuLaunchKernel (uint32 g) 1 1 (uint32 (drv_attr d CU_DEVICE_ATTRIBUTE_MAX_BLOCK_DIM_X))
         1 1 0 0 N]"
    using um_ok_launch[OF ok] by blast
  have "HostRead VC 0 \<in> set (checks d)"
    by (simp add: checks_def check_round_def N_def) (rule bexI[of _ 0], simp_all)
  then have "Inspect \<in> set (List.map_filter phase_of (checks d))"
    by (force simp: List.map_filter_def)
  then obtain cs where c: "List.map_filter phase_of (checks d) = Inspect # cs"
      "set cs \<subseteq> {Inspect}"
    using checks_block[of d] by (cases "List.map_filter phase_of (checks d)") auto
  have v: "phase_of (verdict d) = None"
    by (simp add: verdict_def)
  have "List.map_filter phase_of (trace (um_main d)) =
      [Initialize, Initialize, Initialize, Initialize, Initialize, Initialize, Initialize,
       Initialize, Initialize, Initialize, Initialize,
       Allocate, Allocate, Allocate] @
      Populate # ws @ [Launch, Launch, Launch] @
      Inspect # (cs @ Inspect # cs) @
      [Release, Release, Release, Release]"
    by (simp add: um_main_ok[OF ok] trace_def head_events_def map_filter_append w l c v)
  then show ?thesis
    by (simp add: phases_def remdups_adj_block[OF w(2)] remdups_adj_block[OF c(2)])
qed


text \<open>
  C5 as stated fails for the driver-API program: with every call succeeding, its first
  event is the store \<open>a[0] = 10\<close>, all the stores to the input arrays come before
  \<open>cuInit\<close>, the first call of the initialisation, and so its steps do not start with
  the initialisation.
\<close>

theorem driver_api_populates_before_init:
  "da_ok (sample_env all_success 1024 exact_sums)
   \<and> hd (trace (da_main (sample_env all_success 1024 exact_sums))) = HostWrite VA 0 10
   \<and> takeWhile (\<lambda>e. e \<noteq> Call (cuInit 0)) (trace (da_main (sample_env all_success 1024 exact_sums)))
       = init_writes (sample_env all_success 1024 exact_sums) @
         [Stdout ''- Initializing...\<newline>'' []]
   \<and> length (init_writes (sample_env all_success 1024 exact_sums)) = 20
   \<and> phases (trace (da_main (sample_env all_success 1024 exact_sums))) =
       [Populate, Initialize, Allocate, Populate, Launch, Inspect, Release]
   \<and> phases (trace (da_main (sample_env all_success 1024 exact_sums))) \<noteq>
       [Initialize, Allocate, Populate, Launch, Inspect, Release]"
proof -
  let ?d = "sample_env all_success 1024 exact_sums"
  have ok: "da_ok ?d"
    by (rule sample_ok)
  have up: "[0..9] = [0, 1, 2, 3, 4, 5, 6, 7, 8, 9 :: int]"
    by (simp add: upto_rec1)
  have w: "init_writes ?d =
      [HostWrite VA 0 10, HostWrite VB 0 0, HostWrite VA 1 9, HostWrite VB 1 1,
       HostWrite VA 2 8, HostWrite VB 2 4, HostWrite VA 3 7, HostWrite VB 3 9,
       HostWrite VA 4 6, HostWrite VB 4 16, HostWrite VA 5 5, HostWrite VB 5 25,
       HostWrite VA 6 4, HostWrite VB 6 36, HostWrite VA 7 3, HostWrite VB 7 49,
       HostWrite VA 8 2, HostWrite VB 8 64, HostWrite VA 9 1, HostWrite VB 9 81]"
    by (simp add: init_writes_exact N_def up)
  have nw: "list_all (\<lambda>e. e \<noteq> Call (cuInit 0)) (init_writes ?d @ [Stdout ''- Initializing...\<newline>'' []])"
    by (simp add: w)
  obtain rest where t: "trace (da_main ?d) =
      (init_writes ?d @ [Stdout ''- Initializing...\<newline>'' []]) @ Call (cuInit 0) # rest"
    by (simp add: da_main_ok[OF ok] trace_def head_events_def)
  have tw: "takeWhile (\<lambda>e. e \<noteq> Call (cuInit 0)) (trace (da_main ?d)) =
      init_writes ?d @ [Stdout ''- Initializing...\<newline>'' []]"
    by (subst t) (simp add: takeWhile_all[OF nw] del: append_assoc)
  have h: "hd (trace (da_main ?d)) = HostWrite VA 0 10"
    by (simp add: da_main_ok[OF ok] trace_def w)
  show ?thesis
    using ok tw h by (simp add: da_phases[OF ok] w)
qed


subsection \<open>The events of each step\<close>

lemma loads_of_round:
  "filter (\<lambda>e. \<not> is_print e) (check_round a b c i) =
     [HostRead VC i, HostRead VA i, HostRead VB i] @
     (if mismatch a b c i then [HostRead VA i, HostRead VB i, HostRead VC i] else [])"
  by (simp add: check_round_def error_line_def is_print_def is_stdout_def is_stderr_def)

lemma loads_of_checks: "filter (\<lambda>e. \<not> is_print e) (checks d) = check_loads d"
  by (simp add: checks_def check_loads_def filter_concat comp_def loads_of_round)

lemma steps_of_writes: "filter (\<lambda>e. \<not> is_print e) (init_writes d) = init_writes d"
  by (auto simp: filter_id_conv is_print_def is_stdout_def is_stderr_def
      dest!: init_writes_events)

lemma steps_of_calls: "filter (\<lambda>e. \<not> is_print e) (map Call cs) = map Call cs"
  by (simp add: filter_id_conv is_print_def is_stdout_def is_stderr_def)

lemma da_steps:
  assumes ok: "da_ok d"
  shows "filter (\<lambda>e. \<not> is_print e) (trace (da_main d)) =
      init_writes d @
      map Call [cuInit 0, cuDeviceGetCount, cuDeviceGet 0, cuDeviceGetName 100,
                cuDeviceGetAttribute CU_DEVICE_ATTRIBUTE_COMPUTE_CAPABILITY_MAJOR,
                cuDeviceGetAttribute CU_DEVICE_ATTRIBUTE_COMPUTE_CAPABILITY_MINOR,
                cuDeviceTotalMem, cuCtxCreate 0, cuModuleLoad module_file,
                cuModuleGetFunction kernel_name] @
      map Call [cuMemAlloc VA 40, cuMemAlloc VB 40, cuMemAlloc VC 40] @
      map Call [cuMemcpyHtoD VA 40, cuMemcpyHtoD VB 40] @
      map Call (cuDeviceGetAttribute CU_DEVICE_ATTRIBUTE_MAX_BLOCK_DIM_X # launch_calls d) @
      Call (cuMemcpyDtoH VC 40) # check_loads d @
      map Call [cuMemFree VA, cuMemFree VB, cuMemFree VC, cuCtxDestroy]"
proof -
  have p: "\<not> is_print (Call c)" "is_print (Stdout f as)" for c f as
    by (simp_all add: is_print_def is_stdout_def is_stderr_def)
  show ?thesis
    by (simp add: da_main_ok[OF ok] trace_def head_events_def steps_of_writes steps_of_calls
        loads_of_checks p)
qed

lemma um_steps:
  assumes ok: "um_ok d"
  shows "filter (\<lambda>e. \<not> is_print e) (trace (um_main d)) =
      map Call [cuInit 0, cuDeviceGetCount, cuDeviceGet 0, cuDeviceGetName 100,
                cuDeviceGetAttribute CU_DEVICE_ATTRIBUTE_COMPUTE_CAPABILITY_MAJOR,
                cuDeviceGetAttribute CU_DEVICE_ATTRIBUTE_COMPUTE_CAPABILITY_MINOR,
                cuDeviceTotalMem,
                cuDeviceGetAttribute CU_DEVICE_ATTRIBUTE_UNIFIED_ADDRESSING,
                cuCtxCreate 0, cuModuleLoad module_file,
                cuModuleGetFunction kernel_name] @
      map Call [cuMemAllocHost VA 40, cuMemAllocHost VB 40, cuMemAllocHost VC 40] @
      init_writes d @
      map Call (cuDeviceGetAttribute CU_DEVICE_ATTRIBUTE_MAX_BLOCK_DIM_X # launch_calls d) @
      Call (cuStreamSynchronize 0) # check_loads d @ check_loads d @
      map Call [cuMemFreeHost VA, cuMemFreeHost VB, cuMemFreeHost VC, cuCtxDestroy]"
proof -
  have p: "\<not> is_print (Call c)" "is_print (Stdout f as)" "is_print (verdict d)" for c f as
    by (simp_all add: is_print_def is_stdout_def is_stderr_def verdict_def)
  show ?thesis
    by (simp add: um_main_ok[OF ok] trace_def head_events_def steps_of_writes steps_of_calls
        loads_of_checks p)
qed


text \<open>
  C5, as amended. In a run in which nothing fails, the unified-memory program
  initialises its handles, then allocates the buffers, then populates the input arrays,
  then launches the kernel once, then inspects the output, then releases everything.
  The driver-API program populates the host input arrays first, before it initialises
  its handles; it then initialises, allocates, populates the device buffers by copying
  the host arrays, launches the kernel once, inspects the output and releases
  everything. In both, the inputs are populated before the launch and initialisation
  comes before allocation.

  Both orders are stated twice: as the list of the steps, and as the exact list of the
  events of the run other than printing. The second program calls \<open>cuInit\<close> to
  \<open>cuModuleGetFunction\<close>, allocates the three pinned vectors, stores \<open>a[j]\<close> and
  \<open>b[j]\<close> for \<open>j\<close> from 0 to 9, asks for the block size and launches, synchronises,
  loads the vectors in two passes of the checking loop, frees the three vectors and
  destroys the context. The first program makes the same stores before \<open>cuInit\<close>, then
  initialises, allocates the three device vectors, copies \<open>a\<close> and \<open>b\<close> to the device,
  asks for the block size and launches, copies \<open>c\<close> back, loads the vectors in one pass
  of the checking loop, frees the three device vectors and destroys the context.
\<close>

theorem procedure_steps_in_order:
  "(um_ok d \<longrightarrow>
      phases (trace (um_main d)) = [Initialize, Allocate, Populate, Launch, Inspect, Release]
      \<and> length (filter is_launch (trace (um_main d))) = 1
      \<and> length (launch_calls d) = 1
      \<and> filter (\<lambda>e. \<not> is_print e) (trace (um_main d)) =
          map Call [cuInit 0, cuDeviceGetCount, cuDeviceGet 0, cuDeviceGetName 100,
                    cuDeviceGetAttribute CU_DEVICE_ATTRIBUTE_COMPUTE_CAPABILITY_MAJOR,
                    cuDeviceGetAttribute CU_DEVICE_ATTRIBUTE_COMPUTE_CAPABILITY_MINOR,
                    cuDeviceTotalMem,
                    cuDeviceGetAttribute CU_DEVICE_ATTRIBUTE_UNIFIED_ADDRESSING,
                    cuCtxCreate 0, cuModuleLoad module_file,
                    cuModuleGetFunction kernel_name] @
          map Call [cuMemAllocHost VA 40, cuMemAllocHost VB 40, cuMemAllocHost VC 40] @
          concat (map (\<lambda>j. [HostWrite VA j (10 - j), HostWrite VB j (j * j)]) [0..9]) @
          map Call (cuDeviceGetAttribute CU_DEVICE_ATTRIBUTE_MAX_BLOCK_DIM_X #
                    launch_calls d) @
          Call (cuStreamSynchronize 0) # check_loads d @ check_loads d @
          map Call [cuMemFreeHost VA, cuMemFreeHost VB, cuMemFreeHost VC, cuCtxDestroy])
   \<and> (da_ok d \<longrightarrow>
      phases (trace (da_main d)) =
        [Populate, Initialize, Allocate, Populate, Launch, Inspect, Release]
      \<and> length (filter is_launch (trace (da_main d))) = 1
      \<and> length (launch_calls d) = 1
      \<and> filter (\<lambda>e. \<not> is_print e) (trace (da_main d)) =
          concat (map (\<lambda>j. [HostWrite VA j (10 - j), HostWrite VB j (j * j)]) [0..9]) @
          map Call [cuInit 0, cuDeviceGetCount, cuDeviceGet 0, cuDeviceGetName 100,
                    cuDeviceGetAttribute CU_DEVICE_ATTRIBUTE_COMPUTE_CAPABILITY_MAJOR,
                    cuDeviceGetAttribute CU_DEVICE_ATTRIBUTE_COMPUTE_CAPABILITY_MINOR,
                    cuDeviceTotalMem, cuCtxCreate 0, cuModuleLoad module_file,
                    cuModuleGetFunction kernel_name] @
          map Call [cuMemAlloc VA 40, cuMemAlloc VB 40, cuMemAlloc VC 40] @
          map Call [cuMemcpyHtoD VA 40, cuMemcpyHtoD VB 40] @
          map Call (cuDeviceGetAttribute CU_DEVICE_ATTRIBUTE_MAX_BLOCK_DIM_X #
                    launch_calls d) @
          Call (cuMemcpyDtoH VC 40) # check_loads d @
          map Call [cuMemFree VA, cuMemFree VB, cuMemFree VC, cuCtxDestroy])"
proof -
  have w: "init_writes d =
      concat (map (\<lambda>j. [HostWrite VA j (10 - j), HostWrite VB j (j * j)]) [0..9])"
    using init_writes_exact[of d] by (simp add: N_def)
  have um: "phases (trace (um_main d)) = [Initialize, Allocate, Populate, Launch, Inspect, Release]
      \<and> length (filter is_launch (trace (um_main d))) = 1
      \<and> length (launch_calls d) = 1
      \<and> filter (\<lambda>e. \<not> is_print e) (trace (um_main d)) =
          map Call [cuInit 0, cuDeviceGetCount, cuDeviceGet 0, cuDeviceGetName 100,
                    cuDeviceGetAttribute CU_DEVICE_ATTRIBUTE_COMPUTE_CAPABILITY_MAJOR,
                    cuDeviceGetAttribute CU_DEVICE_ATTRIBUTE_COMPUTE_CAPABILITY_MINOR,
                    cuDeviceTotalMem,
                    cuDeviceGetAttribute CU_DEVICE_ATTRIBUTE_UNIFIED_ADDRESSING,
                    cuCtxCreate 0, cuModuleLoad module_file,
                    cuModuleGetFunction kernel_name] @
          map Call [cuMemAllocHost VA 40, cuMemAllocHost VB 40, cuMemAllocHost VC 40] @
          concat (map (\<lambda>j. [HostWrite VA j (10 - j), HostWrite VB j (j * j)]) [0..9]) @
          map Call (cuDeviceGetAttribute CU_DEVICE_ATTRIBUTE_MAX_BLOCK_DIM_X #
                    launch_calls d) @
          Call (cuStreamSynchronize 0) # check_loads d @ check_loads d @
          map Call [cuMemFreeHost VA, cuMemFreeHost VB, cuMemFreeHost VC, cuCtxDestroy]" if ok: "um_ok d"
  proof -
    have "length (launch_calls d) = 1"
      using um_ok_launch[OF ok] by auto
    then show ?thesis
      using um_phases[OF ok] one_launch(2)[OF ok] um_steps[OF ok] unfolding w by blast
  qed
  have da: "phases (trace (da_main d)) =
        [Populate, Initialize, Allocate, Populate, Launch, Inspect, Release]
      \<and> length (filter is_launch (trace (da_main d))) = 1
      \<and> length (launch_calls d) = 1
      \<and> filter (\<lambda>e. \<not> is_print e) (trace (da_main d)) =
          concat (map (\<lambda>j. [HostWrite VA j (10 - j), HostWrite VB j (j * j)]) [0..9]) @
          map Call [cuInit 0, cuDeviceGetCount, cuDeviceGet 0, cuDeviceGetName 100,
                    cuDeviceGetAttribute CU_DEVICE_ATTRIBUTE_COMPUTE_CAPABILITY_MAJOR,
                    cuDeviceGetAttribute CU_DEVICE_ATTRIBUTE_COMPUTE_CAPABILITY_MINOR,
                    cuDeviceTotalMem, cuCtxCreate 0, cuModuleLoad module_file,
                    cuModuleGetFunction kernel_name] @
          map Call [cuMemAlloc VA 40, cuMemAlloc VB 40, cuMemAlloc VC 40] @
          map Call [cuMemcpyHtoD VA 40, cuMemcpyHtoD VB 40] @
          map Call (cuDeviceGetAttribute CU_DEVICE_ATTRIBUTE_MAX_BLOCK_DIM_X #
                    launch_calls d) @
          Call (cuMemcpyDtoH VC 40) # check_loads d @
          map Call [cuMemFree VA, cuMemFree VB, cuMemFree VC, cuCtxDestroy]" if ok: "da_ok d"
  proof -
    have "length (launch_calls d) = 1"
      using da_ok_launch[OF ok] by auto
    then show ?thesis
      using da_phases[OF ok] one_launch(1)[OF ok] da_steps[OF ok] unfolding w by blast
  qed
  show ?thesis
    using um da by blast
qed

theorem procedure_steps_in_order_witness:
  "um_ok (sample_env all_success 1024 wrong_at_3)
   \<and> da_ok (sample_env all_success 1024 wrong_at_3)
   \<and> phases (trace (um_main (sample_env all_success 1024 wrong_at_3))) =
       [Initialize, Allocate, Populate, Launch, Inspect, Release]
   \<and> phases (trace (da_main (sample_env all_success 1024 wrong_at_3))) =
       [Populate, Initialize, Allocate, Populate, Launch, Inspect, Release]
   \<and> length (filter is_launch (trace (um_main (sample_env all_success 1024 wrong_at_3)))) = 1
   \<and> length (filter is_launch (trace (da_main (sample_env all_success 1024 wrong_at_3)))) = 1
   \<and> take 3 (filter (\<lambda>e. \<not> is_print e) (trace (da_main (sample_env all_success 1024 wrong_at_3)))) =
       [HostWrite VA 0 10, HostWrite VB 0 0, HostWrite VA 1 9]
   \<and> take 3 (filter (\<lambda>e. \<not> is_print e) (trace (um_main (sample_env all_success 1024 wrong_at_3)))) =
       [Call (cuInit 0), Call cuDeviceGetCount, Call (cuDeviceGet 0)]
   \<and> last (filter (\<lambda>e. \<not> is_print e) (trace (da_main (sample_env all_success 1024 wrong_at_3)))) = Call cuCtxDestroy
   \<and> last (filter (\<lambda>e. \<not> is_print e) (trace (um_main (sample_env all_success 1024 wrong_at_3)))) = Call cuCtxDestroy"
  using procedure_steps_in_order[of "sample_env all_success 1024 wrong_at_3"]
  by (simp add: sample_ok upto_rec1)


subsection \<open>The three vectors and the bound\<close>

lemma writes_only_loop:
  "da_ok d \<Longrightarrow> filter is_write (trace (da_main d)) = init_writes d"
  "um_ok d \<Longrightarrow> filter is_write (trace (um_main d)) = init_writes d"
proof -
  have w: "filter is_write (init_writes d) = init_writes d"
    using writes_kinds[of d] by (simp add: list_all_iff filter_id_conv)
  have c: "filter is_write (checks d) = []"
    using checks_kinds[of d] by (auto intro!: filter_none elim: weaken_all)
  have l: "filter is_write (map Call cs) = []" for cs
    by (simp add: filter_empty_conv)
  show "filter is_write (trace (da_main d)) = init_writes d" if ok: "da_ok d"
    by (simp add: da_main_ok[OF ok] trace_def head_events_def w c l)
  show "filter is_write (trace (um_main d)) = init_writes d" if ok: "um_ok d"
    by (simp add: um_main_ok[OF ok] trace_def head_events_def w c l verdict_def)
qed

lemma loads_only_checks:
  "da_ok d \<Longrightarrow> touched (filter (\<lambda>e. \<not> is_write e) (trace (da_main d))) = UNIV \<times> {0..N - 1}"
  "um_ok d \<Longrightarrow> touched (filter (\<lambda>e. \<not> is_write e) (trace (um_main d))) = UNIV \<times> {0..N - 1}"
proof -
  have w: "filter (\<lambda>e. \<not> is_write e) (init_writes d) = []"
    using writes_kinds[of d] by (auto simp: filter_empty_conv list_all_iff)
  have c: "filter (\<lambda>e. \<not> is_write e) (checks d) = checks d"
    using checks_kinds[of d] by (simp add: list_all_iff filter_id_conv)
  have l: "filter (\<lambda>e. \<not> is_write e) (map Call cs) = map Call cs" for cs
    by (simp add: filter_id_conv)
  show "touched (filter (\<lambda>e. \<not> is_write e) (trace (da_main d))) = UNIV \<times> {0..N - 1}"
    if ok: "da_ok d"
    by (simp add: da_main_ok[OF ok] trace_def head_events_def w c l touched_append touched_Cons
        touched_Nil touched_calls touched_checks)
  show "touched (filter (\<lambda>e. \<not> is_write e) (trace (um_main d))) = UNIV \<times> {0..N - 1}"
    if ok: "um_ok d"
    by (simp add: um_main_ok[OF ok] trace_def head_events_def w c l touched_append touched_Cons
        touched_Nil touched_calls touched_checks verdict_def)
qed

lemma output_loads_round:
  "filter is_output_read (check_round a b c i) =
     (if mismatch a b c i then [HostRead VC i, HostRead VC i] else [HostRead VC i])"
  by (simp add: check_round_def error_line_def)

lemma one_pass:
  "distinct js \<Longrightarrow>
     remdups_adj (filter is_output_read (concat (map (check_round a b c) js)) @ ys) =
     remdups_adj (map (HostRead VC) js @ ys)"
proof (induction js)
  case Nil
  then show ?case by simp
next
  case (Cons i js)
  have "remdups_adj (filter is_output_read (check_round a b c i) @ zs) =
        remdups_adj (HostRead VC i # zs)" for zs
    by (simp add: output_loads_round)
  then show ?case
    using Cons by (simp add: remdups_adj_Cons split: list.splits)
qed


lemma upto_0_9: "[0..9] = [0, 1, 2, 3, 4, 5, 6, 7, 8, 9 :: int]"
  by (simp add: upto_rec1)

lemma output_loads:
  "da_ok d \<Longrightarrow>
     remdups_adj (filter is_output_read (trace (da_main d))) = map (HostRead VC) [0..9]"
  "um_ok d \<Longrightarrow>
     remdups_adj (filter is_output_read (trace (um_main d))) =
       map (HostRead VC) [0..9] @ map (HostRead VC) [0..9]"
proof -
  have w: "filter is_output_read (init_writes d) = []"
    using writes_kinds[of d] by (auto intro!: filter_none elim: weaken_all)
  have l: "filter is_output_read (map Call cs) = []" for cs
    by (simp add: filter_empty_conv)
  have p: "remdups_adj (filter is_output_read (checks d) @ ys) =
      remdups_adj (map (HostRead VC) [0..9] @ ys)" for ys
    using one_pass[of "[0..N - 1]" "host_a d" "host_b d" "drv_output d" ys]
    by (simp add: checks_def N_def)
  show "remdups_adj (filter is_output_read (trace (da_main d))) = map (HostRead VC) [0..9]"
    if ok: "da_ok d"
    using p[of "[]"]
    by (simp add: da_main_ok[OF ok] trace_def head_events_def w l upto_0_9)
  have "remdups_adj (filter is_output_read (checks d) @ filter is_output_read (checks d)) =
      map (HostRead VC) [0..9] @ map (HostRead VC) [0..9]"
    unfolding p using p[of "[]"] by (simp add: upto_0_9 remdups_adj_Cons)
  then show "remdups_adj (filter is_output_read (trace (um_main d))) =
       map (HostRead VC) [0..9] @ map (HostRead VC) [0..9]" if ok: "um_ok d"
    by (simp add: um_main_ok[OF ok] trace_def head_events_def w l verdict_def)
qed

lemma allocs_and_copies:
  "da_ok d \<Longrightarrow> filter is_alloc (trace (da_main d)) =
          [Call (cuMemAlloc VA 40), Call (cuMemAlloc VB 40), Call (cuMemAlloc VC 40)]"
  "da_ok d \<Longrightarrow> filter is_copy (trace (da_main d)) =
          [Call (cuMemcpyHtoD VA 40), Call (cuMemcpyHtoD VB 40), Call (cuMemcpyDtoH VC 40)]"
  "um_ok d \<Longrightarrow> filter is_alloc (trace (um_main d)) =
          [Call (cuMemAllocHost VA 40), Call (cuMemAllocHost VB 40),
           Call (cuMemAllocHost VC 40)]"
  "um_ok d \<Longrightarrow> filter is_copy (trace (um_main d)) = []"
proof -
  show "filter is_alloc (trace (da_main d)) =
          [Call (cuMemAlloc VA 40), Call (cuMemAlloc VB 40), Call (cuMemAlloc VC 40)]"
    if ok: "da_ok d"
    by (simp add: da_main_ok[OF ok] trace_def head_events_def filter_calls_writes
        filter_calls_checks filter_calls_launch)
  show "filter is_copy (trace (da_main d)) =
          [Call (cuMemcpyHtoD VA 40), Call (cuMemcpyHtoD VB 40), Call (cuMemcpyDtoH VC 40)]"
    if ok: "da_ok d"
    by (simp add: da_main_ok[OF ok] trace_def head_events_def filter_calls_writes
        filter_calls_checks filter_calls_launch)
  show "filter is_alloc (trace (um_main d)) =
          [Call (cuMemAllocHost VA 40), Call (cuMemAllocHost VB 40),
           Call (cuMemAllocHost VC 40)]" if ok: "um_ok d"
    by (simp add: um_main_ok[OF ok] trace_def head_events_def filter_calls_writes
        filter_calls_checks filter_calls_launch verdict_def)
  show "filter is_copy (trace (um_main d)) = []" if ok: "um_ok d"
    by (simp add: um_main_ok[OF ok] trace_def head_events_def filter_calls_writes
        filter_calls_checks filter_calls_launch verdict_def)
qed

lemma touched_all:
  "da_ok d \<Longrightarrow> touched (trace (da_main d)) = UNIV \<times> {0..N - 1}"
  "um_ok d \<Longrightarrow> touched (trace (um_main d)) = UNIV \<times> {0..N - 1}"
proof -
  show "touched (trace (da_main d)) = UNIV \<times> {0..N - 1}" if ok: "da_ok d"
    by (auto simp add: da_main_ok[OF ok] trace_def head_events_def touched_append touched_Cons
        touched_Nil touched_calls touched_writes touched_checks)
  show "touched (trace (um_main d)) = UNIV \<times> {0..N - 1}" if ok: "um_ok d"
    by (auto simp add: um_main_ok[OF ok] trace_def head_events_def touched_append touched_Cons
        touched_Nil touched_calls touched_writes touched_checks verdict_def)
qed

text \<open>
  C8. Each program works on the three vectors \<open>a\<close>, \<open>b\<close>, \<open>c\<close> with the one bound
  \<open>N = 10\<close>. In every run, whatever the driver answers, each allocation and each copy
  is of 10 integers (40 bytes), each launch passes 10 to the kernel, and each store or
  load of the host is at an index from 0 to 9. In a run in which nothing fails there
  are exactly three allocations, one per vector, the copies are those of \<open>a\<close> and \<open>b\<close>
  to the device and of \<open>c\<close> back (none in the second program), and there is one launch.
  The stores of such a run are exactly those of the initialization loop, to \<open>a[j]\<close> and
  \<open>b[j]\<close> for \<open>j\<close> from 0 to 9 in turn, so that the elements stored to are the indices
  0 to 9 of \<open>a\<close> and \<open>b\<close>; the elements loaded from are the indices 0 to 9 of the three
  vectors; and the loads of the output go through the indices 0 to 9 in order, once in
  the first program and twice in the second.
\<close>

theorem three_arrays_of_ten:
  "N = 10
   \<and> list_all (uses_bound 10) (trace (da_main d))
   \<and> list_all (uses_bound 10) (trace (um_main d))
   \<and> (da_ok d \<longrightarrow>
        filter is_alloc (trace (da_main d)) =
          [Call (cuMemAlloc VA 40), Call (cuMemAlloc VB 40), Call (cuMemAlloc VC 40)]
        \<and> filter is_copy (trace (da_main d)) =
          [Call (cuMemcpyHtoD VA 40), Call (cuMemcpyHtoD VB 40), Call (cuMemcpyDtoH VC 40)]
        \<and> length (filter is_launch (trace (da_main d))) = 1
        \<and> touched (trace (da_main d)) = UNIV \<times> {0..9}
        \<and> filter is_write (trace (da_main d)) =
            concat (map (\<lambda>j. [HostWrite VA j (10 - j), HostWrite VB j (j * j)]) [0..9])
        \<and> touched (filter is_write (trace (da_main d))) = {VA, VB} \<times> {0..9}
        \<and> touched (filter (\<lambda>e. \<not> is_write e) (trace (da_main d))) = UNIV \<times> {0..9}
        \<and> remdups_adj (filter is_output_read (trace (da_main d))) =
            map (HostRead VC) [0..9])
   \<and> (um_ok d \<longrightarrow>
        filter is_alloc (trace (um_main d)) =
          [Call (cuMemAllocHost VA 40), Call (cuMemAllocHost VB 40),
           Call (cuMemAllocHost VC 40)]
        \<and> filter is_copy (trace (um_main d)) = []
        \<and> length (filter is_launch (trace (um_main d))) = 1
        \<and> touched (trace (um_main d)) = UNIV \<times> {0..9}
        \<and> filter is_write (trace (um_main d)) =
            concat (map (\<lambda>j. [HostWrite VA j (10 - j), HostWrite VB j (j * j)]) [0..9])
        \<and> touched (filter is_write (trace (um_main d))) = {VA, VB} \<times> {0..9}
        \<and> touched (filter (\<lambda>e. \<not> is_write e) (trace (um_main d))) = UNIV \<times> {0..9}
        \<and> remdups_adj (filter is_output_read (trace (um_main d))) =
            map (HostRead VC) [0..9] @ map (HostRead VC) [0..9])"
proof -
  have n: "N = 10" by (simp add: N_def)
  have w: "init_writes d =
      concat (map (\<lambda>j. [HostWrite VA j (10 - j), HostWrite VB j (j * j)]) [0..9])"
    using init_writes_exact[of d] by (simp add: n)
  have tw: "touched (init_writes d) = {VA, VB} \<times> {0..9}"
    using touched_writes[of d] by (simp add: n)
  have da: "filter is_alloc (trace (da_main d)) =
          [Call (cuMemAlloc VA 40), Call (cuMemAlloc VB 40), Call (cuMemAlloc VC 40)]
        \<and> filter is_copy (trace (da_main d)) =
          [Call (cuMemcpyHtoD VA 40), Call (cuMemcpyHtoD VB 40), Call (cuMemcpyDtoH VC 40)]
        \<and> length (filter is_launch (trace (da_main d))) = 1
        \<and> touched (trace (da_main d)) = UNIV \<times> {0..9}
        \<and> filter is_write (trace (da_main d)) =
            concat (map (\<lambda>j. [HostWrite VA j (10 - j), HostWrite VB j (j * j)]) [0..9])
        \<and> touched (filter is_write (trace (da_main d))) = {VA, VB} \<times> {0..9}
        \<and> touched (filter (\<lambda>e. \<not> is_write e) (trace (da_main d))) = UNIV \<times> {0..9}
        \<and> remdups_adj (filter is_output_read (trace (da_main d))) =
            map (HostRead VC) [0..9]" if ok: "da_ok d"
    using allocs_and_copies(1,2)[OF ok] one_launch(1)[OF ok] touched_all(1)[OF ok]
      writes_only_loop(1)[OF ok] loads_only_checks(1)[OF ok] output_loads(1)[OF ok] w tw
    by (simp add: n)
  have um: "filter is_alloc (trace (um_main d)) =
          [Call (cuMemAllocHost VA 40), Call (cuMemAllocHost VB 40),
           Call (cuMemAllocHost VC 40)]
        \<and> filter is_copy (trace (um_main d)) = []
        \<and> length (filter is_launch (trace (um_main d))) = 1
        \<and> touched (trace (um_main d)) = UNIV \<times> {0..9}
        \<and> filter is_write (trace (um_main d)) =
            concat (map (\<lambda>j. [HostWrite VA j (10 - j), HostWrite VB j (j * j)]) [0..9])
        \<and> touched (filter is_write (trace (um_main d))) = {VA, VB} \<times> {0..9}
        \<and> touched (filter (\<lambda>e. \<not> is_write e) (trace (um_main d))) = UNIV \<times> {0..9}
        \<and> remdups_adj (filter is_output_read (trace (um_main d))) =
            map (HostRead VC) [0..9] @ map (HostRead VC) [0..9]" if ok: "um_ok d"
    using allocs_and_copies(3,4)[OF ok] one_launch(2)[OF ok] touched_all(2)[OF ok]
      writes_only_loop(2)[OF ok] loads_only_checks(2)[OF ok] output_loads(2)[OF ok] w tw
    by (simp add: n)
  have b1: "list_all (uses_bound 10) (trace (da_main d))"
    using bound_da_main[of d] by (simp add: n)
  have b2: "list_all (uses_bound 10) (trace (um_main d))"
    using bound_um_main[of d] by (simp add: n)
  show ?thesis
    using n b1 b2 da um by blast
qed

theorem three_arrays_of_ten_witness:
  "da_ok (sample_env all_success 1024 wrong_at_3)
   \<and> um_ok (sample_env all_success 1024 wrong_at_3)
   \<and> list_all (uses_bound 10) (trace (da_main (sample_env all_success 1024 wrong_at_3)))
   \<and> list_all (uses_bound 10) (trace (um_main (sample_env all_success 1024 wrong_at_3)))
   \<and> filter is_alloc (trace (da_main (sample_env all_success 1024 wrong_at_3))) =
       [Call (cuMemAlloc VA 40), Call (cuMemAlloc VB 40), Call (cuMemAlloc VC 40)]
   \<and> filter is_alloc (trace (um_main (sample_env all_success 1024 wrong_at_3))) =
       [Call (cuMemAllocHost VA 40), Call (cuMemAllocHost VB 40), Call (cuMemAllocHost VC 40)]
   \<and> (VC, 9) \<in> touched (trace (da_main (sample_env all_success 1024 wrong_at_3)))
   \<and> (VC, 10) \<notin> touched (trace (da_main (sample_env all_success 1024 wrong_at_3)))
   \<and> (VA, 0) \<in> touched (trace (um_main (sample_env all_success 1024 wrong_at_3)))
   \<and> (VA, - 1) \<notin> touched (trace (um_main (sample_env all_success 1024 wrong_at_3)))
   \<and> (VA, 9) \<in> touched (filter is_write (trace (da_main (sample_env all_success 1024 wrong_at_3))))
   \<and> (VC, 9) \<notin> touched (filter is_write (trace (um_main (sample_env all_success 1024 wrong_at_3))))
   \<and> length (filter is_write (trace (da_main (sample_env all_success 1024 wrong_at_3)))) = 20
   \<and> length (filter is_write (trace (um_main (sample_env all_success 1024 wrong_at_3)))) = 20
   \<and> remdups_adj (filter is_output_read (trace (da_main (sample_env all_success 1024 wrong_at_3)))) =
       [HostRead VC 0, HostRead VC 1, HostRead VC 2, HostRead VC 3, HostRead VC 4,
        HostRead VC 5, HostRead VC 6, HostRead VC 7, HostRead VC 8, HostRead VC 9]"
  using three_arrays_of_ten[of "sample_env all_success 1024 wrong_at_3"]
  by (simp add: sample_ok N_def upto_0_9 touched_Cons touched_Nil)

end
